theory Spec2Isabelle
  imports Complex_Main "HOL-Library.Sublist"
begin

section \<open>Values, profile and run state of the Target content script\<close>

text \<open>
  The script under verification is \<^verbatim>\<open>sites/target/content-script.js\<close>. It is
  single-threaded JavaScript: a function runs without interruption until it reaches an
  \<^verbatim>\<open>await\<close>, and only there can another callback run. The model follows that:
  state variables of the closure are fields of a record, every effect on the outside
  (status sink, clicks, fills, timers, navigation) is appended to a log, and whatever
  the page or an external helper answers is a parameter.

  JavaScript values that the script tests for truthiness are kept as a small datatype.
  Numbers are the finite values a double can hold, read as rationals; \<^verbatim>\<open>NaN\<close> is
  not represented (no value the modelled code compares is \<^verbatim>\<open>NaN\<close>:
  \<^verbatim>\<open>extractPrice\<close> filters it out with \<^verbatim>\<open>isNaN\<close>).
\<close>

datatype jsval = JUndefined | JNull | JBool bool | JNum rat | JStr string

fun truthy :: "jsval \<Rightarrow> bool" where
  "truthy JUndefined = False"
| "truthy JNull = False"
| "truthy (JBool b) = b"
| "truthy (JNum n) = (n \<noteq> 0)"
| "truthy (JStr s) = (s \<noteq> [])"

text \<open>\<^verbatim>\<open>haystack.includes(needle)\<close> on strings.\<close>

fun str_includes :: "string \<Rightarrow> string \<Rightarrow> bool" where
  "str_includes [] needle = (needle = [])"
| "str_includes (c # cs) needle = (prefix needle (c # cs) \<or> str_includes cs needle)"

text \<open>
  A thrown value. Every \<^verbatim>\<open>throw\<close> of the script throws \<^verbatim>\<open>new Error(message)\<close>,
  and the handlers read only \<^verbatim>\<open>error.message\<close>.
\<close>

datatype exn = Error (message: string)

text \<open>
  The profile. Payment data may sit directly on the profile, under
  \<^verbatim>\<open>paymentMethod\<close> or under \<^verbatim>\<open>payment\<close>; a missing nested object is \<open>None\<close>.
\<close>

record payment_obj =
  nested_cvv :: jsval
  nested_cardNumber :: jsval

record profile_data =
  cvv :: jsval
  cardNumber :: jsval
  paymentMethod :: "payment_obj option"
  payment :: "payment_obj option"

text \<open>
  The three places of the specification's data model where a profile may hold its CVV:
  the profile itself, its payment-method object, its payment object. A missing
  profile, a missing object or a missing field gives \<^verbatim>\<open>undefined\<close>. These
  definitions state what the specification means by the three shapes; the lookups of
  the script further down are written from the source and do not use them.
\<close>

definition profile_cvv :: "profile_data option \<Rightarrow> jsval" where
  "profile_cvv p = (case p of None \<Rightarrow> JUndefined | Some q \<Rightarrow> cvv q)"

definition profile_paymentMethod_cvv :: "profile_data option \<Rightarrow> jsval" where
  "profile_paymentMethod_cvv p =
     (case p of None \<Rightarrow> JUndefined
      | Some q \<Rightarrow> (case paymentMethod q of None \<Rightarrow> JUndefined | Some m \<Rightarrow> nested_cvv m))"

definition profile_payment_cvv :: "profile_data option \<Rightarrow> jsval" where
  "profile_payment_cvv p =
     (case p of None \<Rightarrow> JUndefined
      | Some q \<Rightarrow> (case payment q of None \<Rightarrow> JUndefined | Some m \<Rightarrow> nested_cvv m))"

text \<open>The same three places for the card number.\<close>

definition profile_cardNumber :: "profile_data option \<Rightarrow> jsval" where
  "profile_cardNumber p = (case p of None \<Rightarrow> JUndefined | Some q \<Rightarrow> cardNumber q)"

definition profile_paymentMethod_cardNumber :: "profile_data option \<Rightarrow> jsval" where
  "profile_paymentMethod_cardNumber p =
     (case p of None \<Rightarrow> JUndefined
      | Some q \<Rightarrow> (case paymentMethod q of None \<Rightarrow> JUndefined | Some m \<Rightarrow> nested_cardNumber m))"

definition profile_payment_cardNumber :: "profile_data option \<Rightarrow> jsval" where
  \<comment> \<open>the card lookup of the script never reads this place\<close>
  "profile_payment_cardNumber p =
     (case p of None \<Rightarrow> JUndefined
      | Some q \<Rightarrow> (case payment q of None \<Rightarrow> JUndefined | Some m \<Rightarrow> nested_cardNumber m))"

subsection \<open>Resolution of the CVV and of the card number\<close>

text \<open>
  The local \<^verbatim>\<open>cvv\<close> of \<^verbatim>\<open>handleCVVConfirmation\<close> after its lookup:

  \<^verbatim>\<open>let cvv = null;\<close>
  \<^verbatim>\<open>if (profile?.cvv) { cvv = profile.cvv; }\<close>
  \<^verbatim>\<open>else if (profile?.paymentMethod?.cvv) { cvv = profile.paymentMethod.cvv; }\<close>
  \<^verbatim>\<open>else if (profile?.payment?.cvv) { cvv = profile.payment.cvv; }\<close>

  With \<^verbatim>\<open>profile\<close> being \<^verbatim>\<open>null\<close> every test reads \<^verbatim>\<open>undefined\<close> and the
  variable stays \<^verbatim>\<open>null\<close>; a missing nested object makes its test read
  \<^verbatim>\<open>undefined\<close> as well.
\<close>

definition handleCVVConfirmation_cvv :: "profile_data option \<Rightarrow> jsval" where
  "handleCVVConfirmation_cvv p =
     (case p of
        None \<Rightarrow> JNull
      | Some q \<Rightarrow>
          if truthy (cvv q) then cvv q
          else if (case paymentMethod q of None \<Rightarrow> False | Some m \<Rightarrow> truthy (nested_cvv m))
            then (case paymentMethod q of None \<Rightarrow> JUndefined | Some m \<Rightarrow> nested_cvv m)
          else if (case payment q of None \<Rightarrow> False | Some m \<Rightarrow> truthy (nested_cvv m))
            then (case payment q of None \<Rightarrow> JUndefined | Some m \<Rightarrow> nested_cvv m)
          else JNull)"

text \<open>
  The same lookup as it is written a second time in \<^verbatim>\<open>useBuyNowCheckout\<close>
  (\<^verbatim>\<open>let cvv = null; if (profile?.cvv) ... else if (profile?.paymentMethod?.cvv) ...
  else if (profile?.payment?.cvv) ...\<close>).
\<close>

definition useBuyNowCheckout_cvv :: "profile_data option \<Rightarrow> jsval" where
  "useBuyNowCheckout_cvv p =
     (case p of
        None \<Rightarrow> JNull
      | Some q \<Rightarrow>
          if truthy (cvv q) then cvv q
          else if (case paymentMethod q of None \<Rightarrow> False | Some m \<Rightarrow> truthy (nested_cvv m))
            then (case paymentMethod q of None \<Rightarrow> JUndefined | Some m \<Rightarrow> nested_cvv m)
          else if (case payment q of None \<Rightarrow> False | Some m \<Rightarrow> truthy (nested_cvv m))
            then (case payment q of None \<Rightarrow> JUndefined | Some m \<Rightarrow> nested_cvv m)
          else JNull)"

text \<open>
  The local \<^verbatim>\<open>cardNumber\<close> of \<^verbatim>\<open>handleCreditCardConfirmation\<close>:
  \<^verbatim>\<open>let cardNumber = null; if (profile) { if (profile.cardNumber) ... else if
  (profile.paymentMethod && profile.paymentMethod.cardNumber) ... }\<close>.
\<close>

definition handleCreditCardConfirmation_cardNumber :: "profile_data option \<Rightarrow> jsval" where
  "handleCreditCardConfirmation_cardNumber p =
     (case p of None \<Rightarrow> JNull
      | Some q \<Rightarrow>
          if truthy (cardNumber q) then cardNumber q
          else (case paymentMethod q of
                  None \<Rightarrow> JNull
                | Some m \<Rightarrow> if truthy (nested_cardNumber m) then nested_cardNumber m else JNull))"

text \<open>
  The value handed to \<^verbatim>\<open>utils.fillField(cardInput, profile.cardNumber, ...)\<close>. The
  call is reached only after \<^verbatim>\<open>cardNumber\<close> was found truthy, so the profile is
  not \<^verbatim>\<open>null\<close> there; the \<open>None\<close> case is written out as \<^verbatim>\<open>undefined\<close> for totality.
\<close>

definition handleCreditCardConfirmation_fillValue :: "profile_data option \<Rightarrow> jsval" where
  "handleCreditCardConfirmation_fillValue p =
     (case p of None \<Rightarrow> JUndefined | Some q \<Rightarrow> cardNumber q)"

text \<open>
  What the specification asks of a lookup over several shapes: the first present value
  of a fixed list of candidates, \<^verbatim>\<open>null\<close> when there is none. A value is present
  when JavaScript treats it as true, which for a string means non-empty.
\<close>

definition first_present :: "jsval list \<Rightarrow> jsval" where
  "first_present vs = (case find truthy vs of None \<Rightarrow> JNull | Some v \<Rightarrow> v)"

text \<open>
  The profiles of the specification's examples: the CVV on the profile only, under the
  payment-method object only, under the payment object only.
\<close>

definition profile_cvv_direct :: profile_data where
  "profile_cvv_direct =
     \<lparr>cvv = JStr ''111'', cardNumber = JUndefined, paymentMethod = None, payment = None\<rparr>"

definition profile_cvv_paymentMethod :: profile_data where
  "profile_cvv_paymentMethod =
     \<lparr>cvv = JUndefined, cardNumber = JUndefined,
      paymentMethod = Some \<lparr>nested_cvv = JStr ''222'', nested_cardNumber = JUndefined\<rparr>,
      payment = None\<rparr>"

definition profile_cvv_payment :: profile_data where
  "profile_cvv_payment =
     \<lparr>cvv = JUndefined, cardNumber = JUndefined, paymentMethod = None,
      payment = Some \<lparr>nested_cvv = JStr ''333'', nested_cardNumber = JUndefined\<rparr>\<rparr>"

text \<open>The profile of the specification's last example, with all three shapes filled.\<close>

definition profile_three_shapes :: profile_data where
  "profile_three_shapes =
     \<lparr>cvv = JStr ''111'', cardNumber = JUndefined,
      paymentMethod = Some \<lparr>nested_cvv = JStr ''222'', nested_cardNumber = JUndefined\<rparr>,
      payment = Some \<lparr>nested_cvv = JStr ''333'', nested_cardNumber = JUndefined\<rparr>\<rparr>"

text \<open>A profile whose only card number sits under \<^verbatim>\<open>payment\<close>.\<close>

definition profile_payment_only :: profile_data where
  "profile_payment_only =
     \<lparr>cvv = JUndefined, cardNumber = JUndefined, paymentMethod = None,
      payment = Some \<lparr>nested_cvv = JStr ''333'', nested_cardNumber = JStr ''4111111111111111''\<rparr>\<rparr>"

text \<open>A profile with the card number on the profile itself and another one nested.\<close>

definition profile_direct_card :: profile_data where
  "profile_direct_card =
     \<lparr>cvv = JStr ''111'', cardNumber = JStr ''4111111111111111'',
      paymentMethod = Some \<lparr>nested_cvv = JStr ''222'', nested_cardNumber = JStr ''5500000000000004''\<rparr>,
      payment = None\<rparr>"

subsection \<open>Effects and run state\<close>

text \<open>
  What the script does to the outside world, in the order it does it. Status messages
  that interpolate numbers keep the numbers as arguments; \<open>LogRetry n d\<close> is the console
  line \<^verbatim>\<open>Beginning retry attempt n/5 after d ms initial delay\<close> and \<open>LogPoll a\<close> the
  line \<^verbatim>\<open>Polling for Buy Now button (attempt a/10)\<close>. \<open>Call f\<close> stands for a call of a
  function of the script that is not unfolded at that place. \<open>FrameClick\<close> and
  \<open>FrameFill\<close> are the click and the fill inside the Buy-Now sub-document
  (\<^verbatim>\<open>clickInBuyNowIframe\<close>, \<^verbatim>\<open>fillInBuyNowIframe\<close>), logged when they succeed.
\<close>

datatype event =
    Status string string
  | StatusPriceFailed rat rat
  | StatusPricePassed rat rat
  | Log string
  | Click string
  | Fill string jsval
  | Sleep rat
  | Navigate string
  | CloseTab
  | Timer rat string
  | Alert rat rat
  | StorageGet string
  | Call string
  | LogRetry nat rat
  | LogPoll nat
  | FrameClick string
  | FrameFill string jsval

text \<open>
  The closure variables of \<^verbatim>\<open>initializeTargetCheckout\<close>, the one-shot alert flag
  \<^verbatim>\<open>priceCheckAlertShown\<close>, the handle \<^verbatim>\<open>window.highDemandRetryInterval\<close>, and
  the effects so far. Of \<^verbatim>\<open>globalSettings\<close> the three fields the script reads are kept.
\<close>

record run_state =
  isEnabled :: bool
  autoSubmit :: jsval
  randomizeDelay :: jsval
  useBuyNowWhenAvailable :: jsval
  checkoutInProgress :: bool
  currentStep :: string
  profile :: "profile_data option"
  placeOrderButtonClicked :: bool
  confirmButtonClicked :: bool
  verifyCardButtonClicked :: bool
  isFillingCardInput :: bool
  isFillingCvvInput :: bool
  inBuyNowErrorRecovery :: bool
  observers :: "nat list"
  intervals :: "nat list"
  priceCheckAlertShown :: bool
  highDemandRetryInterval :: "nat option"
  trace :: "event list"

definition emit :: "event \<Rightarrow> run_state \<Rightarrow> run_state" where
  "emit e s = s\<lparr>trace := trace s @ [e]\<rparr>"

text \<open>\<^verbatim>\<open>utils.updateStatus(message, severity)\<close>: a push to the status sink.\<close>

definition updateStatus :: "string \<Rightarrow> string \<Rightarrow> run_state \<Rightarrow> run_state" where
  "updateStatus msg severity s = emit (Status msg severity) s"

subsection \<open>The price guard\<close>

text \<open>
  \<^verbatim>\<open>price_check_items\<close> as read from storage: an object from TCIN to maximum price,
  or some other truthy value, on which the \<^verbatim>\<open>in\<close> operator raises a TypeError.
\<close>

datatype items_val = Items "string \<Rightarrow> rat option" | NotAnObject

record price_check_data =
  price_check_enabled :: jsval
  price_check_closeTabOnFail :: jsval
  price_check_items :: items_val

text \<open>
  What the page and the storage answer while the price is checked:
  \<^item> \<open>storage_read\<close>: the awaited \<^verbatim>\<open>storage.getFromStorage\<close>, which may reject;
  \<^item> \<open>tcin_url\<close>: the group captured by the pattern on \<^verbatim>\<open>location.pathname\<close>;
  \<^item> \<open>tcin_dom\<close>: the \<^verbatim>\<open>data-tcin\<close> query, which raises or gives the attribute of
    the first element found (\<open>None\<close> when there is no element);
  \<^item> \<open>price_dom\<close>: the body of \<^verbatim>\<open>extractPrice\<close>'s \<^verbatim>\<open>try\<close>, which raises or
    returns a number that is not \<^verbatim>\<open>NaN\<close>, or \<^verbatim>\<open>null\<close>;
  \<^item> \<open>body_throws\<close>: an exception raised by one of the diagnostic DOM queries that
    \<^verbatim>\<open>checkProductPrice\<close> itself makes after the two extractions;
  \<^item> \<open>close_throws\<close>: whether \<^verbatim>\<open>window.close()\<close> raises.
\<close>

record price_page =
  storage_read :: "exn + price_check_data"
  tcin_url :: "string option"
  tcin_dom :: "exn + string option"
  price_dom :: "exn + rat option"
  body_throws :: "exn option"
  close_throws :: bool

text \<open>
  \<^verbatim>\<open>extractTCIN\<close>: the URL first, then the attribute; its own \<^verbatim>\<open>catch\<close> turns
  an exception into \<^verbatim>\<open>null\<close>.
\<close>

definition extractTCIN :: "price_page \<Rightarrow> string option" where
  "extractTCIN pg =
     (let fallback = (case tcin_dom pg of Inl e \<Rightarrow> None | Inr a \<Rightarrow> a) in
      case tcin_url pg of
        Some t \<Rightarrow> if t \<noteq> [] then Some t else fallback
      | None \<Rightarrow> fallback)"

text \<open>\<^verbatim>\<open>extractPrice\<close>: its own \<^verbatim>\<open>catch\<close> turns an exception into \<^verbatim>\<open>null\<close>.\<close>

definition extractPrice :: "price_page \<Rightarrow> rat option" where
  "extractPrice pg = (case price_dom pg of Inl e \<Rightarrow> None | Inr r \<Rightarrow> r)"

text \<open>The \<^verbatim>\<open>catch\<close> of \<^verbatim>\<open>checkProductPrice\<close>: report and block.\<close>

definition checkProductPrice_catch :: "exn \<Rightarrow> run_state \<Rightarrow> bool \<times> run_state" where
  "checkProductPrice_catch e s =
     (False, updateStatus (''Price check error: '' @ message e) ''status-waiting'' s)"

text \<open>The one-time alert: \<^verbatim>\<open>if (!priceCheckAlertShown) { priceCheckAlertShown = true; alert(...) }\<close>.\<close>

definition alert_once :: "rat \<Rightarrow> rat \<Rightarrow> run_state \<Rightarrow> run_state" where
  "alert_once price maxPrice s =
     (if priceCheckAlertShown s then s
      else emit (Alert price maxPrice) (s\<lparr>priceCheckAlertShown := True\<rparr>))"

text \<open>The branch taken when the price exceeds the maximum; it always blocks.\<close>

definition price_check_failed ::
  "price_page \<Rightarrow> price_check_data \<Rightarrow> rat \<Rightarrow> rat \<Rightarrow> run_state \<Rightarrow> bool \<times> run_state" where
  "price_check_failed pg d price maxPrice s =
     (let s1 = emit (StatusPriceFailed price maxPrice) s in
      if price_check_closeTabOnFail d = JBool True then
        (if close_throws pg then (False, alert_once price maxPrice s1)
         else (False, emit (Timer 50 ''window.close'') (emit CloseTab s1)))
      else (False, alert_once price maxPrice s1))"

text \<open>
  \<^verbatim>\<open>checkProductPrice\<close>. The result is \<open>True\<close> for pass and \<open>False\<close> for block; the
  function never throws, since the whole body is inside \<^verbatim>\<open>try\<close>.
\<close>

definition checkProductPrice :: "price_page \<Rightarrow> run_state \<Rightarrow> bool \<times> run_state" where
  "checkProductPrice pg s =
     (case storage_read pg of
        Inl e \<Rightarrow> checkProductPrice_catch e s
      | Inr d \<Rightarrow>
          if price_check_enabled d \<noteq> JBool True then (True, s)
          else
            (let tcin = extractTCIN pg; price = extractPrice pg in
             case body_throws pg of
               Some e \<Rightarrow> checkProductPrice_catch e s
             | None \<Rightarrow>
                 (case tcin of
                    None \<Rightarrow> (True, s)
                  | Some t \<Rightarrow>
                      if t = [] then (True, s)
                      else
                        (case price of
                           None \<Rightarrow> (True, s)
                         | Some pr \<Rightarrow>
                             if pr = 0 then (True, s)
                             else
                               (case price_check_items d of
                                  NotAnObject \<Rightarrow>
                                    checkProductPrice_catch
                                      (Error ''TypeError: cannot use in on a non-object'') s
                                | Items m \<Rightarrow>
                                    (case m t of
                                       None \<Rightarrow> (True, s)
                                     | Some maxPrice \<Rightarrow>
                                         if pr > maxPrice
                                         then price_check_failed pg d pr maxPrice s
                                         else (True, emit (StatusPricePassed pr maxPrice) s)))))))"

text \<open>
  The decision table of the specification, \<open>True\<close> for Pass: disabled passes, an absent
  TCIN passes, an absent price passes, a TCIN without a ceiling passes, a price strictly
  above the ceiling blocks, any other price passes.
\<close>

definition price_guard_table ::
  "bool \<Rightarrow> string option \<Rightarrow> rat option \<Rightarrow> (string \<Rightarrow> rat option) \<Rightarrow> bool" where
  "price_guard_table enabled tcin price items =
     (if \<not> enabled then True
      else case tcin of
             None \<Rightarrow> True
           | Some t \<Rightarrow>
               (case price of
                  None \<Rightarrow> True
                | Some pr \<Rightarrow>
                    (case items t of None \<Rightarrow> True | Some limit \<Rightarrow> \<not> (pr > limit))))"

text \<open>
  What the script's truthiness tests make of an extracted value: the empty string is no
  TCIN and zero is no price.
\<close>

definition tcin_if_truthy :: "string option \<Rightarrow> string option" where
  "tcin_if_truthy t = (case t of None \<Rightarrow> None | Some v \<Rightarrow> if v = [] then None else Some v)"

definition price_if_truthy :: "rat option \<Rightarrow> rat option" where
  "price_if_truthy r = (case r of None \<Rightarrow> None | Some v \<Rightarrow> if v = 0 then None else Some v)"

text \<open>The closure variables as \<^verbatim>\<open>initializeTargetCheckout\<close> declares them.\<close>

definition initial_state :: run_state where
  "initial_state =
     \<lparr>isEnabled = False, autoSubmit = JUndefined, randomizeDelay = JUndefined,
      useBuyNowWhenAvailable = JUndefined, checkoutInProgress = False, currentStep = [],
      profile = None, placeOrderButtonClicked = False, confirmButtonClicked = False,
      verifyCardButtonClicked = False, isFillingCardInput = False,
      isFillingCvvInput = False, inBuyNowErrorRecovery = False, observers = [],
      intervals = [], priceCheckAlertShown = False, highDemandRetryInterval = None,
      trace = []\<rparr>"

text \<open>Example pages: price checking enabled, item 123 with a ceiling of 40.\<close>

definition cfg_123_max_40 :: price_check_data where
  "cfg_123_max_40 =
     \<lparr>price_check_enabled = JBool True, price_check_closeTabOnFail = JBool False,
      price_check_items = Items [''123'' \<mapsto> 40]\<rparr>"

definition page_price_50 :: price_page where
  "page_price_50 =
     \<lparr>storage_read = Inr cfg_123_max_40, tcin_url = Some ''123'', tcin_dom = Inr None,
      price_dom = Inr (Some 50), body_throws = None, close_throws = False\<rparr>"

definition page_tcin_raises :: price_page where
  "page_tcin_raises = page_price_50\<lparr>tcin_url := None, tcin_dom := Inl (Error ''document is not ready'')\<rparr>"

definition page_price_raises :: price_page where
  "page_price_raises = page_price_50\<lparr>price_dom := Inl (Error ''document is not ready'')\<rparr>"

definition page_storage_rejects :: price_page where
  "page_storage_rejects = page_price_50\<lparr>storage_read := Inl (Error ''Extension context invalidated.'')\<rparr>"

definition page_body_raises :: price_page where
  "page_body_raises = page_price_50\<lparr>body_throws := Some (Error ''document is not ready'')\<rparr>"

definition page_items_malformed :: price_page where
  "page_items_malformed =
     page_price_50\<lparr>storage_read := Inr (cfg_123_max_40\<lparr>price_check_items := NotAnObject\<rparr>)\<rparr>"

text \<open>A free item whose configured ceiling is negative.\<close>

definition page_price_zero :: price_page where
  "page_price_zero =
     \<lparr>storage_read = Inr (cfg_123_max_40\<lparr>price_check_items := Items [''123'' \<mapsto> - 1]\<rparr>),
      tcin_url = Some ''123'', tcin_dom = Inr None, price_dom = Inr (Some 0),
      body_throws = None, close_throws = False\<rparr>"

subsection \<open>Settings, cleanup and the error handler\<close>

text \<open>
  \<^verbatim>\<open>loadSettingsAndProfile\<close> reads storage and overwrites the settings and the
  profile. What it leaves in the closure variables is an answer of the storage; its own
  \<^verbatim>\<open>catch\<close> disables the engine and reports, so the function never throws.
\<close>

record loaded =
  ld_error :: "exn option"
  ld_enabled :: bool
  ld_autoSubmit :: jsval
  ld_randomizeDelay :: jsval
  ld_useBuyNowWhenAvailable :: jsval
  ld_profile :: "profile_data option"

definition loadSettingsAndProfile :: "loaded \<Rightarrow> run_state \<Rightarrow> run_state" where
  "loadSettingsAndProfile ld s =
     (let s1 = emit (StorageGet ''siteSettings'') s;
          s2 = s1\<lparr>autoSubmit := ld_autoSubmit ld, randomizeDelay := ld_randomizeDelay ld,
                  useBuyNowWhenAvailable := ld_useBuyNowWhenAvailable ld,
                  profile := ld_profile ld\<rparr>
      in case ld_error ld of
           None \<Rightarrow> s2\<lparr>isEnabled := ld_enabled ld\<rparr>
         | Some e \<Rightarrow>
             updateStatus (''Error loading settings: '' @ message e) ''status-waiting''
               (s2\<lparr>isEnabled := False\<rparr>))"

text \<open>
  \<^verbatim>\<open>cleanup\<close>: every flag back to its initial value, every observer disconnected and
  every interval cleared (one log entry per handle).
\<close>

definition cleanup :: "run_state \<Rightarrow> run_state" where
  "cleanup s =
     (let s1 = s\<lparr>checkoutInProgress := False, currentStep := [],
                 placeOrderButtonClicked := False, confirmButtonClicked := False,
                 verifyCardButtonClicked := False, isFillingCardInput := False,
                 isFillingCvvInput := False\<rparr>
      in s1\<lparr>observers := [], intervals := [],
             trace := trace s1 @ map (\<lambda>h. Call ''observer.disconnect'') (observers s1)
                               @ map (\<lambda>h. Call ''clearInterval'') (intervals s1)\<rparr>)"

text \<open>\<^verbatim>\<open>handleCheckoutError\<close>: log, report, clear the progress flag.\<close>

definition handleCheckoutError :: "exn \<Rightarrow> run_state \<Rightarrow> run_state" where
  "handleCheckoutError e s =
     (updateStatus (''Error: '' @ message e) ''status-waiting''
        (emit (Log (''Checkout process error during step '' @ currentStep s)) s))
     \<lparr>checkoutInProgress := False\<rparr>"

subsection \<open>The product-page pipeline\<close>

text \<open>
  What the page answers during one run of \<^verbatim>\<open>startCheckoutProcess\<close>. Each step that
  the pipeline awaits either returns or throws.
  \<^item> \<open>stock\<close>: the out-of-stock lookup raises, or tells whether a visible marker exists;
  \<^item> \<open>selectDelivery_step\<close>: \<^verbatim>\<open>selectDeliveryMethod\<close> and the sleep after it;
  \<^item> \<open>addToCart_step\<close>: \<^verbatim>\<open>addToCart\<close> (its quantity setting, its button lookup and its
    click) and the sleep after it;
  \<^item> \<open>buyNowButton\<close>: whether \<^verbatim>\<open>addToCart\<close> finds the Buy-Now button visible and
    enabled;
  \<^item> \<open>recovery_after_cart\<close>: the value of \<^verbatim>\<open>inBuyNowErrorRecovery\<close> that the Buy-Now
    flow, when \<^verbatim>\<open>addToCart\<close> runs it, has left when it returns;
  \<^item> \<open>handlePopups_step\<close>: \<^verbatim>\<open>handlePopups\<close>;
  \<^item> \<open>buyNowSidePanel\<close>: whether the page holds a \<^verbatim>\<open>placeOrderButton\<close> element;
  \<^item> \<open>navigation_throws\<close>: an exception of the status update or of the navigation.
\<close>

record product_page =
  reload :: loaded
  price_answers :: price_page
  stock :: "exn + bool"
  selectDelivery_step :: "exn option"
  addToCart_step :: "exn option"
  recovery_after_cart :: bool
  handlePopups_step :: "exn option"
  buyNowSidePanel :: bool
  navigation_throws :: "exn option"
  buyNowButton :: bool

text \<open>The exit paths of \<^verbatim>\<open>startCheckoutProcess\<close>, in the order of the source.\<close>

datatype start_exit =
    AlreadyInProgress
  | SetupError exn
  | Disabled
  | PriceBlocked
  | StepError exn
  | Completed

text \<open>
  The stock check: the promise rejects when a visible out-of-stock marker is found, or
  when the lookup raises an error whose message contains \<^verbatim>\<open>out of stock\<close>; any
  other error is logged and the promise resolves.
\<close>

definition stock_check :: "exn + bool \<Rightarrow> run_state \<Rightarrow> exn option \<times> run_state" where
  "stock_check a s =
     (let s1 = s\<lparr>currentStep := ''check-stock''\<rparr> in
      case a of
        Inr oos \<Rightarrow> (if oos then (Some (Error ''Item is out of stock.''), s1) else (None, s1))
      | Inl e \<Rightarrow>
          if str_includes (message e) ''out of stock'' then (Some e, s1)
          else (None, emit (Log (''Non-critical error in check-stock step: '' @ message e
                                  @ ''. Continuing anyway.'')) s1))"

text \<open>
  \<^verbatim>\<open>goDirectlyToCheckout\<close>: no navigation during Buy-Now error recovery or while the
  Buy-Now panel is on the page.
\<close>

definition goDirectlyToCheckout :: "product_page \<Rightarrow> run_state \<Rightarrow> exn option \<times> run_state" where
  "goDirectlyToCheckout pp s =
     (let s1 = s\<lparr>currentStep := ''go-to-checkout''\<rparr> in
      if inBuyNowErrorRecovery s1 then (None, s1)
      else if buyNowSidePanel pp then (None, s1)
      else case navigation_throws pp of
             Some e \<Rightarrow> (Some e, s1)
           | None \<Rightarrow>
               (None, emit (Navigate ''https://www.target.com/checkout'')
                        (updateStatus ''Navigating to checkout...'' ''status-running'' s1)))"

text \<open>The warning of a \<^verbatim>\<open>catch\<close> that lets the pipeline go on.\<close>

definition continuing_anyway :: "string \<Rightarrow> exn \<Rightarrow> event" where
  "continuing_anyway what e = Log (what @ message e @ ''. Continuing anyway.'')"

text \<open>
  The first \<^verbatim>\<open>try\<close> block of the steps: \<^verbatim>\<open>selectDeliveryMethod\<close> and a sleep; its
  \<^verbatim>\<open>catch\<close> only warns.
\<close>

definition selectDelivery_block :: "product_page \<Rightarrow> run_state \<Rightarrow> run_state" where
  "selectDelivery_block pp s =
     (let s1 = emit (Call ''selectDeliveryMethod'') (s\<lparr>currentStep := ''select-delivery''\<rparr>) in
      case selectDelivery_step pp of
        None \<Rightarrow> s1
      | Some e \<Rightarrow> emit (continuing_anyway ''Error in select-delivery step: '' e) s1)"

text \<open>
  The second block up to its \<^verbatim>\<open>catch\<close>. \<^verbatim>\<open>addToCart\<close> sets the step and reports;
  \<^verbatim>\<open>setQuantity\<close>, which it always awaits next, sets the step to
  \<^verbatim>\<open>set-quantity\<close> in its first statement (with the default quantity of 1 it does
  nothing else; its work on the page for a larger quantity, like the sleeps of this
  block, is part of what \<open>addToCart_step\<close> answers). Then, with the option
  \<^verbatim>\<open>useBuyNowWhenAvailable === true\<close> and a usable Buy-Now button,
  \<^verbatim>\<open>useBuyNowCheckout\<close> is run and its result returned: it sets the step to
  \<^verbatim>\<open>buy-now-checkout\<close>; the flow itself is modelled further down, here it is a call
  and the recovery flag it leaves. Otherwise the regular button is looked up and
  clicked. The Buy-Now flow catches its own errors, so when \<^verbatim>\<open>addToCart\<close> throws
  (\<open>addToCart_step\<close>), it throws from the quantity setting or from the regular flow,
  with the step still \<^verbatim>\<open>set-quantity\<close>.
\<close>

definition addToCart_block :: "product_page \<Rightarrow> run_state \<Rightarrow> run_state" where
  "addToCart_block pp s =
     (let s1 = updateStatus ''Adding item to cart...'' ''status-running''
                 (emit (Call ''addToCart'') (s\<lparr>currentStep := ''add-to-cart''\<rparr>));
          s2 = s1\<lparr>currentStep := ''set-quantity''\<rparr>
      in if addToCart_step pp = None \<and> useBuyNowWhenAvailable s2 = JBool True \<and> buyNowButton pp
         then (emit (Call ''useBuyNowCheckout'') (s2\<lparr>currentStep := ''buy-now-checkout''\<rparr>))
                \<lparr>inBuyNowErrorRecovery := recovery_after_cart pp\<rparr>
         else s2)"

text \<open>The third block: \<^verbatim>\<open>handlePopups\<close>; its \<^verbatim>\<open>catch\<close> only warns.\<close>

definition handlePopups_block :: "product_page \<Rightarrow> run_state \<Rightarrow> run_state" where
  "handlePopups_block pp s =
     (let s1 = updateStatus ''Checking for popups...'' ''status-running''
                 (emit (Call ''handlePopups'') (s\<lparr>currentStep := ''handle-popups''\<rparr>)) in
      case handlePopups_step pp of
        None \<Rightarrow> s1
      | Some e \<Rightarrow> emit (continuing_anyway ''Error handling popups: '' e) s1)"

text \<open>
  The steps inside the inner \<^verbatim>\<open>try\<close>. The \<^verbatim>\<open>catch\<close> of the cart block logs and
  rethrows; what it rethrows, and what the navigation throws, ends in
  \<^verbatim>\<open>handleCheckoutError\<close>.
\<close>

definition run_steps :: "product_page \<Rightarrow> run_state \<Rightarrow> start_exit \<times> run_state" where
  "run_steps pp s =
     (let s2 = selectDelivery_block pp s;
          s4 = addToCart_block pp s2
      in case addToCart_step pp of
           Some e \<Rightarrow>
             (StepError e,
              handleCheckoutError e (emit (Log ''Critical error in add-to-cart step'') s4))
         | None \<Rightarrow>
             (let s6 = handlePopups_block pp s4;
                  s7 = emit (Call ''goDirectlyToCheckout'') (s6\<lparr>currentStep := ''go-to-checkout''\<rparr>)
              in case goDirectlyToCheckout pp s7 of
                   (Some e, s8) \<Rightarrow> (StepError e, handleCheckoutError e s8)
                 | (None, s8) \<Rightarrow> (Completed, s8)))"

text \<open>The outer \<^verbatim>\<open>catch\<close> of \<^verbatim>\<open>startCheckoutProcess\<close>.\<close>

definition setup_catch :: "exn \<Rightarrow> run_state \<Rightarrow> run_state" where
  "setup_catch e s =
     (updateStatus (''Error: '' @ message e) ''status-waiting''
        (emit (Log (''Critical error before checkout could begin: '' @ message e)) s))
     \<lparr>checkoutInProgress := False\<rparr>"

text \<open>
  The three statements of \<^verbatim>\<open>startCheckoutProcess\<close> that follow its guard
  (\<^verbatim>\<open>checkoutInProgress = true; utils.updateStatus('Starting checkout...',
  'status-running'); currentStep = 'start';\<close>). They run in the turn of the guard; the
  state they leave is the one that anything arriving at the first \<^verbatim>\<open>await\<close> finds.
\<close>

definition startCheckoutProcess_entry :: "run_state \<Rightarrow> run_state" where
  "startCheckoutProcess_entry s =
     (updateStatus ''Starting checkout...'' ''status-running''
        (s\<lparr>checkoutInProgress := True\<rparr>))\<lparr>currentStep := ''start''\<rparr>"

text \<open>
  \<^verbatim>\<open>startCheckoutProcess(skipSettingsReload)\<close> up to the inner \<^verbatim>\<open>try\<close>: either the
  run has ended (\<open>Inl\<close>, with the exit taken) or the steps are about to run (\<open>Inr\<close>).
  The price check is started first and the stock check runs while the price check
  waits for the storage; when the stock check rejects, \<^verbatim>\<open>Promise.all\<close> rejects at
  once and the price check finishes in the background.
\<close>

definition setup_phase ::
  "bool \<Rightarrow> product_page \<Rightarrow> run_state \<Rightarrow> (start_exit \<times> run_state) + run_state" where
  "setup_phase skipSettingsReload pp s =
     (if checkoutInProgress s then Inl (AlreadyInProgress, s)
      else
        (let s1 = startCheckoutProcess_entry s;
             s2 = (if skipSettingsReload then s1 else loadSettingsAndProfile (reload pp) s1)
         in if profile s2 = None then
              Inl (SetupError (Error ''Cannot start checkout: No profile selected.''),
                   setup_catch (Error ''Cannot start checkout: No profile selected.'')
                     (updateStatus ''Error: No profile selected'' ''status-waiting'' s2))
            else if \<not> isEnabled s2 then Inl (Disabled, s2\<lparr>checkoutInProgress := False\<rparr>)
            else
              (case stock_check (stock pp) s2 of
                 (Some e, s3) \<Rightarrow>
                   Inl (SetupError e,
                        snd (checkProductPrice (price_answers pp) (setup_catch e s3)))
               | (None, s3) \<Rightarrow>
                   (case checkProductPrice (price_answers pp) s3 of
                      (False, s4) \<Rightarrow> Inl (PriceBlocked, s4\<lparr>checkoutInProgress := False\<rparr>)
                    | (True, s4) \<Rightarrow> Inr s4))))"

text \<open>
  The whole function. It never throws: everything after the flag is set is inside the
  outer \<^verbatim>\<open>try\<close>. Nothing clears the flag after the last step has returned (the source
  says: no finally block resetting it, handled by cleanup on the next page).
\<close>

definition startCheckoutProcess ::
  "bool \<Rightarrow> product_page \<Rightarrow> run_state \<Rightarrow> start_exit \<times> run_state" where
  "startCheckoutProcess skipSettingsReload pp s =
     (case setup_phase skipSettingsReload pp s of
        Inl r \<Rightarrow> r
      | Inr s4 \<Rightarrow> run_steps pp s4)"

text \<open>The effects that a run added to the log.\<close>

definition events_since :: "run_state \<Rightarrow> run_state \<Rightarrow> event list" where
  "events_since s s' = drop (length (trace s)) (trace s')"

text \<open>
  Example runs: the engine enabled with a profile loaded, on a product page where every
  step succeeds, and on pages where one step throws.
\<close>

definition ready_state :: run_state where
  "ready_state = initial_state\<lparr>isEnabled := True, profile := Some profile_three_shapes\<rparr>"

definition product_page_ok :: product_page where
  "product_page_ok =
     \<lparr>reload = \<lparr>ld_error = None, ld_enabled = True, ld_autoSubmit = JBool True,
                ld_randomizeDelay = JBool False, ld_useBuyNowWhenAvailable = JUndefined,
                ld_profile = Some profile_three_shapes\<rparr>,
      price_answers = page_price_50\<lparr>price_dom := Inr (Some 30)\<rparr>,
      stock = Inr False, selectDelivery_step = None, addToCart_step = None,
      recovery_after_cart = False, handlePopups_step = None, buyNowSidePanel = False,
      navigation_throws = None, buyNowButton = False\<rparr>"

definition product_page_soft_failures :: product_page where
  "product_page_soft_failures =
     product_page_ok\<lparr>selectDelivery_step := Some (Error ''sleep failed''),
                     handlePopups_step := Some (Error ''popup vanished'')\<rparr>"

definition product_page_cart_fails :: product_page where
  "product_page_cart_fails =
     product_page_ok\<lparr>addToCart_step := Some (Error ''Add to Cart/Pre-Order button not found.'')\<rparr>"

subsection \<open>The checkout-page pipeline\<close>

text \<open>
  What the page answers during one attempt of \<^verbatim>\<open>continueCheckoutProcess\<close>:
  \<^item> \<open>loader\<close>: the loading-indicator probe raises, or tells whether a visible indicator
    was found (also \<open>False\<close> when the selector list is no array);
  \<^item> the five presence tests of the priority chain, and \<open>detection_throws\<close> for a lookup
    of the chain that raises;
  \<^item> \<open>branch_throws\<close>: the position of the awaited call of the chosen branch that
    throws, with the exception.
\<close>

record checkout_page =
  settings :: loaded
  loader :: "exn + bool"
  detection_throws :: "exn option"
  cvv_input :: bool
  card_input :: bool
  place_order_button :: bool
  payment_form :: bool
  shipping_form :: bool
  branch_throws :: "(nat \<times> exn) option"

datatype continue_exit = InProgress | NoProfile exn | EngineDisabled | Finished

text \<open>
  The awaited calls of each branch of the priority chain, in order. The handlers
  themselves are modelled further down; none of them assigns \<^verbatim>\<open>checkoutInProgress\<close>.
\<close>

definition branch_of :: "checkout_page \<Rightarrow> string \<times> event list" where
  "branch_of c =
     (if cvv_input c then
        (''check-cvv'', [Call ''handleCVVConfirmation'', Sleep 1500, Call ''placeOrder''])
      else if card_input c then
        (''check-card-verify'',
         [Call ''handleCreditCardConfirmation'', Sleep 1500, Call ''placeOrder''])
      else if place_order_button c then (''check-place-order'', [Call ''placeOrder''])
      else if payment_form c then
        (''check-payment-form'', [Call ''fillPaymentInfo'', Sleep 1500, Call ''placeOrder''])
      else if shipping_form c then
        (''check-shipping-form'',
         [Call ''fillShippingInfo'', Sleep 1500, Call ''fillPaymentInfo'', Sleep 1500,
          Call ''placeOrder''])
      else
        (''fallback-check'', [Call ''fillPaymentInfo'', Sleep 1500, Call ''placeOrder'']))"

text \<open>
  Running a branch: the calls are made in order; when the call at the given position
  throws, the calls after it are not made.
\<close>

definition run_branch ::
  "event list \<Rightarrow> (nat \<times> exn) option \<Rightarrow> run_state \<Rightarrow> exn option \<times> run_state" where
  "run_branch calls bt s =
     (case bt of
        None \<Rightarrow> (None, s\<lparr>trace := trace s @ calls\<rparr>)
      | Some (k, e) \<Rightarrow>
          if k < length calls then (Some e, s\<lparr>trace := trace s @ take (Suc k) calls\<rparr>)
          else (None, s\<lparr>trace := trace s @ calls\<rparr>))"

text \<open>The priority chain with the outer \<^verbatim>\<open>catch\<close> and the \<^verbatim>\<open>finally\<close>.\<close>

definition classify_and_run :: "checkout_page \<Rightarrow> run_state \<Rightarrow> run_state" where
  "classify_and_run c s =
     (let s1 = (case detection_throws c of
                  Some e \<Rightarrow> handleCheckoutError e (s\<lparr>currentStep := ''check-cvv''\<rparr>)
                | None \<Rightarrow>
                    (case run_branch (snd (branch_of c)) (branch_throws c)
                            (s\<lparr>currentStep := fst (branch_of c)\<rparr>) of
                       (Some e, s2) \<Rightarrow> handleCheckoutError e s2
                     | (None, s2) \<Rightarrow> s2))
      in s1\<lparr>checkoutInProgress := False\<rparr>)"

text \<open>
  \<^verbatim>\<open>continueCheckoutProcess\<close> up to its \<^verbatim>\<open>try\<close>: either the attempt has ended
  (\<open>Inl\<close>: already in progress, no profile, which throws, or engine disabled), or the
  flag has been set, the status pushed and the step named, and the \<^verbatim>\<open>try\<close> is about
  to be entered (\<open>Inr\<close>).
\<close>

definition continue_setup ::
  "checkout_page \<Rightarrow> run_state \<Rightarrow> (continue_exit \<times> run_state) + run_state" where
  "continue_setup c s =
     (if checkoutInProgress s then Inl (InProgress, s)
      else
        (let s1 = loadSettingsAndProfile (settings c) s in
         if profile s1 = None then
           Inl (NoProfile (Error ''Cannot continue checkout: No profile selected.''),
                updateStatus ''Error: No profile for checkout'' ''status-waiting'' s1)
         else if \<not> isEnabled s1 then Inl (EngineDisabled, s1)
         else
           Inr ((updateStatus ''Continuing checkout...'' ''status-running''
                   (s1\<lparr>checkoutInProgress := True\<rparr>))\<lparr>currentStep := ''continue-checkout''\<rparr>)))"

text \<open>
  \<^verbatim>\<open>continueCheckoutProcess\<close>. While a loading indicator is visible the function waits
  and calls itself; it consumes one page observation per attempt, and when the
  observations run out before the indicator is gone the model gives \<open>None\<close>: the
  function has not returned. An exception of the nested call is caught by the
  \<^verbatim>\<open>catch\<close> around the loading probe, and the outer attempt goes on to classify.
\<close>

fun continueCheckoutProcess ::
  "checkout_page list \<Rightarrow> run_state \<Rightarrow> (continue_exit \<times> run_state) option" where
  "continueCheckoutProcess [] s = None"
| "continueCheckoutProcess (c # cs) s =
     (case continue_setup c s of
        Inl r \<Rightarrow> Some r
      | Inr s2 \<Rightarrow>
          (let s3 = (emit (Sleep 500) s2)\<lparr>currentStep := ''wait-for-load''\<rparr>
           in case loader c of
                Inl e \<Rightarrow>
                  Some (Finished,
                        classify_and_run c (emit (Log ''Loading detection error (continuing anyway)'') s3))
              | Inr False \<Rightarrow> Some (Finished, classify_and_run c s3)
              | Inr True \<Rightarrow>
                  (case continueCheckoutProcess cs
                          ((emit (Sleep 2000) s3)\<lparr>checkoutInProgress := False\<rparr>) of
                     None \<Rightarrow> None
                   | Some (NoProfile e, s4) \<Rightarrow>
                       Some (Finished,
                             classify_and_run c
                               (emit (Log ''Loading detection error (continuing anyway)'') s4))
                   | Some (x, s4) \<Rightarrow> Some (Finished, s4\<lparr>checkoutInProgress := False\<rparr>))))"

text \<open>A checkout page that shows the place-order button, and one still loading.\<close>

definition checkout_page_order :: checkout_page where
  "checkout_page_order =
     \<lparr>settings = reload product_page_ok, loader = Inr False, detection_throws = None,
      cvv_input = False, card_input = False, place_order_button = True,
      payment_form = False, shipping_form = False, branch_throws = None\<rparr>"

definition checkout_page_loading :: checkout_page where
  "checkout_page_loading = checkout_page_order\<lparr>loader := Inr True\<rparr>"

text \<open>
  The same page with the engine found disabled when the settings are loaded, and with
  a lookup of the priority chain that raises.
\<close>

definition checkout_page_disabled :: checkout_page where
  "checkout_page_disabled =
     checkout_page_order\<lparr>settings := (reload product_page_ok)\<lparr>ld_enabled := False\<rparr>\<rparr>"

definition checkout_page_lookup_raises :: checkout_page where
  "checkout_page_lookup_raises =
     checkout_page_order\<lparr>detection_throws := Some (Error ''lookup failed'')\<rparr>"

subsection \<open>The verification handlers\<close>

text \<open>
  A handler is an \<^verbatim>\<open>async\<close> function. Its first turn is the code from its entry to
  its first \<^verbatim>\<open>await\<close>; nothing else can run in between. The turn ends either with the
  function returned or with the function suspended, and a second trigger that arrives
  then finds the state the first turn left. Where \<^verbatim>\<open>placeOrder\<close> waits for a handler
  it has just called, the suspension records how the first turn of that handler ended.
\<close>

datatype suspension =
    Returned
  | AwaitLoad
  | AwaitCvvHandler suspension
  | AwaitCardHandler suspension
  | AwaitTerms
  | AwaitSaveClick
  | AwaitOrderClick

text \<open>
  First turn of \<^verbatim>\<open>handleCVVConfirmation\<close>: the re-entry guard, the step, the status,
  the filling flag; then the function waits for \<^verbatim>\<open>loadSettingsAndProfile\<close>.
\<close>

definition handleCVVConfirmation_turn :: "run_state \<Rightarrow> suspension \<times> run_state" where
  "handleCVVConfirmation_turn s =
     (if isFillingCvvInput s \<or> confirmButtonClicked s then (Returned, s)
      else (AwaitLoad,
            (updateStatus ''Confirming CVV...'' ''status-running''
               (s\<lparr>currentStep := ''handle-cvv''\<rparr>))\<lparr>isFillingCvvInput := True\<rparr>))"

text \<open>
  What the page answers to the rest of \<^verbatim>\<open>handleCVVConfirmation\<close>: the settings read,
  whether the CVV input is found and visible, whether the fill throws, whether the
  confirm button is found, visible and enabled, whether the click throws.
\<close>

record cvv_page =
  cv_settings :: loaded
  cv_input_visible :: bool
  cv_fill_throws :: "exn option"
  cv_confirm_usable :: bool
  cv_click_throws :: "exn option"

text \<open>
  The rest of \<^verbatim>\<open>handleCVVConfirmation\<close>, from the return of
  \<^verbatim>\<open>loadSettingsAndProfile\<close> to the end: the body of the \<^verbatim>\<open>try\<close>, whose
  exceptions are logged by the \<^verbatim>\<open>catch\<close>, and the \<^verbatim>\<open>finally\<close> that clears the
  filling flag.
\<close>

definition handleCVVConfirmation_rest :: "cvv_page \<Rightarrow> run_state \<Rightarrow> run_state" where
  "handleCVVConfirmation_rest pg s =
     (let s2 = loadSettingsAndProfile (cv_settings pg) s;
          v = handleCVVConfirmation_cvv (profile s2)
      in (if \<not> truthy v then s2
          else if \<not> cv_input_visible pg then s2
          else
            (let s3 = emit (Fill ''cvv-verification'' v) s2 in
             case cv_fill_throws pg of
               Some e \<Rightarrow> emit (Log ''Error in handleCVVConfirmation'') s3
             | None \<Rightarrow>
                 (let s4 = emit (Sleep 500) s3 in
                  if cv_confirm_usable pg then
                    (if confirmButtonClicked s4 then s4
                     else
                       (let s5 = emit (Click ''cvv-confirm'') (s4\<lparr>confirmButtonClicked := True\<rparr>) in
                        case cv_click_throws pg of
                          Some e \<Rightarrow> emit (Log ''Error in handleCVVConfirmation'') s5
                        | None \<Rightarrow> emit (Sleep 1000) s5))
                  else emit (Log ''CVV confirm button not found/usable'') s4)))
         \<lparr>isFillingCvvInput := False\<rparr>)"

text \<open>The whole function, when nothing else runs while it is suspended.\<close>

definition handleCVVConfirmation :: "cvv_page \<Rightarrow> run_state \<Rightarrow> run_state" where
  "handleCVVConfirmation pg s =
     (case handleCVVConfirmation_turn s of
        (AwaitLoad, s1) \<Rightarrow> handleCVVConfirmation_rest pg s1
      | (x, s1) \<Rightarrow> s1)"

text \<open>First turn of \<^verbatim>\<open>handleCreditCardConfirmation\<close>.\<close>

definition handleCreditCardConfirmation_turn :: "run_state \<Rightarrow> suspension \<times> run_state" where
  "handleCreditCardConfirmation_turn s =
     (if isFillingCardInput s \<or> verifyCardButtonClicked s then (Returned, s)
      else (AwaitLoad,
            (updateStatus ''Verifying card...'' ''status-running''
               (s\<lparr>currentStep := ''handle-card-verification''\<rparr>))\<lparr>isFillingCardInput := True\<rparr>))"

record card_page =
  cd_settings :: loaded
  cd_input_visible :: bool
  cd_fill_throws :: "exn option"
  cd_verify_usable :: bool
  cd_click_throws :: "exn option"

text \<open>
  The rest of \<^verbatim>\<open>handleCreditCardConfirmation\<close>. The input is looked up in three ways
  and the button in three ways; \<open>cd_input_visible\<close> and \<open>cd_verify_usable\<close> are the
  outcome of those lookups with the visibility tests. The fill passes
  \<^verbatim>\<open>profile.cardNumber\<close>.
\<close>

definition handleCreditCardConfirmation_rest :: "card_page \<Rightarrow> run_state \<Rightarrow> run_state" where
  "handleCreditCardConfirmation_rest pg s =
     (let s2 = loadSettingsAndProfile (cd_settings pg) s;
          n = handleCreditCardConfirmation_cardNumber (profile s2)
      in (if \<not> truthy n then
            updateStatus ''Error: Missing card number in profile'' ''status-waiting'' s2
          else if \<not> cd_input_visible pg then s2
          else
            (let s3 = emit (Fill ''card-verification''
                              (handleCreditCardConfirmation_fillValue (profile s2)))
                        (emit (Sleep 200) (emit (Sleep 200) s2)) in
             case cd_fill_throws pg of
               Some e \<Rightarrow> emit (Log ''Error in handleCreditCardConfirmation'') s3
             | None \<Rightarrow>
                 (let s4 = emit (Sleep 500) s3 in
                  if cd_verify_usable pg then
                    (if verifyCardButtonClicked s4 then s4
                     else
                       (let s5 = emit (Click ''verify-card'') (s4\<lparr>verifyCardButtonClicked := True\<rparr>) in
                        case cd_click_throws pg of
                          Some e \<Rightarrow> emit (Log ''Error in handleCreditCardConfirmation'') s5
                        | None \<Rightarrow> emit (Sleep 1000) s5))
                  else emit (Log ''Verify card button not found/usable'') s4)))
         \<lparr>isFillingCardInput := False\<rparr>)"

definition handleCreditCardConfirmation :: "card_page \<Rightarrow> run_state \<Rightarrow> run_state" where
  "handleCreditCardConfirmation pg s =
     (case handleCreditCardConfirmation_turn s of
        (AwaitLoad, s1) \<Rightarrow> handleCreditCardConfirmation_rest pg s1
      | (x, s1) \<Rightarrow> s1)"

subsection \<open>Placing the order\<close>

text \<open>
  The checkout page as one turn sees it. The first group of fields answers the lookups
  of \<^verbatim>\<open>placeOrder\<close>, the second group the lookups of the two watcher callbacks, which
  use their own selectors. \<open>terms_unchecked\<close> says that the terms checkbox is found,
  visible and not checked; \<^verbatim>\<open>placeOrder\<close> checks the box, so the page is also a
  result of the turn. \<open>next_timer\<close> is the handle that \<^verbatim>\<open>setInterval\<close> would return.
\<close>

record button =
  visible :: bool
  disabled :: bool

record checkout_dom =
  high_demand :: bool
  cvv_field :: bool
  card_field :: bool
  terms_unchecked :: bool
  order_button :: "button option"
  save_button_usable :: bool
  next_timer :: nat
  enter_cvv_shown :: bool
  credit_card_shown :: bool
  order_button_ready :: bool

text \<open>
  \<^verbatim>\<open>placeOrder\<close> from the lookup of the place-order button to the click. The guard is
  tested and the flag is set in the same turn, before the click is awaited.
\<close>

definition placeOrder_from_button ::
  "checkout_dom \<Rightarrow> run_state \<Rightarrow> suspension \<times> checkout_dom \<times> run_state" where
  "placeOrder_from_button d s =
     (case order_button d of
        None \<Rightarrow> (Returned, d, emit (Log ''Place order button not found'') s)
      | Some b \<Rightarrow>
          if \<not> visible b then (Returned, d, emit (Log ''Place order button not visible'') s)
          else if disabled b then
            (let s1 = emit (Log ''Place order button is disabled'') s in
             if save_button_usable d then
               (AwaitSaveClick, d,
                emit (Click ''save-and-continue'')
                  (updateStatus ''Continuing checkout steps...'' ''status-running'' s1))
             else (Returned, d, s1))
          else if placeOrderButtonClicked s then (Returned, d, s)
          else
            (AwaitOrderClick, d,
             emit (Click ''place-order'')
               (updateStatus ''Submitting order...'' ''status-running''
                  (s\<lparr>placeOrderButtonClicked := True\<rparr>))))"

text \<open>
  The high-demand branch: report, and install the retry interval unless one is
  installed already.
\<close>

definition high_demand_retry :: "checkout_dom \<Rightarrow> run_state \<Rightarrow> run_state" where
  "high_demand_retry d s =
     (if \<not> high_demand d then s
      else
        (let s1 = updateStatus ''High demand message detected - auto-retrying...''
                    ''status-running'' s in
         case highDemandRetryInterval s1 of
           Some h \<Rightarrow> s1
         | None \<Rightarrow>
             (emit (Timer 3000 ''high-demand-retry'') s1)
               \<lparr>highDemandRetryInterval := Some (next_timer d),
                 intervals := intervals s1 @ [next_timer d]\<rparr>))"

text \<open>
  First turn of \<^verbatim>\<open>placeOrder\<close>. With \<^verbatim>\<open>autoSubmit\<close> not true-ish it reports and
  returns. Otherwise a pending CVV or card verification is handed to its handler (whose
  first turn runs at once), an unchecked terms checkbox is checked and the function
  sleeps, and else the button is looked up and clicked.
\<close>

definition placeOrder_turn ::
  "checkout_dom \<Rightarrow> run_state \<Rightarrow> suspension \<times> checkout_dom \<times> run_state" where
  "placeOrder_turn d s =
     (let s0 = s\<lparr>currentStep := ''place-order''\<rparr> in
      if \<not> truthy (autoSubmit s0) then
        (Returned, d, updateStatus ''Order ready - Submit disabled'' ''status-complete'' s0)
      else
        (let s1 = high_demand_retry d (updateStatus ''Placing order...'' ''status-running'' s0) in
         if cvv_field d then
           (AwaitCvvHandler
              (fst (handleCVVConfirmation_turn (s1\<lparr>placeOrderButtonClicked := False\<rparr>))), d,
            snd (handleCVVConfirmation_turn (s1\<lparr>placeOrderButtonClicked := False\<rparr>)))
         else if card_field d then
           (AwaitCardHandler
              (fst (handleCreditCardConfirmation_turn (s1\<lparr>placeOrderButtonClicked := False\<rparr>))), d,
            snd (handleCreditCardConfirmation_turn (s1\<lparr>placeOrderButtonClicked := False\<rparr>)))
         else if terms_unchecked d then
           (AwaitTerms, d\<lparr>terms_unchecked := False\<rparr>, emit (Sleep 500) s1)
         else placeOrder_from_button d s1))"

text \<open>
  What the page answers to the later turns of one call of \<^verbatim>\<open>placeOrder\<close>: the page
  at the first turn, the page after the half second spent on the terms checkbox, what
  the handlers meet, and whether a CVV or card prompt is on the page two seconds after
  the click.
\<close>

record place_page =
  po_dom :: checkout_dom
  po_dom_after_terms :: checkout_dom
  po_cvv :: cvv_page
  po_card :: card_page
  po_post_cvv :: bool
  po_post_card :: bool

text \<open>
  After the click: a verification prompt resets the flags, runs its handler and asks for
  \<^verbatim>\<open>placeOrder\<close> again (\<open>True\<close>); without a prompt the order counts as placed.
\<close>

definition placeOrder_after_click :: "place_page \<Rightarrow> run_state \<Rightarrow> bool \<times> run_state" where
  "placeOrder_after_click pg s =
     (let s1 = emit (Sleep 2000) s in
      if po_post_cvv pg then
        (True,
         emit (Sleep 1000)
           (handleCVVConfirmation (po_cvv pg)
              (s1\<lparr>confirmButtonClicked := False, placeOrderButtonClicked := False\<rparr>)))
      else if po_post_card pg then
        (True,
         emit (Sleep 1000)
           (handleCreditCardConfirmation (po_card pg)
              (s1\<lparr>verifyCardButtonClicked := False, placeOrderButtonClicked := False\<rparr>)))
      else (False, updateStatus ''Order successfully placed!'' ''status-complete'' s1))"

text \<open>
  The turns of \<^verbatim>\<open>placeOrder\<close> that follow the lookup of the button, given how that
  lookup ended: after the save-and-continue click the function sleeps, resets
  \<^verbatim>\<open>placeOrderButtonClicked\<close> and returns; after the place-order click it looks for
  a prompt, and a prompt makes it call itself (\<open>again\<close>); in every other case it has
  returned already.
\<close>

definition placeOrder_resume ::
  "place_page \<Rightarrow> (run_state \<Rightarrow> run_state option) \<Rightarrow> suspension \<times> checkout_dom \<times> run_state
     \<Rightarrow> run_state option" where
  "placeOrder_resume pg again r =
     (case r of
        (AwaitSaveClick, d, s1) \<Rightarrow>
          Some ((emit (Sleep 1500) s1)\<lparr>placeOrderButtonClicked := False\<rparr>)
      | (AwaitOrderClick, d, s1) \<Rightarrow>
          (case placeOrder_after_click pg s1 of
             (True, s2) \<Rightarrow> again s2
           | (False, s2) \<Rightarrow> Some s2)
      | (x, d, s1) \<Rightarrow> Some s1)"

text \<open>
  \<^verbatim>\<open>placeOrder\<close> to its end, when nothing else runs while it is suspended. A prompt
  after the click makes the function call itself; it takes one page per call, and when
  the pages run out before it has returned the model gives \<open>None\<close>.
\<close>

fun placeOrder :: "place_page list \<Rightarrow> run_state \<Rightarrow> run_state option" where
  "placeOrder [] s = None"
| "placeOrder (pg # pgs) s =
     (case placeOrder_turn (po_dom pg) s of
        (AwaitCvvHandler AwaitLoad, d, s1) \<Rightarrow> Some (handleCVVConfirmation_rest (po_cvv pg) s1)
      | (AwaitCardHandler AwaitLoad, d, s1) \<Rightarrow>
          Some (handleCreditCardConfirmation_rest (po_card pg) s1)
      | (AwaitTerms, d, s1) \<Rightarrow>
          placeOrder_resume pg (\<lambda>t. placeOrder pgs t)
            (placeOrder_from_button (po_dom_after_terms pg) s1)
      | r \<Rightarrow> placeOrder_resume pg (\<lambda>t. placeOrder pgs t) r)"

subsection \<open>The two watcher channels\<close>



text \<open>How often an effect occurs among the effects that a run added.\<close>

definition times :: "event \<Rightarrow> run_state \<Rightarrow> run_state \<Rightarrow> nat" where
  "times e s s' = count_list (events_since s s') e"

text \<open>
  Example: a checkout page with the place-order button ready, the engine enabled with
  automatic submission on.
\<close>

definition dom_order_ready :: checkout_dom where
  "dom_order_ready =
     \<lparr>high_demand = False, cvv_field = False, card_field = False, terms_unchecked = False,
      order_button = Some \<lparr>visible = True, disabled = False\<rparr>, save_button_usable = False,
      next_timer = 7, enter_cvv_shown = False, credit_card_shown = False,
      order_button_ready = True\<rparr>"

definition submitting_state :: run_state where
  "submitting_state = ready_state\<lparr>autoSubmit := JBool True\<rparr>"

definition cvv_page_ready :: cvv_page where
  "cvv_page_ready =
     \<lparr>cv_settings = reload product_page_ok, cv_input_visible = True, cv_fill_throws = None,
      cv_confirm_usable = True, cv_click_throws = None\<rparr>"

text \<open>The same prompt when the stored profile holds its CVV under \<^verbatim>\<open>paymentMethod\<close> only.\<close>

definition cvv_page_nested :: cvv_page where
  "cvv_page_nested =
     cvv_page_ready\<lparr>cv_settings :=
       (reload product_page_ok)\<lparr>ld_profile := Some profile_cvv_paymentMethod\<rparr>\<rparr>"

definition card_page_ready :: card_page where
  "card_page_ready =
     \<lparr>cd_settings = (reload product_page_ok)\<lparr>ld_profile := Some profile_direct_card\<rparr>,
      cd_input_visible = True, cd_fill_throws = None,
      cd_verify_usable = True, cd_click_throws = None\<rparr>"

definition place_page_ready :: place_page where
  "place_page_ready =
     \<lparr>po_dom = dom_order_ready, po_dom_after_terms = dom_order_ready,
      po_cvv = cvv_page_ready, po_card = card_page_ready,
      po_post_cvv = False, po_post_card = False\<rparr>"



subsection \<open>The Buy-Now retry loop\<close>

text \<open>
  \<^verbatim>\<open>retryBuyNow\<close> is a closure of one call of \<^verbatim>\<open>useBuyNowCheckout\<close>; it shares the
  counter \<^verbatim>\<open>retryCount\<close> of that call. The page is polled for the Buy-Now button:
  \<open>vis k\<close> tells whether the \<open>k\<close>-th look at the page finds the button visible, and
  \<open>looks\<close> counts the looks so far.

  The polling loop of one attempt: at most \<^verbatim>\<open>maxPollAttempts = 10\<close> looks, 500 ms
  apart, stopping at the first look that finds the button.
\<close>

function poll_button ::
  "(nat \<Rightarrow> bool) \<Rightarrow> nat \<Rightarrow> nat \<Rightarrow> run_state \<Rightarrow> bool \<times> nat \<times> run_state" where
  "poll_button vis pollAttempts looks s =
     (if pollAttempts < 10 then
        (let a = pollAttempts + 1;
             s1 = emit (LogPoll a) s
         in if vis looks then (True, looks + 1, s1)
            else if a < 10 then poll_button vis a (looks + 1) (emit (Sleep 500) s1)
            else poll_button vis a (looks + 1) s1)
      else (False, looks, s))"
  by pat_completeness auto
termination
  by (relation "measure (\<lambda>(vis, pollAttempts, looks, s). 10 - pollAttempts)") auto

datatype retry_exit = GaveUp | Restarted

text \<open>
  \<^verbatim>\<open>retryBuyNow(initialDelayMs)\<close> with \<^verbatim>\<open>maxRetries = 5\<close>. When the button is found the
  counter is reset, the recovery flag is cleared and \<^verbatim>\<open>useBuyNowCheckout\<close> is called
  again (a new call, with a counter of its own); when it is not found the function
  calls itself with the delay multiplied by 1.5 and capped at 5000. With the counter
  at the maximum it reports the failure and returns. The \<^verbatim>\<open>catch\<close> around the restart
  is never entered: calling an \<^verbatim>\<open>async\<close> function does not throw.
\<close>

function retryBuyNow ::
  "(nat \<Rightarrow> bool) \<Rightarrow> rat \<Rightarrow> nat \<Rightarrow> nat \<Rightarrow> run_state
     \<Rightarrow> retry_exit \<times> nat \<times> nat \<times> run_state" where
  "retryBuyNow vis initialDelayMs retryCount looks s =
     (if retryCount \<ge> 5 then
        (GaveUp, retryCount, looks,
         updateStatus ''Buy now checkout failed, please try again'' ''status-waiting'' s)
      else
        (let c = retryCount + 1;
             s1 = emit (Sleep initialDelayMs) (emit (LogRetry c initialDelayMs) s)
         in case poll_button vis 0 looks s1 of
              (True, looks', s2) \<Rightarrow>
                (Restarted, 0, looks',
                 emit (Call ''useBuyNowCheckout'')
                   ((emit (Sleep 500) s2)\<lparr>inBuyNowErrorRecovery := False\<rparr>))
            | (False, looks', s2) \<Rightarrow>
                retryBuyNow vis (min (initialDelayMs * 3 / 2) 5000) c looks' s2))"
  by pat_completeness auto
termination
  by (relation "measure (\<lambda>(vis, initialDelayMs, retryCount, looks, s). 5 - retryCount)") auto

text \<open>The delay of the \<open>i\<close>-th attempt after a first delay \<open>d\<close>.\<close>

fun backoff :: "rat \<Rightarrow> nat \<Rightarrow> rat" where
  "backoff d 0 = d"
| "backoff d (Suc i) = backoff (min (d * 3 / 2) 5000) i"

text \<open>The retry lines and the poll lines among the effects.\<close>

fun retry_lines :: "event list \<Rightarrow> (nat \<times> rat) list" where
  "retry_lines [] = []"
| "retry_lines (LogRetry n d # es) = (n, d) # retry_lines es"
| "retry_lines (e # es) = retry_lines es"

fun poll_lines :: "event list \<Rightarrow> nat list" where
  "poll_lines [] = []"
| "poll_lines (LogPoll a # es) = a # poll_lines es"
| "poll_lines (e # es) = poll_lines es"

subsection \<open>The Buy-Now flow\<close>

text \<open>
  What the page answers during one pass of \<^verbatim>\<open>useBuyNowCheckout\<close>:
  \<^item> \<open>bn_clicked\<close>: the click on the Buy-Now button throws, or returns whether it clicked;
  \<^item> \<open>bn_panel_probe\<close>: the probe, among the 8 made one second apart, at which the
    place-order button exists in the sub-document (\<open>None\<close>: at none of them);
  \<^item> the results of the clicks, of the fill and of the existence tests inside the
    sub-document, which catch their own exceptions and answer \<^verbatim>\<open>false\<close>.
\<close>

record buy_now_page =
  bn_clicked :: "exn + bool"
  bn_panel_probe :: "nat option"
  bn_place_clicked :: bool
  bn_cvv_exists :: bool
  bn_cvv_filled :: bool
  bn_confirm_clicked :: bool
  bn_has_error :: bool
  bn_close_clicked :: bool
  bn_final_button :: bool

datatype bn_step = Success | MissingCvv | Retry rat

text \<open>The sleeps of the probing loop: one after every probe that finds nothing.\<close>

definition probe_sleeps :: "nat option \<Rightarrow> nat" where
  "probe_sleeps p = (case p of None \<Rightarrow> 8 | Some k \<Rightarrow> if 1 \<le> k \<and> k \<le> 8 then k - 1 else 8)"

definition panel_found :: "nat option \<Rightarrow> bool" where
  "panel_found p = (case p of None \<Rightarrow> False | Some k \<Rightarrow> 1 \<le> k \<and> k \<le> 8)"

text \<open>The error branch: recovery mode on, the error panel closed, the reset scheduled.\<close>

definition buy_now_error :: "buy_now_page \<Rightarrow> run_state \<Rightarrow> run_state" where
  "buy_now_error pg s =
     (let s1 = s\<lparr>inBuyNowErrorRecovery := True\<rparr>;
          s2 = (if bn_close_clicked pg then emit (FrameClick ''close-error'') s1
                else emit (Call ''clickInBuyNowIframe close-error-alt'') s1)
      in emit (Timer 2000 ''reset inBuyNowErrorRecovery'') (emit (Sleep 3500) s2))"

text \<open>
  One pass of \<^verbatim>\<open>useBuyNowCheckout\<close>, up to the point where it returns or hands over to
  \<^verbatim>\<open>retryBuyNow\<close> with a first delay. An exception of the first click, like a click
  that did not happen, ends in the \<^verbatim>\<open>catch\<close>, which retries after 2500 ms. The flow
  does not read \<^verbatim>\<open>globalSettings.autoSubmit\<close>.
\<close>

definition useBuyNowCheckout_pass :: "buy_now_page \<Rightarrow> run_state \<Rightarrow> bn_step \<times> run_state" where
  "useBuyNowCheckout_pass pg s =
     (let s0 = emit (Click ''buy-now'')
                 (updateStatus ''Using Buy Now checkout...'' ''status-running''
                    (s\<lparr>currentStep := ''buy-now-checkout''\<rparr>))
      in case bn_clicked pg of
           Inl e \<Rightarrow> (Retry 2500, s0)
         | Inr False \<Rightarrow> (Retry 2500, s0)
         | Inr True \<Rightarrow>
             (let s1 = emit (Sleep 2000) s0;
                  s2 = s1\<lparr>trace := trace s1 @ replicate (probe_sleeps (bn_panel_probe pg)) (Sleep 1000)\<rparr>
              in if \<not> panel_found (bn_panel_probe pg) then (Retry 2500, s2)
                 else if \<not> bn_place_clicked pg then (Retry 1500, s2)
                 else
                   (let s3 = emit (Sleep 1500) (emit (FrameClick ''place-order'') s2) in
                    if \<not> bn_cvv_exists pg then (Retry 1500, s3)
                    else if \<not> truthy (useBuyNowCheckout_cvv (profile s3)) then (MissingCvv, s3)
                    else if \<not> bn_cvv_filled pg then (Retry 1500, s3)
                    else
                      (let s4 = emit (Sleep 500)
                                  (emit (FrameFill ''cvv'' (useBuyNowCheckout_cvv (profile s3))) s3) in
                       if \<not> bn_confirm_clicked pg then (Retry 1500, s4)
                       else
                         (let s5 = emit (Sleep 1500) (emit (FrameClick ''confirm-cvv'') s4) in
                          if bn_has_error pg then (Retry 1500, buy_now_error pg s5)
                          else
                            (Success,
                             updateStatus ''Order successfully placed!'' ''status-complete''
                               (if bn_final_button pg
                                then emit (FrameClick ''final-confirm'') s5 else s5)))))))"

datatype bn_exit = Placed | NoCvv | Failed

text \<open>
  The whole flow. Each pass that hands over to \<^verbatim>\<open>retryBuyNow\<close> starts it with the fresh
  counter of that call; a retry that finds the button starts the next pass. Nothing
  bounds the number of passes: the model takes one page per pass and gives \<open>None\<close> when
  the pages run out before the flow has returned.
\<close>

fun useBuyNowCheckout ::
  "(nat \<Rightarrow> bool) \<Rightarrow> buy_now_page list \<Rightarrow> nat \<Rightarrow> run_state \<Rightarrow> (bn_exit \<times> nat \<times> run_state) option" where
  "useBuyNowCheckout vis [] looks s = None"
| "useBuyNowCheckout vis (pg # pgs) looks s =
     (case useBuyNowCheckout_pass pg s of
        (Success, s1) \<Rightarrow> Some (Placed, looks, s1)
      | (MissingCvv, s1) \<Rightarrow> Some (NoCvv, looks, s1)
      | (Retry d, s1) \<Rightarrow>
          (case retryBuyNow vis d 0 looks s1 of
             (GaveUp, c, looks', s2) \<Rightarrow> Some (Failed, looks', s2)
           | (Restarted, c, looks', s2) \<Rightarrow> useBuyNowCheckout vis pgs looks' s2))"

text \<open>A Buy-Now panel where every step works at once.\<close>

definition buy_now_page_smooth :: buy_now_page where
  "buy_now_page_smooth =
     \<lparr>bn_clicked = Inr True, bn_panel_probe = Some 1, bn_place_clicked = True,
      bn_cvv_exists = True, bn_cvv_filled = True, bn_confirm_clicked = True,
      bn_has_error = False, bn_close_clicked = False, bn_final_button = False\<rparr>"

text \<open>
  A state with automatic submission switched off and the Buy-Now option switched on,
  and a product page that offers a usable Buy-Now button.
\<close>

definition submit_off_state :: run_state where
  "submit_off_state =
     ready_state\<lparr>autoSubmit := JBool False, useBuyNowWhenAvailable := JBool True\<rparr>"

definition product_page_buy_now :: product_page where
  "product_page_buy_now = product_page_ok\<lparr>buyNowButton := True\<rparr>"

subsection \<open>Page detection and the cart page\<close>

text \<open>
  \<^verbatim>\<open>window.location\<close>: the whole address and its path. The browser derives the path
  from the address; here both are given.
\<close>

record location =
  href :: string
  pathname :: string

datatype page_type = Product | Registry | Checkout | Cart | Unknown

text \<open>
  \<^verbatim>\<open>detectCurrentPage\<close>: three substring tests on the address, then the exact test on
  the path.
\<close>

definition detectCurrentPage :: "location \<Rightarrow> page_type" where
  "detectCurrentPage loc =
     (if str_includes (href loc) ''target.com/p/'' then Product
      else if str_includes (href loc) ''/gift-registry'' then Registry
      else if str_includes (href loc) ''target.com/checkout'' then Checkout
      else if pathname loc = ''/cart'' then Cart
      else Unknown)"

text \<open>
  \<^verbatim>\<open>autoCloseCartPage\<close>: reads \<^verbatim>\<open>globalSettings\<close> (the argument is the value of its
  field \<^verbatim>\<open>autoCloseCartPage\<close>, or the exception of the read) and closes the tab when
  the setting is on.
\<close>

definition autoCloseCartPage :: "exn + jsval \<Rightarrow> run_state \<Rightarrow> run_state" where
  "autoCloseCartPage r s =
     (let s1 = emit (StorageGet ''globalSettings'') s in
      case r of
        Inl e \<Rightarrow> emit (Log ''Error in autoCloseCartPage'') s1
      | Inr v \<Rightarrow>
          if truthy v then
            emit (Timer 100 ''window.close'')
              (emit CloseTab (updateStatus ''Auto-closing cart page...'' ''status-running'' s1))
          else updateStatus ''Cart page detected (automation disabled)'' ''status-waiting'' s1)"

text \<open>
  \<^verbatim>\<open>init\<close>: nothing but a status on the cart page; otherwise the settings are loaded,
  the message listeners are set up and the page type is computed (and dropped).
\<close>

definition init :: "location \<Rightarrow> loaded \<Rightarrow> run_state \<Rightarrow> run_state" where
  "init loc ld s =
     (if pathname loc = ''/cart'' then
        updateStatus ''Cart page detected (automation disabled)'' ''status-waiting'' s
      else emit (Call ''detectCurrentPage'')
             (emit (Call ''setupListeners'') (loadSettingsAndProfile ld s)))"

text \<open>
  The script from its first line: on the cart path only the auto-close routine runs;
  elsewhere, unless the script ran before in this window, the closure is created and
  \<^verbatim>\<open>init\<close> runs.
\<close>

record script_page =
  cart_setting :: "exn + jsval"
  executed :: bool
  startup :: loaded

definition content_script :: "location \<Rightarrow> script_page \<Rightarrow> run_state" where
  "content_script loc pg =
     (if pathname loc = ''/cart'' then
        autoCloseCartPage (cart_setting pg)
          (updateStatus ''Cart page detected - checking auto-close setting'' ''status-waiting''
             initial_state)
      else if executed pg then initial_state
      else init loc (startup pg) initial_state)"

text \<open>
  \<^verbatim>\<open>setupCheckoutPageObservers\<close>: old watchers are disposed, the flags are reset and
  the two channels are installed; the arguments are the new observer and the handle of
  the new interval.
\<close>

definition setupCheckoutPageObservers :: "nat \<Rightarrow> nat \<Rightarrow> run_state \<Rightarrow> run_state" where
  "setupCheckoutPageObservers obs iv s =
     (let s1 = s\<lparr>trace := trace s @ map (\<lambda>h. Call ''observer.disconnect'') (observers s)
                                  @ map (\<lambda>h. Call ''clearInterval'') (intervals s)\<rparr>;
          s2 = s1\<lparr>placeOrderButtonClicked := False, confirmButtonClicked := False,
                  verifyCardButtonClicked := False, isFillingCardInput := False,
                  isFillingCvvInput := False\<rparr>
      in (emit (Timer 5000 ''safety-interval'') (emit (Call ''MutationObserver.observe'') s2))
         \<lparr>observers := [obs], intervals := [iv]\<rparr>)"

text \<open>
  \<^verbatim>\<open>handlePageDetection\<close>. After \<^verbatim>\<open>cleanup\<close> the cart type returns at once. With the
  engine enabled, a product page loads the settings and then starts the pipeline, a
  checkout page installs the watchers, loads the settings and schedules the checkout
  pipeline; the calls that happen later, from a promise or a timer, are logged as
  \<open>Call\<close> and \<open>Timer\<close>.
\<close>

definition handlePageDetection ::
  "page_type \<Rightarrow> loaded \<Rightarrow> nat \<Rightarrow> nat \<Rightarrow> run_state \<Rightarrow> run_state" where
  "handlePageDetection pageType ld obs iv s =
     (let s1 = cleanup s in
      if pageType = Cart then
        updateStatus ''Cart page detected (automation disabled)'' ''status-waiting'' s1
      else if isEnabled s1 then
        (case pageType of
           Product \<Rightarrow>
             emit (Call ''startCheckoutProcess'')
               (loadSettingsAndProfile ld
                  (updateStatus ''Ready on product page'' ''status-running'' s1))
         | Checkout \<Rightarrow>
             emit (Timer 800 ''continueCheckoutProcess'')
               (loadSettingsAndProfile ld
                  (setupCheckoutPageObservers obs iv
                     (updateStatus ''Continuing on checkout page'' ''status-running'' s1)))
         | Registry \<Rightarrow>
             updateStatus ''Gift registry page detected (not supported)'' ''status-waiting'' s1
         | _ \<Rightarrow> updateStatus ''On non-targetable Target page'' ''status-waiting'' s1)
      else
        (case pageType of
           Product \<Rightarrow> updateStatus ''Product page detected (Disabled)'' ''status-waiting'' s1
         | Checkout \<Rightarrow> updateStatus ''Checkout page detected (Disabled)'' ''status-waiting'' s1
         | Registry \<Rightarrow>
             updateStatus ''Gift registry page detected (not supported)'' ''status-waiting'' s1
         | _ \<Rightarrow> updateStatus ''Non-targetable Target page'' ''status-waiting'' s1))"

text \<open>
  The \<^verbatim>\<open>detectPage\<close> message of the background script, whose type the listener
  ignores when it is the cart type.
\<close>

definition on_detectPage ::
  "page_type \<Rightarrow> loaded \<Rightarrow> nat \<Rightarrow> nat \<Rightarrow> run_state \<Rightarrow> run_state" where
  "on_detectPage messageType ld obs iv s =
     (if messageType = Cart then s else handlePageDetection messageType ld obs iv s)"

text \<open>
  \<^verbatim>\<open>onActivate\<close>: nothing but a status on the cart path; otherwise the settings are
  reloaded and, in the \<^verbatim>\<open>then\<close> callback of that load, the page is detected and,
  unless it is the cart, handled. The function reads \<^verbatim>\<open>window.location\<close> twice: in
  its guard, when it is called (\<open>loc\<close>), and inside \<^verbatim>\<open>detectCurrentPage\<close>, when the
  storage has answered (\<open>loc'\<close>). The script lives on through in-page navigation
  (\<^verbatim>\<open>handlePageDetection\<close> begins by cleaning up the state of the previous page), so
  the two reads need not see the same address. The second \<open>loaded\<close> is what the storage
  answers to the load inside \<^verbatim>\<open>handlePageDetection\<close>.
\<close>

definition onActivate ::
  "location \<Rightarrow> location \<Rightarrow> loaded \<Rightarrow> loaded \<Rightarrow> nat \<Rightarrow> nat \<Rightarrow> run_state \<Rightarrow> run_state" where
  "onActivate loc loc' ld ld' obs iv s =
     (if pathname loc = ''/cart'' then
        updateStatus ''Cart page detected (automation disabled)'' ''status-waiting'' s
      else
        (let s1 = loadSettingsAndProfile ld s; pageType = detectCurrentPage loc' in
         if pageType \<noteq> Cart then handlePageDetection pageType ld' obs iv s1 else s1))"

text \<open>
  The effects that make up automation: loading the site settings and the profile,
  starting either pipeline (the price check is the first thing the product pipeline
  does), and installing either watcher channel.
\<close>

definition automation :: "event \<Rightarrow> bool" where
  "automation e \<longleftrightarrow>
     e = StorageGet ''siteSettings'' \<or> e = Call ''startCheckoutProcess''
     \<or> e = Timer 800 ''continueCheckoutProcess'' \<or> e = Call ''MutationObserver.observe''
     \<or> e = Timer 5000 ''safety-interval''"

text \<open>A cart address that mentions a product address in its query, and a plain one.\<close>

definition cart_with_query :: location where
  "cart_with_query =
     \<lparr>href = ''https://www.target.com/cart?next=https://www.target.com/p/-/A-123'',
      pathname = ''/cart''\<rparr>"

definition cart_plain :: location where
  "cart_plain = \<lparr>href = ''https://www.target.com/cart'', pathname = ''/cart''\<rparr>"

text \<open>The address of a product page.\<close>

definition product_address :: location where
  "product_address =
     \<lparr>href = ''https://www.target.com/p/-/A-123'', pathname = ''/p/-/A-123''\<rparr>"

definition script_page_autoclose :: script_page where
  "script_page_autoclose =
     \<lparr>cart_setting = Inr (JBool True), executed = False, startup = reload product_page_ok\<rparr>"

section \<open>Profile lookups\<close>

lemma first_present_Cons:
  "first_present (v # vs) = (if truthy v then v else first_present vs)"
  by (simp add: first_present_def)

lemma first_present_Nil: "first_present [] = JNull"
  by (simp add: first_present_def)

lemma cvv_rest_fill:
  "Fill ''cvv-verification'' v \<in> set (events_since s (handleCVVConfirmation_rest cp s)) \<Longrightarrow>
   v = handleCVVConfirmation_cvv (ld_profile (cv_settings cp))"
  by (simp add: handleCVVConfirmation_rest_def events_since_def Let_def
      loadSettingsAndProfile_def updateStatus_def emit_def split: option.splits if_splits)

lemma buy_now_pass_fill:
  "FrameFill ''cvv'' v \<in> set (events_since s (snd (useBuyNowCheckout_pass bp s))) \<Longrightarrow>
   v = useBuyNowCheckout_cvv (profile s)"
  by (simp add: useBuyNowCheckout_pass_def buy_now_error_def events_since_def Let_def
      updateStatus_def emit_def split: sum.splits bool.splits if_splits)

lemma cvv_rest_fills:
  "truthy (handleCVVConfirmation_cvv (ld_profile (cv_settings cp))) \<Longrightarrow> cv_input_visible cp \<Longrightarrow>
   Fill ''cvv-verification'' (handleCVVConfirmation_cvv (ld_profile (cv_settings cp)))
     \<in> set (events_since s (handleCVVConfirmation_rest cp s))"
  by (simp add: handleCVVConfirmation_rest_def events_since_def Let_def
      loadSettingsAndProfile_def updateStatus_def emit_def split: option.splits)

lemma buy_now_pass_fills:
  "bn_clicked bp = Inr True \<Longrightarrow> panel_found (bn_panel_probe bp) \<Longrightarrow> bn_place_clicked bp \<Longrightarrow>
   bn_cvv_exists bp \<Longrightarrow> truthy (useBuyNowCheckout_cvv (profile s)) \<Longrightarrow> bn_cvv_filled bp \<Longrightarrow>
   FrameFill ''cvv'' (useBuyNowCheckout_cvv (profile s))
     \<in> set (events_since s (snd (useBuyNowCheckout_pass bp s)))"
  by (simp add: useBuyNowCheckout_pass_def buy_now_error_def events_since_def Let_def
      updateStatus_def emit_def)

lemma handleCVVConfirmation_cvv_first_present:
  "handleCVVConfirmation_cvv p =
     first_present [profile_cvv p, profile_paymentMethod_cvv p, profile_payment_cvv p]"
  by (simp add: handleCVVConfirmation_cvv_def first_present_Cons first_present_Nil
      profile_cvv_def profile_paymentMethod_cvv_def profile_payment_cvv_def
      split: option.splits)

lemma useBuyNowCheckout_cvv_same: "useBuyNowCheckout_cvv p = handleCVVConfirmation_cvv p"
  by (simp add: handleCVVConfirmation_cvv_def useBuyNowCheckout_cvv_def)

lemma handleCVVConfirmation_cvv_fields:
  "handleCVVConfirmation_cvv
     (Some \<lparr>cvv = a, cardNumber = n,
            paymentMethod = Some \<lparr>nested_cvv = b, nested_cardNumber = k\<rparr>,
            payment = Some \<lparr>nested_cvv = c, nested_cardNumber = l\<rparr>\<rparr>) =
     (if truthy a then a else if truthy b then b else if truthy c then c else JNull)"
  by (simp add: handleCVVConfirmation_cvv_def)

lemma handleCVVConfirmation_cvv_examples:
  "handleCVVConfirmation_cvv (Some profile_cvv_direct) = JStr ''111''"
  "handleCVVConfirmation_cvv (Some profile_cvv_paymentMethod) = JStr ''222''"
  "handleCVVConfirmation_cvv (Some profile_cvv_payment) = JStr ''333''"
  "handleCVVConfirmation_cvv (Some profile_three_shapes) = JStr ''111''"
  "handleCVVConfirmation_cvv None = JNull"
  by (simp_all add: handleCVVConfirmation_cvv_def profile_cvv_direct_def
      profile_cvv_paymentMethod_def profile_cvv_payment_def profile_three_shapes_def)

text \<open>
  C6. For every profile, also a missing one, the CVV that the checkout-page handler
  resolves is the first present value among the profile's own \<^verbatim>\<open>cvv\<close>, the
  \<^verbatim>\<open>cvv\<close> of its \<^verbatim>\<open>paymentMethod\<close> object and the \<^verbatim>\<open>cvv\<close> of its
  \<^verbatim>\<open>payment\<close> object, in this order, and \<^verbatim>\<open>null\<close> when none is present.
  Written on the fields: with the three values \<open>a\<close>, \<open>b\<close>, \<open>c\<close> stored in the three
  places the result is \<open>a\<close> if present, else \<open>b\<close> if present, else \<open>c\<close> if present. A
  present direct field wins whatever the nested objects hold; a present
  payment-method field wins over the payment object when the direct field is absent; the
  payment object is used when the other two are absent. The four examples of the
  specification give 111, 222, 333 and 111. The Buy-Now flow resolves the same value
  from the same profile. Each of the two flows fills its CVV input with nothing but
  the value so resolved from the profile it has at that moment, and does fill it with
  that value when the value is present and the page lets the flow reach the fill.
\<close>

theorem cvv_resolution_order:
  "handleCVVConfirmation_cvv p =
     first_present [profile_cvv p, profile_paymentMethod_cvv p, profile_payment_cvv p]
   \<and> useBuyNowCheckout_cvv p = handleCVVConfirmation_cvv p
   \<and> handleCVVConfirmation_cvv
         (Some \<lparr>cvv = a, cardNumber = n,
                paymentMethod = Some \<lparr>nested_cvv = b, nested_cardNumber = k\<rparr>,
                payment = Some \<lparr>nested_cvv = c, nested_cardNumber = l\<rparr>\<rparr>) =
       (if truthy a then a else if truthy b then b else if truthy c then c else JNull)
   \<and> (truthy (profile_cvv p) \<longrightarrow> handleCVVConfirmation_cvv p = profile_cvv p)
   \<and> (\<not> truthy (profile_cvv p) \<and> truthy (profile_paymentMethod_cvv p) \<longrightarrow>
        handleCVVConfirmation_cvv p = profile_paymentMethod_cvv p)
   \<and> (\<not> truthy (profile_cvv p) \<and> \<not> truthy (profile_paymentMethod_cvv p)
        \<and> truthy (profile_payment_cvv p) \<longrightarrow>
        handleCVVConfirmation_cvv p = profile_payment_cvv p)
   \<and> (\<not> truthy (profile_cvv p) \<and> \<not> truthy (profile_paymentMethod_cvv p)
        \<and> \<not> truthy (profile_payment_cvv p) \<longrightarrow>
        handleCVVConfirmation_cvv p = JNull)
   \<and> handleCVVConfirmation_cvv (Some profile_cvv_direct) = JStr ''111''
   \<and> handleCVVConfirmation_cvv (Some profile_cvv_paymentMethod) = JStr ''222''
   \<and> handleCVVConfirmation_cvv (Some profile_cvv_payment) = JStr ''333''
   \<and> handleCVVConfirmation_cvv (Some profile_three_shapes) = JStr ''111''
   \<and> useBuyNowCheckout_cvv (Some profile_cvv_direct) = JStr ''111''
   \<and> useBuyNowCheckout_cvv (Some profile_cvv_paymentMethod) = JStr ''222''
   \<and> useBuyNowCheckout_cvv (Some profile_cvv_payment) = JStr ''333''
   \<and> useBuyNowCheckout_cvv (Some profile_three_shapes) = JStr ''111''
   \<and> (\<forall>v. Fill ''cvv-verification'' v
             \<in> set (events_since s (handleCVVConfirmation_rest cp s)) \<longrightarrow>
          v = handleCVVConfirmation_cvv (ld_profile (cv_settings cp)))
   \<and> (\<forall>v. FrameFill ''cvv'' v
             \<in> set (events_since s (snd (useBuyNowCheckout_pass bp s))) \<longrightarrow>
          v = useBuyNowCheckout_cvv (profile s))
   \<and> (truthy (handleCVVConfirmation_cvv (ld_profile (cv_settings cp)))
        \<and> cv_input_visible cp \<longrightarrow>
        Fill ''cvv-verification'' (handleCVVConfirmation_cvv (ld_profile (cv_settings cp)))
          \<in> set (events_since s (handleCVVConfirmation_rest cp s)))
   \<and> (bn_clicked bp = Inr True \<and> panel_found (bn_panel_probe bp) \<and> bn_place_clicked bp
        \<and> bn_cvv_exists bp \<and> truthy (useBuyNowCheckout_cvv (profile s))
        \<and> bn_cvv_filled bp \<longrightarrow>
        FrameFill ''cvv'' (useBuyNowCheckout_cvv (profile s))
          \<in> set (events_since s (snd (useBuyNowCheckout_pass bp s))))"
proof -
  note order = handleCVVConfirmation_cvv_first_present [of p]
  note same = useBuyNowCheckout_cvv_same
  have direct: "truthy (profile_cvv p) \<longrightarrow> handleCVVConfirmation_cvv p = profile_cvv p"
    by (simp add: order first_present_Cons)
  have second: "\<not> truthy (profile_cvv p) \<and> truthy (profile_paymentMethod_cvv p) \<longrightarrow>
      handleCVVConfirmation_cvv p = profile_paymentMethod_cvv p"
    by (simp add: order first_present_Cons)
  have third: "\<not> truthy (profile_cvv p) \<and> \<not> truthy (profile_paymentMethod_cvv p)
      \<and> truthy (profile_payment_cvv p) \<longrightarrow>
      handleCVVConfirmation_cvv p = profile_payment_cvv p"
    by (simp add: order first_present_Cons)
  have none: "\<not> truthy (profile_cvv p) \<and> \<not> truthy (profile_paymentMethod_cvv p)
      \<and> \<not> truthy (profile_payment_cvv p) \<longrightarrow> handleCVVConfirmation_cvv p = JNull"
    by (simp add: order first_present_Cons first_present_Nil)
  have fills:
    "\<forall>v. Fill ''cvv-verification'' v
          \<in> set (events_since s (handleCVVConfirmation_rest cp s)) \<longrightarrow>
        v = handleCVVConfirmation_cvv (ld_profile (cv_settings cp))"
    "\<forall>v. FrameFill ''cvv'' v
          \<in> set (events_since s (snd (useBuyNowCheckout_pass bp s))) \<longrightarrow>
        v = useBuyNowCheckout_cvv (profile s)"
    using cvv_rest_fill [of _ s cp] buy_now_pass_fill [of _ s bp] by blast+
  have filled:
    "truthy (handleCVVConfirmation_cvv (ld_profile (cv_settings cp)))
        \<and> cv_input_visible cp \<longrightarrow>
        Fill ''cvv-verification'' (handleCVVConfirmation_cvv (ld_profile (cv_settings cp)))
          \<in> set (events_since s (handleCVVConfirmation_rest cp s))"
    "bn_clicked bp = Inr True \<and> panel_found (bn_panel_probe bp) \<and> bn_place_clicked bp
        \<and> bn_cvv_exists bp \<and> truthy (useBuyNowCheckout_cvv (profile s))
        \<and> bn_cvv_filled bp \<longrightarrow>
        FrameFill ''cvv'' (useBuyNowCheckout_cvv (profile s))
          \<in> set (events_since s (snd (useBuyNowCheckout_pass bp s)))"
    using cvv_rest_fills [of cp s] buy_now_pass_fills [of bp s] by blast+
  show ?thesis
    using order direct second third none fills filled
    by (simp only: same handleCVVConfirmation_cvv_fields handleCVVConfirmation_cvv_examples
        simp_thms)
qed

theorem cvv_resolution_order_witness:
  "truthy (profile_cvv (Some profile_three_shapes))
   \<and> handleCVVConfirmation_cvv (Some profile_three_shapes) = JStr ''111''
   \<and> useBuyNowCheckout_cvv (Some profile_three_shapes) = JStr ''111''
   \<and> \<not> truthy (profile_cvv (Some profile_cvv_paymentMethod))
   \<and> truthy (profile_paymentMethod_cvv (Some profile_cvv_paymentMethod))
   \<and> handleCVVConfirmation_cvv (Some profile_cvv_paymentMethod) = JStr ''222''
   \<and> useBuyNowCheckout_cvv (Some profile_cvv_paymentMethod) = JStr ''222''
   \<and> \<not> truthy (profile_cvv (Some profile_cvv_payment))
   \<and> \<not> truthy (profile_paymentMethod_cvv (Some profile_cvv_payment))
   \<and> truthy (profile_payment_cvv (Some profile_cvv_payment))
   \<and> handleCVVConfirmation_cvv (Some profile_cvv_payment) = JStr ''333''
   \<and> useBuyNowCheckout_cvv (Some profile_cvv_payment) = JStr ''333''
   \<and> \<not> truthy (profile_cvv None) \<and> \<not> truthy (profile_paymentMethod_cvv None)
   \<and> \<not> truthy (profile_payment_cvv None)
   \<and> handleCVVConfirmation_cvv None = JNull
   \<and> Fill ''cvv-verification'' (JStr ''111'')
       \<in> set (events_since ready_state (handleCVVConfirmation_rest cvv_page_ready ready_state))
   \<and> FrameFill ''cvv'' (JStr ''111'')
       \<in> set (events_since ready_state
                (snd (useBuyNowCheckout_pass buy_now_page_smooth ready_state)))
   \<and> Fill ''cvv-verification'' (JStr ''222'')
       \<in> set (events_since ready_state
                (handleCVVConfirmation_rest cvv_page_nested ready_state))
   \<and> FrameFill ''cvv'' (JStr ''333'')
       \<in> set (events_since (ready_state\<lparr>profile := Some profile_cvv_payment\<rparr>)
                (snd (useBuyNowCheckout_pass buy_now_page_smooth
                       (ready_state\<lparr>profile := Some profile_cvv_payment\<rparr>))))"
proof -
  have shapes:
    "profile_cvv (Some profile_three_shapes) = JStr ''111''"
    "profile_cvv (Some profile_cvv_paymentMethod) = JUndefined"
    "profile_paymentMethod_cvv (Some profile_cvv_paymentMethod) = JStr ''222''"
    "profile_cvv (Some profile_cvv_payment) = JUndefined"
    "profile_paymentMethod_cvv (Some profile_cvv_payment) = JUndefined"
    "profile_payment_cvv (Some profile_cvv_payment) = JStr ''333''"
    "profile_cvv None = JUndefined" "profile_paymentMethod_cvv None = JUndefined"
    "profile_payment_cvv None = JUndefined"
    by (simp_all add: profile_cvv_def profile_paymentMethod_cvv_def profile_payment_cvv_def
        profile_three_shapes_def profile_cvv_paymentMethod_def profile_cvv_payment_def)
  have fill1: "Fill ''cvv-verification'' (JStr ''111'')
       \<in> set (events_since ready_state (handleCVVConfirmation_rest cvv_page_ready ready_state))"
    by (simp add: profile_three_shapes_def
        handleCVVConfirmation_rest_def cvv_page_ready_def product_page_ok_def
        loadSettingsAndProfile_def handleCVVConfirmation_cvv_def
        events_since_def ready_state_def initial_state_def updateStatus_def emit_def Let_def)
  have fill2: "FrameFill ''cvv'' (JStr ''111'')
       \<in> set (events_since ready_state
                (snd (useBuyNowCheckout_pass buy_now_page_smooth ready_state)))"
    by (simp add: profile_three_shapes_def useBuyNowCheckout_cvv_def
        useBuyNowCheckout_pass_def buy_now_page_smooth_def probe_sleeps_def panel_found_def
        events_since_def ready_state_def initial_state_def updateStatus_def emit_def Let_def)
  from cvv_resolution_order [where p = "Some profile_three_shapes" and s = ready_state
      and cp = cvv_page_ready and bp = buy_now_page_smooth]
  have one: "handleCVVConfirmation_cvv (Some profile_three_shapes) = JStr ''111''"
    "useBuyNowCheckout_cvv (Some profile_three_shapes) = JStr ''111''"
    by (simp_all add: shapes first_present_Cons first_present_Nil)
  from cvv_resolution_order [where p = "Some profile_cvv_paymentMethod"]
  have two: "handleCVVConfirmation_cvv (Some profile_cvv_paymentMethod) = JStr ''222''"
    "useBuyNowCheckout_cvv (Some profile_cvv_paymentMethod) = JStr ''222''"
    by (simp_all add: shapes first_present_Cons first_present_Nil)
  from cvv_resolution_order [where p = "Some profile_cvv_payment"]
  have three: "handleCVVConfirmation_cvv (Some profile_cvv_payment) = JStr ''333''"
    "useBuyNowCheckout_cvv (Some profile_cvv_payment) = JStr ''333''"
    by (simp_all add: shapes first_present_Cons first_present_Nil)
  from cvv_resolution_order [where p = None]
  have four: "handleCVVConfirmation_cvv None = JNull"
    by (simp add: shapes first_present_Cons first_present_Nil)
  have page: "cv_input_visible cvv_page_nested"
    "ld_profile (cv_settings cvv_page_nested) = Some profile_cvv_paymentMethod"
    "bn_clicked buy_now_page_smooth = Inr True" "panel_found (bn_panel_probe buy_now_page_smooth)"
    "bn_place_clicked buy_now_page_smooth" "bn_cvv_exists buy_now_page_smooth"
    "bn_cvv_filled buy_now_page_smooth"
    by (simp_all add: cvv_page_nested_def cvv_page_ready_def buy_now_page_smooth_def
        panel_found_def)
  from cvv_resolution_order [where cp = cvv_page_nested and s = ready_state
      and p = "Some profile_cvv_paymentMethod" and bp = buy_now_page_smooth]
  have fill3: "Fill ''cvv-verification'' (JStr ''222'')
       \<in> set (events_since ready_state
                (handleCVVConfirmation_rest cvv_page_nested ready_state))"
    by (simp add: page shapes two first_present_Cons first_present_Nil)
  from cvv_resolution_order [where bp = buy_now_page_smooth
      and s = "ready_state\<lparr>profile := Some profile_cvv_payment\<rparr>"
      and p = "Some profile_cvv_payment" and cp = cvv_page_ready]
  have fill4: "FrameFill ''cvv'' (JStr ''333'')
       \<in> set (events_since (ready_state\<lparr>profile := Some profile_cvv_payment\<rparr>)
                (snd (useBuyNowCheckout_pass buy_now_page_smooth
                       (ready_state\<lparr>profile := Some profile_cvv_payment\<rparr>))))"
    by (simp add: page shapes three first_present_Cons first_present_Nil)
  show ?thesis
    by (simp add: shapes one two three four fill1 fill2 fill3 fill4)
qed

text \<open>
  C4, read literally, asks the card-number lookup to consult
  \<^verbatim>\<open>profile.payment.cardNumber\<close> as its third shape. The lookup of
  \<^verbatim>\<open>handleCreditCardConfirmation\<close> has two shapes only: for a profile whose
  card number is stored under \<^verbatim>\<open>payment\<close> it finds nothing.
\<close>

theorem card_number_three_shapes_counterexample:
  "handleCreditCardConfirmation_cardNumber (Some profile_payment_only)
     \<noteq> first_present [profile_cardNumber (Some profile_payment_only),
                        profile_paymentMethod_cardNumber (Some profile_payment_only),
                        profile_payment_cardNumber (Some profile_payment_only)]"
  by (simp add: handleCreditCardConfirmation_cardNumber_def profile_payment_only_def
      profile_cardNumber_def profile_paymentMethod_cardNumber_def
      profile_payment_cardNumber_def first_present_Cons)

text \<open>
  C4, amended. The card number resolved during card verification is the first present
  value among \<^verbatim>\<open>profile.cardNumber\<close> and \<^verbatim>\<open>profile.paymentMethod.cardNumber\<close>,
  in this order (\<^verbatim>\<open>profile.payment\<close> is not consulted), and whenever the direct
  field is present the value passed to the fill of the card input is the resolved one.
\<close>

theorem card_number_resolution_order:
  "handleCreditCardConfirmation_cardNumber p =
     first_present [profile_cardNumber p, profile_paymentMethod_cardNumber p]
   \<and> (truthy (profile_cardNumber p) \<longrightarrow>
        handleCreditCardConfirmation_fillValue p = handleCreditCardConfirmation_cardNumber p)
   \<and> (\<forall>v. Fill ''card-verification'' v
             \<in> set (events_since s (handleCreditCardConfirmation_rest pg s)) \<longrightarrow>
          v = handleCreditCardConfirmation_fillValue (ld_profile (cd_settings pg)))"
proof -
  have lookup: "handleCreditCardConfirmation_cardNumber p =
      first_present [profile_cardNumber p, profile_paymentMethod_cardNumber p]"
    by (simp add: handleCreditCardConfirmation_cardNumber_def profile_cardNumber_def
        profile_paymentMethod_cardNumber_def first_present_Cons first_present_Nil
        split: option.splits)
  have direct: "truthy (profile_cardNumber p) \<longrightarrow>
      handleCreditCardConfirmation_fillValue p = handleCreditCardConfirmation_cardNumber p"
    by (simp add: handleCreditCardConfirmation_cardNumber_def
        handleCreditCardConfirmation_fillValue_def profile_cardNumber_def
        split: option.splits)
  have loaded: "profile (loadSettingsAndProfile (cd_settings pg) s) = ld_profile (cd_settings pg)"
    by (simp add: loadSettingsAndProfile_def Let_def updateStatus_def emit_def
        split: option.splits)
  have filled: "\<forall>v. Fill ''card-verification'' v
             \<in> set (events_since s (handleCreditCardConfirmation_rest pg s)) \<longrightarrow>
          v = handleCreditCardConfirmation_fillValue (ld_profile (cd_settings pg))"
    by (simp add: handleCreditCardConfirmation_rest_def events_since_def Let_def loaded
        loadSettingsAndProfile_def updateStatus_def emit_def split: option.splits)
  show ?thesis using lookup direct filled by blast
qed

theorem card_number_resolution_order_witness:
  "truthy (profile_cardNumber (Some profile_direct_card))
   \<and> handleCreditCardConfirmation_cardNumber (Some profile_direct_card)
       = JStr ''4111111111111111''
   \<and> handleCreditCardConfirmation_fillValue (Some profile_direct_card)
       = JStr ''4111111111111111''
   \<and> Fill ''card-verification'' (JStr ''4111111111111111'')
       \<in> set (events_since initial_state
                (handleCreditCardConfirmation_rest card_page_ready initial_state))"
  using card_number_resolution_order [of "Some profile_direct_card" initial_state card_page_ready]
  by (simp add: profile_cardNumber_def profile_direct_card_def first_present_Cons
      handleCreditCardConfirmation_rest_def card_page_ready_def product_page_ok_def
      loadSettingsAndProfile_def handleCreditCardConfirmation_cardNumber_def
      handleCreditCardConfirmation_fillValue_def events_since_def initial_state_def
      updateStatus_def emit_def Let_def)

section \<open>The price guard\<close>

lemma checkProductPrice_catch_blocks: "\<not> fst (checkProductPrice_catch e s)"
  by (simp add: checkProductPrice_catch_def)

lemma price_check_failed_blocks: "\<not> fst (price_check_failed pg d pr mx s)"
  by (simp add: price_check_failed_def Let_def)

text \<open>
  The decision of the guard whenever no exception reaches its \<^verbatim>\<open>catch\<close>: the table,
  read on the values that survive the truthiness tests.
\<close>

lemma checkProductPrice_decision:
  assumes "storage_read pg = Inr d" and "body_throws pg = None"
    and "price_check_items d = Items m"
  shows "fst (checkProductPrice pg s) =
           price_guard_table (price_check_enabled d = JBool True)
             (tcin_if_truthy (extractTCIN pg)) (price_if_truthy (extractPrice pg)) m"
  using assms
  by (simp add: checkProductPrice_def price_guard_table_def tcin_if_truthy_def
      price_if_truthy_def price_check_failed_blocks Let_def split: option.splits)

text \<open>
  C5, read literally, blocks every price strictly above the ceiling. The script
  tests the price with \<^verbatim>\<open>!price\<close>, which is also true of the number zero: a price of
  0 with a ceiling of -1 passes, although 0 is above -1.
\<close>

theorem price_table_counterexample:
  "extractTCIN page_price_zero = Some ''123''
   \<and> extractPrice page_price_zero = Some 0
   \<and> fst (checkProductPrice page_price_zero initial_state)
   \<and> \<not> price_guard_table True (Some ''123'') (Some 0) [''123'' \<mapsto> - 1]"
  by (simp add: checkProductPrice_def extractTCIN_def extractPrice_def page_price_zero_def
      cfg_123_max_40_def price_guard_table_def)

text \<open>
  C5, amended. When no exception is raised, the decision of the guard is the table of
  the specification with a price of zero counted as absent and an empty TCIN counted as absent:
  disabled passes; TCIN absent or empty passes; price absent or zero passes; no ceiling
  for the TCIN passes; a non-zero price strictly above the ceiling blocks; any other
  price passes.
\<close>

theorem price_table:
  "storage_read pg = Inr d \<Longrightarrow> body_throws pg = None \<Longrightarrow> price_check_items d = Items m \<Longrightarrow>
   fst (checkProductPrice pg s) =
     price_guard_table (price_check_enabled d = JBool True)
       (tcin_if_truthy (extractTCIN pg)) (price_if_truthy (extractPrice pg)) m"
proof -
  assume read: "storage_read pg = Inr d" and quiet: "body_throws pg = None"
    and table: "price_check_items d = Items m"
  show ?thesis
  proof (cases "price_check_enabled d = JBool True")
    case False
    with read show ?thesis by (simp add: checkProductPrice_def price_guard_table_def)
  next
    case True
    with read quiet table show ?thesis
      using checkProductPrice_decision [of pg d m s] by simp
  qed
qed

theorem price_table_witness:
  "storage_read page_price_50 = Inr cfg_123_max_40
   \<and> body_throws page_price_50 = None
   \<and> price_check_items cfg_123_max_40 = Items [''123'' \<mapsto> 40]
   \<and> \<not> fst (checkProductPrice page_price_50 initial_state)
   \<and> fst (checkProductPrice (page_price_50\<lparr>price_dom := Inr (Some 30)\<rparr>) initial_state)"
  using price_table [of page_price_50 cfg_123_max_40 "[''123'' \<mapsto> 40]" initial_state]
    price_table [of "page_price_50\<lparr>price_dom := Inr (Some 30)\<rparr>" cfg_123_max_40
      "[''123'' \<mapsto> 40]" initial_state]
  by (simp add: page_price_50_def cfg_123_max_40_def price_guard_table_def
      tcin_if_truthy_def price_if_truthy_def extractTCIN_def extractPrice_def)

text \<open>
  C3, read literally, has the guard block when TCIN extraction or price
  extraction raises. Both extractors catch their own exceptions and return
  \<^verbatim>\<open>null\<close>, and a missing value passes: on a page where the \<^verbatim>\<open>data-tcin\<close> query
  raises, the guard passes.
\<close>

theorem extraction_exception_counterexample:
  "tcin_url page_tcin_raises = None
   \<and> tcin_dom page_tcin_raises = Inl (Error ''document is not ready'')
   \<and> fst (checkProductPrice page_tcin_raises initial_state)"
  by (simp add: checkProductPrice_def extractTCIN_def page_tcin_raises_def
      page_price_50_def cfg_123_max_40_def)

text \<open>
  C3, amended. An exception that reaches the \<^verbatim>\<open>catch\<close> of \<^verbatim>\<open>checkProductPrice\<close>
  itself makes the guard block: a rejected storage read, an exception of one of its own
  page queries, or the ceiling lookup raising on a malformed item table. An exception
  inside \<^verbatim>\<open>extractTCIN\<close> or \<^verbatim>\<open>extractPrice\<close> never reaches that \<^verbatim>\<open>catch\<close>: the
  extractor returns \<^verbatim>\<open>null\<close> and, like any missing TCIN or price, the guard passes.
\<close>

theorem price_guard_exceptions:
  "(storage_read pg = Inl e \<longrightarrow> \<not> fst (checkProductPrice pg s))
   \<and> (storage_read pg = Inr d \<and> price_check_enabled d = JBool True \<and> body_throws pg = Some e
        \<longrightarrow> \<not> fst (checkProductPrice pg s))
   \<and> (storage_read pg = Inr d \<and> price_check_enabled d = JBool True \<and> body_throws pg = None
        \<and> price_check_items d = NotAnObject
        \<and> tcin_if_truthy (extractTCIN pg) \<noteq> None \<and> price_if_truthy (extractPrice pg) \<noteq> None
        \<longrightarrow> \<not> fst (checkProductPrice pg s))
   \<and> (storage_read pg = Inr d \<and> body_throws pg = None
        \<and> tcin_url pg = None \<and> tcin_dom pg = Inl e
        \<longrightarrow> extractTCIN pg = None \<and> fst (checkProductPrice pg s))
   \<and> (storage_read pg = Inr d \<and> body_throws pg = None \<and> price_dom pg = Inl e
        \<longrightarrow> extractPrice pg = None \<and> fst (checkProductPrice pg s))"
  by (auto simp add: checkProductPrice_def checkProductPrice_catch_def extractTCIN_def
      extractPrice_def tcin_if_truthy_def price_if_truthy_def Let_def
      split: option.splits if_splits)

theorem price_guard_exceptions_witness:
  "\<not> fst (checkProductPrice page_storage_rejects initial_state)
   \<and> \<not> fst (checkProductPrice page_body_raises initial_state)
   \<and> \<not> fst (checkProductPrice page_items_malformed initial_state)
   \<and> fst (checkProductPrice page_tcin_raises initial_state)
   \<and> fst (checkProductPrice page_price_raises initial_state)"
  using
    price_guard_exceptions [of page_storage_rejects "Error ''Extension context invalidated.''"
      initial_state cfg_123_max_40]
    price_guard_exceptions [of page_body_raises "Error ''document is not ready''"
      initial_state cfg_123_max_40]
    price_guard_exceptions [of page_items_malformed "Error ''document is not ready''"
      initial_state "cfg_123_max_40\<lparr>price_check_items := NotAnObject\<rparr>"]
    price_guard_exceptions [of page_tcin_raises "Error ''document is not ready''"
      initial_state cfg_123_max_40]
    price_guard_exceptions [of page_price_raises "Error ''document is not ready''"
      initial_state cfg_123_max_40]
  by (simp add: page_storage_rejects_def page_body_raises_def page_items_malformed_def
      page_tcin_raises_def page_price_raises_def page_price_50_def cfg_123_max_40_def
      extractTCIN_def extractPrice_def tcin_if_truthy_def price_if_truthy_def)

section \<open>The two pipelines\<close>

lemma cip_emit [simp]: "checkoutInProgress (emit e s) = checkoutInProgress s"
  by (simp add: emit_def)

lemma cip_updateStatus [simp]: "checkoutInProgress (updateStatus m v s) = checkoutInProgress s"
  by (simp add: updateStatus_def)

lemma cip_load [simp]: "checkoutInProgress (loadSettingsAndProfile ld s) = checkoutInProgress s"
  by (simp add: loadSettingsAndProfile_def Let_def split: option.splits)

lemma cip_alert_once [simp]: "checkoutInProgress (alert_once a b s) = checkoutInProgress s"
  by (simp add: alert_once_def)

lemma cip_price_failed [simp]:
  "checkoutInProgress (snd (price_check_failed pg d a b s)) = checkoutInProgress s"
  by (simp add: price_check_failed_def Let_def)

lemma cip_checkProductPrice [simp]:
  "checkoutInProgress (snd (checkProductPrice pg s)) = checkoutInProgress s"
  by (simp add: checkProductPrice_def checkProductPrice_catch_def Let_def
      split: sum.splits option.splits items_val.splits)

lemma cip_handleCheckoutError [simp]: "\<not> checkoutInProgress (handleCheckoutError e s)"
  by (simp add: handleCheckoutError_def)

lemma cip_setup_catch [simp]: "\<not> checkoutInProgress (setup_catch e s)"
  by (simp add: setup_catch_def)

lemma cip_stock_check [simp]: "checkoutInProgress (snd (stock_check a s)) = checkoutInProgress s"
  by (simp add: stock_check_def Let_def split: sum.splits)

lemma cip_goDirectlyToCheckout [simp]:
  "checkoutInProgress (snd (goDirectlyToCheckout pp s)) = checkoutInProgress s"
  by (simp add: goDirectlyToCheckout_def Let_def split: option.splits)

lemma trace_emit [simp]: "trace (emit e s) = trace s @ [e]"
  by (simp add: emit_def)

lemma trace_updateStatus [simp]: "trace (updateStatus m v s) = trace s @ [Status m v]"
  by (simp add: updateStatus_def)

lemma currentStep_emit [simp]: "currentStep (emit e s) = currentStep s"
  by (simp add: emit_def)

lemma currentStep_updateStatus [simp]: "currentStep (updateStatus m v s) = currentStep s"
  by (simp add: updateStatus_def)

lemma recovery_emit [simp]: "inBuyNowErrorRecovery (emit e s) = inBuyNowErrorRecovery s"
  by (simp add: emit_def)

lemma recovery_updateStatus [simp]:
  "inBuyNowErrorRecovery (updateStatus m v s) = inBuyNowErrorRecovery s"
  by (simp add: updateStatus_def)

lemma trace_handleCheckoutError [simp]:
  "trace (handleCheckoutError e s) =
     trace s @ [Log (''Checkout process error during step '' @ currentStep s),
                Status (''Error: '' @ message e) ''status-waiting'']"
  by (simp add: handleCheckoutError_def)

lemma selectDelivery_block_simps [simp]:
  "trace (selectDelivery_block pp s) =
     trace s @ Call ''selectDeliveryMethod''
       # (case selectDelivery_step pp of None \<Rightarrow> []
          | Some e \<Rightarrow> [continuing_anyway ''Error in select-delivery step: '' e])"
  "checkoutInProgress (selectDelivery_block pp s) = checkoutInProgress s"
  "useBuyNowWhenAvailable (selectDelivery_block pp s) = useBuyNowWhenAvailable s"
  "inBuyNowErrorRecovery (selectDelivery_block pp s) = inBuyNowErrorRecovery s"
  by (simp_all add: selectDelivery_block_def Let_def emit_def split: option.splits)

lemma addToCart_block_simps [simp]:
  "trace (addToCart_block pp s) =
     trace s @ [Call ''addToCart'', Status ''Adding item to cart...'' ''status-running'']
       @ (if addToCart_step pp = None \<and> useBuyNowWhenAvailable s = JBool True
             \<and> buyNowButton pp
          then [Call ''useBuyNowCheckout''] else [])"
  "checkoutInProgress (addToCart_block pp s) = checkoutInProgress s"
  "addToCart_step pp = Some e \<Longrightarrow> currentStep (addToCart_block pp s) = ''set-quantity''"
  by (simp_all add: addToCart_block_def Let_def emit_def updateStatus_def)

lemma handlePopups_block_simps [simp]:
  "trace (handlePopups_block pp s) =
     trace s @ [Call ''handlePopups'', Status ''Checking for popups...'' ''status-running'']
       @ (case handlePopups_step pp of None \<Rightarrow> []
          | Some e \<Rightarrow> [continuing_anyway ''Error handling popups: '' e])"
  "checkoutInProgress (handlePopups_block pp s) = checkoutInProgress s"
  by (simp_all add: handlePopups_block_def Let_def split: option.splits)

lemma goDirectlyToCheckout_eq:
  assumes "goDirectlyToCheckout pp s = (r, s')"
  shows "checkoutInProgress s' = checkoutInProgress s"
    and "\<exists>ev. trace s' = trace s @ ev"
  using assms by (auto simp add: goDirectlyToCheckout_def Let_def split: option.splits if_splits)

lemma cip_run_steps:
  "checkoutInProgress (snd (run_steps pp s)) =
     (fst (run_steps pp s) = Completed \<and> checkoutInProgress s)"
  by (auto simp add: run_steps_def Let_def dest!: goDirectlyToCheckout_eq(1)
      split: option.splits prod.splits)

lemma cip_setup_phase_Inl:
  "setup_phase skip pp s = Inl (x, s') \<Longrightarrow> \<not> checkoutInProgress s \<Longrightarrow> \<not> checkoutInProgress s'"
  by (auto simp add: setup_phase_def startCheckoutProcess_entry_def Let_def split: if_splits prod.splits option.splits bool.splits)

lemma cip_checkProductPrice_eq:
  "checkProductPrice pg s = (r, s') \<Longrightarrow> checkoutInProgress s' = checkoutInProgress s"
  using cip_checkProductPrice [of pg s] by simp

lemma cip_stock_check_eq:
  "stock_check a s = (r, s') \<Longrightarrow> checkoutInProgress s' = checkoutInProgress s"
  using cip_stock_check [of a s] by simp

lemma cip_setup_phase_Inr:
  "setup_phase skip pp s = Inr s4 \<Longrightarrow> checkoutInProgress s4"
  by (auto simp add: setup_phase_def startCheckoutProcess_entry_def Let_def
      dest!: cip_checkProductPrice_eq cip_stock_check_eq
      split: if_splits prod.splits option.splits bool.splits)

lemma cip_startCheckoutProcess:
  assumes "\<not> checkoutInProgress s"
  shows "checkoutInProgress (snd (startCheckoutProcess skip pp s)) =
           (fst (startCheckoutProcess skip pp s) = Completed)"
proof (cases "setup_phase skip pp s")
  case (Inl r)
  obtain x s' where r: "r = (x, s')" by (cases r)
  have "\<not> checkoutInProgress s'"
    using Inl r assms by (auto dest: cip_setup_phase_Inl)
  moreover have "x \<noteq> Completed"
    using Inl r by (auto simp add: setup_phase_def startCheckoutProcess_entry_def Let_def
        split: if_splits prod.splits option.splits bool.splits)
  ultimately show ?thesis using Inl r by (simp add: startCheckoutProcess_def)
next
  case (Inr s4)
  then show ?thesis
    using cip_setup_phase_Inr [OF Inr] by (simp add: startCheckoutProcess_def cip_run_steps)
qed

lemma cip_run_branch [simp]:
  "checkoutInProgress (snd (run_branch calls bt s)) = checkoutInProgress s"
  by (simp add: run_branch_def split: option.splits prod.splits)

lemma cip_classify_and_run [simp]: "\<not> checkoutInProgress (classify_and_run c s)"
  by (simp add: classify_and_run_def Let_def)

lemma events_since_append [simp]: "trace s' = trace s @ ev \<Longrightarrow> events_since s s' = ev"
  by (simp add: events_since_def)

lemma trace_load_ext: "\<exists>ev. trace (loadSettingsAndProfile ld s) = trace s @ ev"
  by (simp add: loadSettingsAndProfile_def Let_def split: option.splits)

lemma continue_setup_Inl:
  assumes "continue_setup c s = Inl (x, s')"
  shows "checkoutInProgress s' = checkoutInProgress s"
    and "x \<noteq> Finished"
    and "(x = InProgress) = checkoutInProgress s"
    and "\<exists>ev. trace s' = trace s @ ev"
  using assms trace_load_ext [of "settings c" s]
  by (auto simp add: continue_setup_def Let_def split: if_splits)

lemma continue_setup_Inr:
  assumes "continue_setup c s = Inr s2"
  shows "checkoutInProgress s2"
    and "\<not> checkoutInProgress s"
    and "\<exists>ev. trace s2 = trace s @ ev @ [Status ''Continuing checkout...'' ''status-running'']"
    and "currentStep s2 = ''continue-checkout''"
  using assms trace_load_ext [of "settings c" s]
  by (auto simp add: continue_setup_def Let_def split: if_splits)

lemma continue_setup_reentry:
  "checkoutInProgress s2 \<Longrightarrow> continueCheckoutProcess (c # cs) s2 = Some (InProgress, s2)"
  by (simp add: continue_setup_def)

lemma trace_run_branch: "\<exists>ev. trace (snd (run_branch calls bt s)) = trace s @ ev"
  by (simp add: run_branch_def split: option.splits prod.splits)

lemma trace_classify_and_run: "\<exists>ev. trace (classify_and_run c s) = trace s @ ev"
proof (cases "detection_throws c")
  case None
  obtain r s2 where rb: "run_branch (snd (branch_of c)) (branch_throws c)
      (s\<lparr>currentStep := fst (branch_of c)\<rparr>) = (r, s2)"
    by fastforce
  from trace_run_branch [of "snd (branch_of c)" "branch_throws c"
      "s\<lparr>currentStep := fst (branch_of c)\<rparr>"] rb
  obtain ev where "trace s2 = trace s @ ev" by auto
  then show ?thesis using None rb
    by (cases r) (simp_all add: classify_and_run_def)
next
  case (Some e)
  then show ?thesis by (simp add: classify_and_run_def)
qed

lemma continueCheckoutProcess_trace:
  "continueCheckoutProcess cs s = Some (x, s') \<Longrightarrow> \<exists>ev. trace s' = trace s @ ev"
proof (induction cs arbitrary: s x s')
  case Nil
  then show ?case by simp
next
  case (Cons c cs)
  show ?case
  proof (cases "continue_setup c s")
    case (Inl r)
    then show ?thesis using Cons.prems continue_setup_Inl(4) [of c s x s'] by simp
  next
    case (Inr s2)
    from continue_setup_Inr(3) [OF Inr] obtain ev0 where
      s2: "trace s2 = trace s @ ev0 @ [Status ''Continuing checkout...'' ''status-running'']"
      by blast
    define s3 where "s3 = (emit (Sleep 500) s2)\<lparr>currentStep := ''wait-for-load''\<rparr>"
    have s3: "trace s3 = trace s2 @ [Sleep 500]" by (simp add: s3_def)
    show ?thesis
    proof (cases "loader c")
      case (Inl e)
      from trace_classify_and_run
        [of c "emit (Log ''Loading detection error (continuing anyway)'') s3"]
      obtain ev where "trace (classify_and_run c
          (emit (Log ''Loading detection error (continuing anyway)'') s3))
          = trace (emit (Log ''Loading detection error (continuing anyway)'') s3) @ ev"
        by blast
      then show ?thesis using Cons.prems Inr Inl s2 s3 by (auto simp add: s3_def Let_def)
    next
      case (Inr loading)
      show ?thesis
      proof (cases loading)
        case False
        from trace_classify_and_run [of c s3]
        obtain ev where "trace (classify_and_run c s3) = trace s3 @ ev" by blast
        then show ?thesis using Cons.prems \<open>continue_setup c s = Inr s2\<close> Inr False s2 s3
          by (auto simp add: s3_def Let_def)
      next
        case True
        define t where "t = (emit (Sleep 2000) s3)\<lparr>checkoutInProgress := False\<rparr>"
        have t: "trace t = trace s3 @ [Sleep 2000]" by (simp add: t_def)
        from Cons.prems \<open>continue_setup c s = Inr s2\<close> Inr True
        obtain y s4 where nested: "continueCheckoutProcess cs t = Some (y, s4)"
          by (auto simp add: s3_def t_def Let_def split: option.splits)
        from Cons.IH [OF nested] obtain ev4 where s4: "trace s4 = trace t @ ev4" by blast
        from trace_classify_and_run
          [of c "emit (Log ''Loading detection error (continuing anyway)'') s4"]
        obtain ev where cl: "trace (classify_and_run c
            (emit (Log ''Loading detection error (continuing anyway)'') s4))
            = trace (emit (Log ''Loading detection error (continuing anyway)'') s4) @ ev"
          by blast
        show ?thesis
          using Cons.prems \<open>continue_setup c s = Inr s2\<close> Inr True nested s2 s3 t s4 cl
          by (cases y) (auto simp add: s3_def [symmetric] t_def [symmetric] Let_def)
      qed
    qed
  qed
qed

lemma cip_continueCheckoutProcess:
  "\<not> checkoutInProgress s \<Longrightarrow> continueCheckoutProcess cs s = Some (x, s') \<Longrightarrow>
   \<not> checkoutInProgress s'"
proof (induction cs arbitrary: s x s')
  case Nil
  then show ?case by simp
next
  case (Cons c cs)
  show ?case
  proof (cases "continue_setup c s")
    case (Inl r)
    then show ?thesis using Cons.prems continue_setup_Inl(1) [of c s x s'] by simp
  next
    case (Inr s2)
    then show ?thesis using Cons.prems
      by (auto simp add: Let_def split: sum.splits bool.splits option.splits
          prod.splits continue_exit.splits)
  qed
qed

lemma continueCheckoutProcess_Inr:
  assumes "continue_setup c s = Inr s2"
    and "continueCheckoutProcess (c # cs) s = Some (x, s')"
  shows "x = Finished" and "\<not> checkoutInProgress s'"
    and "\<exists>ev. trace s' = trace s2 @ Sleep 500 # ev"
proof -
  show "x = Finished"
    using assms
    by (auto simp add: Let_def split: sum.splits bool.splits option.splits
        prod.splits continue_exit.splits)
  show "\<not> checkoutInProgress s'"
    using assms cip_continueCheckoutProcess [of s "c # cs" x s'] continue_setup_Inr(2) [OF assms(1)]
    by blast
  define s3 where "s3 = (emit (Sleep 500) s2)\<lparr>currentStep := ''wait-for-load''\<rparr>"
  have s3: "trace s3 = trace s2 @ [Sleep 500]" by (simp add: s3_def)
  have "\<exists>ev. trace s' = trace s3 @ ev"
  proof (cases "loader c")
    case (Inl e)
    from trace_classify_and_run
      [of c "emit (Log ''Loading detection error (continuing anyway)'') s3"]
    obtain ev where "trace (classify_and_run c
        (emit (Log ''Loading detection error (continuing anyway)'') s3))
        = trace (emit (Log ''Loading detection error (continuing anyway)'') s3) @ ev"
      by blast
    then show ?thesis using assms Inl by (auto simp add: s3_def Let_def)
  next
    case (Inr loading)
    show ?thesis
    proof (cases loading)
      case False
      from trace_classify_and_run [of c s3]
      obtain ev where "trace (classify_and_run c s3) = trace s3 @ ev" by blast
      then show ?thesis using assms Inr False by (auto simp add: s3_def Let_def)
    next
      case True
      define t where "t = (emit (Sleep 2000) s3)\<lparr>checkoutInProgress := False\<rparr>"
      have t: "trace t = trace s3 @ [Sleep 2000]" by (simp add: t_def)
      from assms Inr True
      obtain y s4 where nested: "continueCheckoutProcess cs t = Some (y, s4)"
        by (auto simp add: s3_def t_def Let_def split: option.splits)
      from continueCheckoutProcess_trace [OF nested]
      obtain ev4 where s4: "trace s4 = trace t @ ev4" by blast
      from trace_classify_and_run
        [of c "emit (Log ''Loading detection error (continuing anyway)'') s4"]
      obtain ev where cl: "trace (classify_and_run c
          (emit (Log ''Loading detection error (continuing anyway)'') s4))
          = trace (emit (Log ''Loading detection error (continuing anyway)'') s4) @ ev"
        by blast
      show ?thesis
        using assms Inr True nested t s4 cl
        by (cases y) (auto simp add: s3_def [symmetric] t_def [symmetric] Let_def)
    qed
  qed
  then show "\<exists>ev. trace s' = trace s2 @ Sleep 500 # ev" using s3 by auto
qed

lemma continueCheckoutProcess_normal:
  assumes "continue_setup c s = Inr s2" and "loader c = Inr False"
    and "detection_throws c = None" and "branch_throws c = None"
  shows "\<exists>s'. continueCheckoutProcess (c # cs) s = Some (Finished, s')
           \<and> trace s' = trace s2 @ Sleep 500 # snd (branch_of c)
           \<and> currentStep s' = fst (branch_of c)
           \<and> \<not> checkoutInProgress s'"
  using assms by (simp add: Let_def classify_and_run_def run_branch_def)

lemma continueCheckoutProcess_detection_error:
  assumes "continue_setup c s = Inr s2" and "loader c = Inr False"
    and "detection_throws c = Some e"
  shows "\<exists>s'. continueCheckoutProcess (c # cs) s = Some (Finished, s')
           \<and> trace s' = trace s2 @ [Sleep 500,
                 Log ''Checkout process error during step check-cvv'',
                 Status (''Error: '' @ message e) ''status-waiting'']
           \<and> \<not> checkoutInProgress s'"
  using assms by (simp add: Let_def classify_and_run_def)

lemma continueCheckoutProcess_returns:
  "cs \<noteq> [] \<Longrightarrow> loader (last cs) \<noteq> Inr True \<Longrightarrow> \<exists>r. continueCheckoutProcess cs s = Some r"
proof (induction cs arbitrary: s)
  case Nil
  then show ?case by simp
next
  case (Cons c cs)
  show ?case
  proof (cases "cs = []")
    case True
    then show ?thesis using Cons.prems
      by (auto simp add: Let_def split: sum.splits bool.splits)
  next
    case False
    then have "\<And>t. \<exists>r. continueCheckoutProcess cs t = Some r"
      using Cons by simp
    then have ne: "\<And>t. continueCheckoutProcess cs t \<noteq> None"
      by (metis option.distinct(1))
    show ?thesis
      by (simp add: Let_def ne split: sum.splits bool.splits option.splits prod.splits
          continue_exit.splits)
  qed
qed

text \<open>The steps are reached only after the price guard has passed.\<close>

lemma steps_need_price_pass:
  "setup_phase skip pp s = Inr s4 \<Longrightarrow>
   \<exists>s3. checkProductPrice (price_answers pp) s3 = (True, s4)"
  by (auto simp add: setup_phase_def startCheckoutProcess_entry_def Let_def
      split: if_splits prod.splits option.splits bool.splits)

lemma blocked_price_ends_run:
  "\<not> checkoutInProgress s \<Longrightarrow> fst (startCheckoutProcess skip pp s) = PriceBlocked \<Longrightarrow>
   \<not> checkoutInProgress (snd (startCheckoutProcess skip pp s))"
  using cip_startCheckoutProcess [of s skip pp] by simp

text \<open>
  With the flag clear at entry, \<^verbatim>\<open>startCheckoutProcess\<close> starts the attempt; with the
  flag set, as its own entry statements leave it, a call returns at the guard and
  changes nothing.
\<close>

lemma startCheckoutProcess_entry_flag: "checkoutInProgress (startCheckoutProcess_entry s)"
  by (simp add: startCheckoutProcess_entry_def)

lemma startCheckoutProcess_reentry:
  "checkoutInProgress t \<Longrightarrow> startCheckoutProcess skip pp t = (AlreadyInProgress, t)"
  by (simp add: startCheckoutProcess_def setup_phase_def)

lemma run_steps_not_guard: "fst (run_steps pp s) \<noteq> AlreadyInProgress"
  by (simp add: run_steps_def Let_def split: option.splits prod.splits)

lemma startCheckoutProcess_starts:
  "\<not> checkoutInProgress s \<Longrightarrow> fst (startCheckoutProcess skip pp s) \<noteq> AlreadyInProgress"
proof (cases "setup_phase skip pp s")
  case (Inl r)
  assume "\<not> checkoutInProgress s"
  then have "fst r \<noteq> AlreadyInProgress"
    using Inl by (auto simp add: setup_phase_def Let_def
        split: if_splits prod.splits option.splits bool.splits)
  then show ?thesis using Inl by (simp add: startCheckoutProcess_def)
next
  case (Inr s4)
  have "fst (run_steps pp s4) \<noteq> AlreadyInProgress"
    by (rule run_steps_not_guard)
  then show ?thesis using Inr by (simp add: startCheckoutProcess_def)
qed

text \<open>
  C2, amended. For an attempt that starts with the flag clear.

  \<^verbatim>\<open>startCheckoutProcess\<close>: the attempt is started (the guard exit is not taken); its
  entry statements set \<^verbatim>\<open>checkoutInProgress\<close>, so that a call arriving in that state
  returns at the guard and changes nothing; the flag is set when the steps begin; at
  the end the flag is false on every exit except the one where the last step has
  returned, where it stays true until \<^verbatim>\<open>cleanup\<close>.

  \<^verbatim>\<open>continueCheckoutProcess\<close>: when the attempt ends before the \<^verbatim>\<open>try\<close> (no profile,
  which throws, or engine disabled) the flag has not been touched and is false; when
  the \<^verbatim>\<open>try\<close> is entered the flag has been set and the status
  \<^verbatim>\<open>Continuing checkout...\<close> pushed, a call arriving in that state returns at the guard
  and changes nothing, and every return of the attempt is the normal one with the flag
  false again, after the 500 ms wait; on a page without loading indicator the attempt
  returns, after the calls of the chosen branch when nothing throws, and after the
  error report of \<^verbatim>\<open>handleCheckoutError\<close> when the detection throws; it returns
  whenever the loading indicator is gone at the last observation.
\<close>

theorem progress_flag_on_exit:
  assumes "\<not> checkoutInProgress s"
  shows "(checkoutInProgress (snd (startCheckoutProcess skip pp s))
        = (fst (startCheckoutProcess skip pp s) = Completed))
   \<and> (\<forall>x s'. continueCheckoutProcess cs s = Some (x, s') \<longrightarrow> \<not> checkoutInProgress s')
   \<and> (cs \<noteq> [] \<and> loader (last cs) \<noteq> Inr True \<longrightarrow> (\<exists>r. continueCheckoutProcess cs s = Some r))
   \<and> fst (startCheckoutProcess skip pp s) \<noteq> AlreadyInProgress
   \<and> checkoutInProgress (startCheckoutProcess_entry s)
   \<and> startCheckoutProcess skip pp (startCheckoutProcess_entry s)
       = (AlreadyInProgress, startCheckoutProcess_entry s)
   \<and> (\<forall>s4. setup_phase skip pp s = Inr s4 \<longrightarrow> checkoutInProgress s4)
   \<and> (\<forall>r. continue_setup c s = Inl r \<longrightarrow>
          continueCheckoutProcess (c # cs) s = Some r
        \<and> fst r \<noteq> Finished \<and> fst r \<noteq> InProgress
        \<and> \<not> checkoutInProgress (snd r))
   \<and> (\<forall>s2. continue_setup c s = Inr s2 \<longrightarrow>
          checkoutInProgress s2
        \<and> last (events_since s s2) = Status ''Continuing checkout...'' ''status-running''
        \<and> continueCheckoutProcess (c # cs) s2 = Some (InProgress, s2)
        \<and> (\<forall>x s'. continueCheckoutProcess (c # cs) s = Some (x, s') \<longrightarrow>
              x = Finished \<and> \<not> checkoutInProgress s'
            \<and> prefix [Sleep 500] (events_since s2 s'))
        \<and> (loader c = Inr False \<and> detection_throws c = None \<and> branch_throws c = None \<longrightarrow>
              (\<exists>s'. continueCheckoutProcess (c # cs) s = Some (Finished, s')
                 \<and> events_since s2 s' = Sleep 500 # snd (branch_of c)
                 \<and> \<not> checkoutInProgress s'))
        \<and> (\<forall>e. loader c = Inr False \<and> detection_throws c = Some e \<longrightarrow>
              (\<exists>s'. continueCheckoutProcess (c # cs) s = Some (Finished, s')
                 \<and> events_since s2 s'
                     = [Sleep 500, Log ''Checkout process error during step check-cvv'',
                        Status (''Error: '' @ message e) ''status-waiting'']
                 \<and> \<not> checkoutInProgress s')))"
proof -
  have start: "checkoutInProgress (snd (startCheckoutProcess skip pp s))
        = (fst (startCheckoutProcess skip pp s) = Completed)"
    using assms by (rule cip_startCheckoutProcess)
  have cont: "\<forall>x s'. continueCheckoutProcess cs s = Some (x, s') \<longrightarrow> \<not> checkoutInProgress s'"
    using assms cip_continueCheckoutProcess [of s cs] by blast
  have ret: "cs \<noteq> [] \<and> loader (last cs) \<noteq> Inr True \<longrightarrow> (\<exists>r. continueCheckoutProcess cs s = Some r)"
    using continueCheckoutProcess_returns [of cs s] by blast
  have started: "fst (startCheckoutProcess skip pp s) \<noteq> AlreadyInProgress"
    using assms by (rule startCheckoutProcess_starts)
  have entry: "checkoutInProgress (startCheckoutProcess_entry s)"
    by (rule startCheckoutProcess_entry_flag)
  have again: "startCheckoutProcess skip pp (startCheckoutProcess_entry s)
       = (AlreadyInProgress, startCheckoutProcess_entry s)"
    using entry by (rule startCheckoutProcess_reentry)
  have steps: "\<forall>s4. setup_phase skip pp s = Inr s4 \<longrightarrow> checkoutInProgress s4"
    using cip_setup_phase_Inr by blast
  have early: "\<forall>r. continue_setup c s = Inl r \<longrightarrow>
          continueCheckoutProcess (c # cs) s = Some r
        \<and> fst r \<noteq> Finished \<and> fst r \<noteq> InProgress
        \<and> \<not> checkoutInProgress (snd r)"
  proof (intro allI impI)
    fix r assume r: "continue_setup c s = Inl r"
    obtain x s' where xs: "r = (x, s')" by (cases r)
    show "continueCheckoutProcess (c # cs) s = Some r
        \<and> fst r \<noteq> Finished \<and> fst r \<noteq> InProgress \<and> \<not> checkoutInProgress (snd r)"
      using r xs assms continue_setup_Inl(1,2,3) [of c s x s'] by simp
  qed
  have entered: "\<forall>s2. continue_setup c s = Inr s2 \<longrightarrow>
          checkoutInProgress s2
        \<and> last (events_since s s2) = Status ''Continuing checkout...'' ''status-running''
        \<and> continueCheckoutProcess (c # cs) s2 = Some (InProgress, s2)
        \<and> (\<forall>x s'. continueCheckoutProcess (c # cs) s = Some (x, s') \<longrightarrow>
              x = Finished \<and> \<not> checkoutInProgress s'
            \<and> prefix [Sleep 500] (events_since s2 s'))
        \<and> (loader c = Inr False \<and> detection_throws c = None \<and> branch_throws c = None \<longrightarrow>
              (\<exists>s'. continueCheckoutProcess (c # cs) s = Some (Finished, s')
                 \<and> events_since s2 s' = Sleep 500 # snd (branch_of c)
                 \<and> \<not> checkoutInProgress s'))
        \<and> (\<forall>e. loader c = Inr False \<and> detection_throws c = Some e \<longrightarrow>
              (\<exists>s'. continueCheckoutProcess (c # cs) s = Some (Finished, s')
                 \<and> events_since s2 s'
                     = [Sleep 500, Log ''Checkout process error during step check-cvv'',
                        Status (''Error: '' @ message e) ''status-waiting'']
                 \<and> \<not> checkoutInProgress s'))"
  proof (intro allI impI)
    fix s2 assume s2: "continue_setup c s = Inr s2"
    have flag: "checkoutInProgress s2" using s2 by (rule continue_setup_Inr(1))
    from continue_setup_Inr(3) [OF s2] obtain ev where
      "trace s2 = trace s @ ev @ [Status ''Continuing checkout...'' ''status-running'']" by blast
    then have status: "last (events_since s s2)
        = Status ''Continuing checkout...'' ''status-running''"
      by simp
    have again2: "continueCheckoutProcess (c # cs) s2 = Some (InProgress, s2)"
      using flag by (rule continue_setup_reentry)
    have exits: "\<forall>x s'. continueCheckoutProcess (c # cs) s = Some (x, s') \<longrightarrow>
              x = Finished \<and> \<not> checkoutInProgress s'
            \<and> prefix [Sleep 500] (events_since s2 s')"
    proof (intro allI impI)
      fix x s' assume run: "continueCheckoutProcess (c # cs) s = Some (x, s')"
      from continueCheckoutProcess_Inr(3) [OF s2 run] obtain ev' where
        "trace s' = trace s2 @ Sleep 500 # ev'" by blast
      then have "prefix [Sleep 500] (events_since s2 s')" by simp
      then show "x = Finished \<and> \<not> checkoutInProgress s'
            \<and> prefix [Sleep 500] (events_since s2 s')"
        using continueCheckoutProcess_Inr(1,2) [OF s2 run] by simp
    qed
    have normal: "loader c = Inr False \<and> detection_throws c = None \<and> branch_throws c = None \<longrightarrow>
              (\<exists>s'. continueCheckoutProcess (c # cs) s = Some (Finished, s')
                 \<and> events_since s2 s' = Sleep 500 # snd (branch_of c)
                 \<and> \<not> checkoutInProgress s')"
      using continueCheckoutProcess_normal [OF s2, of cs] by auto
    have thrown: "\<forall>e. loader c = Inr False \<and> detection_throws c = Some e \<longrightarrow>
              (\<exists>s'. continueCheckoutProcess (c # cs) s = Some (Finished, s')
                 \<and> events_since s2 s'
                     = [Sleep 500, Log ''Checkout process error during step check-cvv'',
                        Status (''Error: '' @ message e) ''status-waiting'']
                 \<and> \<not> checkoutInProgress s')"
      using continueCheckoutProcess_detection_error [OF s2, of _ cs] by auto
    show "checkoutInProgress s2
        \<and> last (events_since s s2) = Status ''Continuing checkout...'' ''status-running''
        \<and> continueCheckoutProcess (c # cs) s2 = Some (InProgress, s2)
        \<and> (\<forall>x s'. continueCheckoutProcess (c # cs) s = Some (x, s') \<longrightarrow>
              x = Finished \<and> \<not> checkoutInProgress s'
            \<and> prefix [Sleep 500] (events_since s2 s'))
        \<and> (loader c = Inr False \<and> detection_throws c = None \<and> branch_throws c = None \<longrightarrow>
              (\<exists>s'. continueCheckoutProcess (c # cs) s = Some (Finished, s')
                 \<and> events_since s2 s' = Sleep 500 # snd (branch_of c)
                 \<and> \<not> checkoutInProgress s'))
        \<and> (\<forall>e. loader c = Inr False \<and> detection_throws c = Some e \<longrightarrow>
              (\<exists>s'. continueCheckoutProcess (c # cs) s = Some (Finished, s')
                 \<and> events_since s2 s'
                     = [Sleep 500, Log ''Checkout process error during step check-cvv'',
                        Status (''Error: '' @ message e) ''status-waiting'']
                 \<and> \<not> checkoutInProgress s'))"
      using flag status again2 exits normal thrown by blast
  qed
  show ?thesis
    using start cont ret started entry again steps early entered by blast
qed

lemmas eval_defs = startCheckoutProcess_def setup_phase_def startCheckoutProcess_entry_def
  run_steps_def ready_state_def
  initial_state_def product_page_ok_def stock_check_def checkProductPrice_def
  page_price_50_def cfg_123_max_40_def extractTCIN_def extractPrice_def
  goDirectlyToCheckout_def updateStatus_def emit_def Let_def

text \<open>
  C2, read literally, has the flag cleared on the success path too. A run of
  \<^verbatim>\<open>startCheckoutProcess\<close> in which every step succeeds ends with the flag still set.
\<close>

theorem progress_flag_counterexample:
  "fst (startCheckoutProcess True product_page_ok ready_state) = Completed
   \<and> checkoutInProgress (snd (startCheckoutProcess True product_page_ok ready_state))"
  by (simp add: eval_defs)

theorem progress_flag_on_exit_witness:
  "\<not> checkoutInProgress ready_state
   \<and> fst (startCheckoutProcess True product_page_cart_fails ready_state)
       = StepError (Error ''Add to Cart/Pre-Order button not found.'')
   \<and> \<not> checkoutInProgress (snd (startCheckoutProcess True product_page_cart_fails ready_state))
   \<and> (\<exists>s4. setup_phase True product_page_cart_fails ready_state = Inr s4
          \<and> checkoutInProgress s4)
   \<and> (\<exists>s2. continue_setup checkout_page_order ready_state = Inr s2
          \<and> checkoutInProgress s2
          \<and> continueCheckoutProcess [checkout_page_order] s2 = Some (InProgress, s2)
          \<and> (\<exists>s'. continueCheckoutProcess [checkout_page_order] ready_state = Some (Finished, s')
                \<and> events_since s2 s' = [Sleep 500, Call ''placeOrder'']
                \<and> \<not> checkoutInProgress s'))
   \<and> (\<exists>s2. continue_setup checkout_page_lookup_raises ready_state = Inr s2
          \<and> (\<exists>s'. continueCheckoutProcess [checkout_page_lookup_raises] ready_state
                     = Some (Finished, s')
                \<and> events_since s2 s'
                    = [Sleep 500, Log ''Checkout process error during step check-cvv'',
                       Status ''Error: lookup failed'' ''status-waiting'']
                \<and> \<not> checkoutInProgress s'))
   \<and> (\<exists>s'. continueCheckoutProcess [checkout_page_disabled] ready_state
              = Some (EngineDisabled, s') \<and> \<not> checkoutInProgress s')
   \<and> (\<exists>s'. continueCheckoutProcess [checkout_page_loading, checkout_page_order] ready_state
              = Some (Finished, s') \<and> \<not> checkoutInProgress s')"
proof -
  have pre: "\<not> checkoutInProgress ready_state"
    by (simp add: ready_state_def initial_state_def)
  have exit: "fst (startCheckoutProcess True product_page_cart_fails ready_state)
       = StepError (Error ''Add to Cart/Pre-Order button not found.'')"
    by (simp add: eval_defs product_page_cart_fails_def)
  obtain s4 where s4: "setup_phase True product_page_cart_fails ready_state = Inr s4"
    by (simp add: eval_defs product_page_cart_fails_def)
  obtain s2 where s2: "continue_setup checkout_page_order ready_state = Inr s2"
    by (simp add: continue_setup_def checkout_page_order_def product_page_ok_def
        loadSettingsAndProfile_def ready_state_def initial_state_def Let_def)
  obtain t2 where t2: "continue_setup checkout_page_lookup_raises ready_state = Inr t2"
    by (simp add: continue_setup_def checkout_page_lookup_raises_def checkout_page_order_def
        product_page_ok_def loadSettingsAndProfile_def ready_state_def initial_state_def Let_def)
  obtain u2 where u2: "continue_setup checkout_page_loading ready_state = Inr u2"
    by (simp add: continue_setup_def checkout_page_loading_def checkout_page_order_def
        product_page_ok_def loadSettingsAndProfile_def ready_state_def initial_state_def Let_def)
  obtain r where r: "continue_setup checkout_page_disabled ready_state = Inl r"
    and rx: "fst r = EngineDisabled"
    by (simp add: continue_setup_def checkout_page_disabled_def checkout_page_order_def
        product_page_ok_def loadSettingsAndProfile_def ready_state_def initial_state_def Let_def)
  have page: "loader checkout_page_order = Inr False"
    "detection_throws checkout_page_order = None" "branch_throws checkout_page_order = None"
    "snd (branch_of checkout_page_order) = [Call ''placeOrder'']"
    "loader checkout_page_lookup_raises = Inr False"
    "detection_throws checkout_page_lookup_raises = Some (Error ''lookup failed'')"
    "loader (last [checkout_page_loading, checkout_page_order]) \<noteq> Inr True"
    by (simp_all add: checkout_page_order_def checkout_page_lookup_raises_def branch_of_def)
  note order = progress_flag_on_exit [OF pre, where skip = True
      and pp = product_page_cart_fails and c = checkout_page_order and cs = "[]"]
  note raises = progress_flag_on_exit [OF pre, where skip = True
      and pp = product_page_cart_fails and c = checkout_page_lookup_raises and cs = "[]"]
  note disabled = progress_flag_on_exit [OF pre, where skip = True
      and pp = product_page_cart_fails and c = checkout_page_disabled and cs = "[]"]
  note loading = progress_flag_on_exit [OF pre, where skip = True
      and pp = product_page_cart_fails and c = checkout_page_loading
      and cs = "[checkout_page_order]"]
  note whole = progress_flag_on_exit [OF pre, where skip = True
      and pp = product_page_cart_fails and c = checkout_page_loading
      and cs = "[checkout_page_loading, checkout_page_order]"]
  have a: "\<not> checkoutInProgress (snd (startCheckoutProcess True product_page_cart_fails ready_state))"
    using order exit by simp
  have b: "checkoutInProgress s4" using order s4 by blast
  have c: "checkoutInProgress s2
          \<and> continueCheckoutProcess [checkout_page_order] s2 = Some (InProgress, s2)
          \<and> (\<exists>s'. continueCheckoutProcess [checkout_page_order] ready_state = Some (Finished, s')
                \<and> events_since s2 s' = [Sleep 500, Call ''placeOrder'']
                \<and> \<not> checkoutInProgress s')"
  proof -
    from order s2 have "checkoutInProgress s2
        \<and> continueCheckoutProcess [checkout_page_order] s2 = Some (InProgress, s2)
        \<and> (loader checkout_page_order = Inr False \<and> detection_throws checkout_page_order = None
             \<and> branch_throws checkout_page_order = None \<longrightarrow>
              (\<exists>s'. continueCheckoutProcess [checkout_page_order] ready_state
                       = Some (Finished, s')
                 \<and> events_since s2 s' = Sleep 500 # snd (branch_of checkout_page_order)
                 \<and> \<not> checkoutInProgress s'))"
      by blast
    then show ?thesis by (simp add: page)
  qed
  have d: "\<exists>s'. continueCheckoutProcess [checkout_page_lookup_raises] ready_state
                     = Some (Finished, s')
                \<and> events_since t2 s'
                    = [Sleep 500, Log ''Checkout process error during step check-cvv'',
                       Status ''Error: lookup failed'' ''status-waiting'']
                \<and> \<not> checkoutInProgress s'"
  proof -
    from raises t2 have "\<forall>e. loader checkout_page_lookup_raises = Inr False
          \<and> detection_throws checkout_page_lookup_raises = Some e \<longrightarrow>
              (\<exists>s'. continueCheckoutProcess [checkout_page_lookup_raises] ready_state
                       = Some (Finished, s')
                 \<and> events_since t2 s'
                     = [Sleep 500, Log ''Checkout process error during step check-cvv'',
                        Status (''Error: '' @ message e) ''status-waiting'']
                 \<and> \<not> checkoutInProgress s')"
      by blast
    then show ?thesis using page(5,6) by fastforce
  qed
  have e: "\<exists>s'. continueCheckoutProcess [checkout_page_disabled] ready_state
              = Some (EngineDisabled, s') \<and> \<not> checkoutInProgress s'"
  proof -
    from disabled r have "continueCheckoutProcess [checkout_page_disabled] ready_state = Some r
        \<and> \<not> checkoutInProgress (snd r)"
      by blast
    then show ?thesis using rx by (cases r) simp
  qed
  have f: "\<exists>s'. continueCheckoutProcess [checkout_page_loading, checkout_page_order] ready_state
              = Some (Finished, s') \<and> \<not> checkoutInProgress s'"
  proof -
    from whole page(7) obtain res where
      res: "continueCheckoutProcess [checkout_page_loading, checkout_page_order] ready_state
              = Some res"
      by blast
    obtain x s' where xs: "res = (x, s')" by (cases res)
    from loading u2 res xs have "x = Finished \<and> \<not> checkoutInProgress s'" by blast
    then show ?thesis using res xs by simp
  qed
  show ?thesis
    using pre exit a s4 b s2 c t2 d e f by blast
qed

lemma setup_phase_soft [simp]:
  "setup_phase skip (pp\<lparr>selectDelivery_step := a, handlePopups_step := b\<rparr>) s
     = setup_phase skip pp s"
  by (simp add: setup_phase_def startCheckoutProcess_entry_def Let_def cong: if_cong prod.case_cong option.case_cong)



lemma run_steps_cart_fails:
  assumes "addToCart_step pp = Some e"
  shows "fst (run_steps pp s) = StepError e"
    and "\<not> checkoutInProgress (snd (run_steps pp s))"
    and "trace (snd (run_steps pp s)) =
           trace s @ Call ''selectDeliveryMethod''
           # (case selectDelivery_step pp of None \<Rightarrow> []
              | Some d \<Rightarrow> [continuing_anyway ''Error in select-delivery step: '' d])
           @ [Call ''addToCart'', Status ''Adding item to cart...'' ''status-running'',
              Log ''Critical error in add-to-cart step'',
              Log ''Checkout process error during step set-quantity'',
              Status (''Error: '' @ message e) ''status-waiting'']"
  using assms by (simp_all add: run_steps_def Let_def)

lemma run_steps_cart_ok:
  assumes "addToCart_step pp = None"
  shows "\<exists>ev. trace (snd (run_steps pp s)) =
           trace s @ Call ''selectDeliveryMethod''
           # (case selectDelivery_step pp of None \<Rightarrow> []
              | Some d \<Rightarrow> [continuing_anyway ''Error in select-delivery step: '' d])
           @ [Call ''addToCart'', Status ''Adding item to cart...'' ''status-running'']
           @ (if useBuyNowWhenAvailable s = JBool True \<and> buyNowButton pp
              then [Call ''useBuyNowCheckout''] else [])
           @ [Call ''handlePopups'', Status ''Checking for popups...'' ''status-running'']
           @ (case handlePopups_step pp of None \<Rightarrow> []
              | Some d \<Rightarrow> [continuing_anyway ''Error handling popups: '' d])
           @ Call ''goDirectlyToCheckout'' # ev"
  using assms
  by (auto simp add: run_steps_def Let_def dest!: goDirectlyToCheckout_eq(2)
      split: prod.splits option.splits)

lemma fst_goDirectlyToCheckout:
  "fst (goDirectlyToCheckout pp s) =
     (if inBuyNowErrorRecovery s \<or> buyNowSidePanel pp then None else navigation_throws pp)"
  by (simp add: goDirectlyToCheckout_def Let_def split: option.splits)

lemma recovery_blocks [simp]:
  "inBuyNowErrorRecovery (addToCart_block pp s) =
     (if addToCart_step pp = None \<and> useBuyNowWhenAvailable s = JBool True \<and> buyNowButton pp
      then recovery_after_cart pp else inBuyNowErrorRecovery s)"
  "inBuyNowErrorRecovery (handlePopups_block pp s) = inBuyNowErrorRecovery s"
  by (simp_all add: addToCart_block_def handlePopups_block_def Let_def emit_def
      updateStatus_def split: option.splits)

lemma fst_run_steps:
  "fst (run_steps pp s) =
     (case addToCart_step pp of
        Some e \<Rightarrow> StepError e
      | None \<Rightarrow>
          if (if useBuyNowWhenAvailable s = JBool True \<and> buyNowButton pp
              then recovery_after_cart pp else inBuyNowErrorRecovery s)
             \<or> buyNowSidePanel pp
          then Completed
          else (case navigation_throws pp of Some e \<Rightarrow> StepError e | None \<Rightarrow> Completed))"
proof (cases "addToCart_step pp")
  case None
  obtain r s8 where g: "goDirectlyToCheckout pp
      (emit (Call ''goDirectlyToCheckout'')
        ((handlePopups_block pp (addToCart_block pp (selectDelivery_block pp s)))
           \<lparr>currentStep := ''go-to-checkout''\<rparr>)) = (r, s8)"
    by fastforce
  have "r = (if (if useBuyNowWhenAvailable s = JBool True \<and> buyNowButton pp
                 then recovery_after_cart pp else inBuyNowErrorRecovery s)
                \<or> buyNowSidePanel pp
             then None else navigation_throws pp)"
    using fst_goDirectlyToCheckout [of pp "emit (Call ''goDirectlyToCheckout'')
        ((handlePopups_block pp (addToCart_block pp (selectDelivery_block pp s)))
           \<lparr>currentStep := ''go-to-checkout''\<rparr>)"] g None by simp
  then show ?thesis using None g
    by (simp add: run_steps_def Let_def split: option.splits)
next
  case (Some e)
  then show ?thesis by (simp add: run_steps_def Let_def)
qed

lemma run_steps_soft:
  "fst (run_steps (pp\<lparr>selectDelivery_step := a, handlePopups_step := b\<rparr>) s)
     = fst (run_steps pp s)"
  by (simp add: fst_run_steps cong: option.case_cong if_cong)

text \<open>
  C8. Once the product-page pipeline has reached its steps: the cart step runs whether
  or not the delivery step threw, and a delivery exception is logged; when the cart step
  succeeds, the popup step and the checkout step run whether or not the popup step
  threw, and a popup exception is logged; the exit taken does not depend on what the
  delivery and popup steps threw; an exception of the cart step ends the run with that
  error, no later step is called, nothing navigates, the last effect is the error status
  of \<^verbatim>\<open>handleCheckoutError\<close>, and the progress flag is cleared.
\<close>

theorem step_exception_policy:
  assumes "setup_phase skip pp s = Inr s4"
  shows "Call ''selectDeliveryMethod'' \<in> set (events_since s4 (snd (startCheckoutProcess skip pp s)))
   \<and> Call ''addToCart'' \<in> set (events_since s4 (snd (startCheckoutProcess skip pp s)))
   \<and> (\<forall>e. selectDelivery_step pp = Some e \<longrightarrow>
          continuing_anyway ''Error in select-delivery step: '' e
            \<in> set (events_since s4 (snd (startCheckoutProcess skip pp s))))
   \<and> (addToCart_step pp = None \<longrightarrow>
          Call ''handlePopups'' \<in> set (events_since s4 (snd (startCheckoutProcess skip pp s)))
        \<and> Call ''goDirectlyToCheckout'' \<in> set (events_since s4 (snd (startCheckoutProcess skip pp s)))
        \<and> (\<forall>e. handlePopups_step pp = Some e \<longrightarrow>
              continuing_anyway ''Error handling popups: '' e
                \<in> set (events_since s4 (snd (startCheckoutProcess skip pp s)))))
   \<and> (\<forall>e. addToCart_step pp = Some e \<longrightarrow>
          fst (startCheckoutProcess skip pp s) = StepError e
        \<and> Call ''handlePopups'' \<notin> set (events_since s4 (snd (startCheckoutProcess skip pp s)))
        \<and> Call ''goDirectlyToCheckout'' \<notin> set (events_since s4 (snd (startCheckoutProcess skip pp s)))
        \<and> Navigate ''https://www.target.com/checkout''
            \<notin> set (events_since s4 (snd (startCheckoutProcess skip pp s)))
        \<and> last (events_since s4 (snd (startCheckoutProcess skip pp s)))
            = Status (''Error: '' @ message e) ''status-waiting''
        \<and> \<not> checkoutInProgress (snd (startCheckoutProcess skip pp s)))
   \<and> fst (startCheckoutProcess skip pp s)
       = fst (startCheckoutProcess skip
               (pp\<lparr>selectDelivery_step := None, handlePopups_step := None\<rparr>) s)"
proof -
  have start: "startCheckoutProcess skip pp s = run_steps pp s4"
    using assms by (simp add: startCheckoutProcess_def)
  have soft: "startCheckoutProcess skip (pp\<lparr>selectDelivery_step := None, handlePopups_step := None\<rparr>) s
      = run_steps (pp\<lparr>selectDelivery_step := None, handlePopups_step := None\<rparr>) s4"
    using assms by (simp add: startCheckoutProcess_def)
  have fails: "addToCart_step pp = Some e \<Longrightarrow>
      events_since s4 (snd (run_steps pp s4)) =
           Call ''selectDeliveryMethod''
           # (case selectDelivery_step pp of None \<Rightarrow> []
              | Some d \<Rightarrow> [continuing_anyway ''Error in select-delivery step: '' d])
           @ [Call ''addToCart'', Status ''Adding item to cart...'' ''status-running'',
              Log ''Critical error in add-to-cart step'',
              Log ''Checkout process error during step set-quantity'',
              Status (''Error: '' @ message e) ''status-waiting'']" for e
    using run_steps_cart_fails(3) [of pp e s4] by simp
  have ok: "addToCart_step pp = None \<Longrightarrow>
      \<exists>ev. events_since s4 (snd (run_steps pp s4)) =
           Call ''selectDeliveryMethod''
           # (case selectDelivery_step pp of None \<Rightarrow> []
              | Some d \<Rightarrow> [continuing_anyway ''Error in select-delivery step: '' d])
           @ [Call ''addToCart'', Status ''Adding item to cart...'' ''status-running'']
           @ (if useBuyNowWhenAvailable s4 = JBool True \<and> buyNowButton pp
              then [Call ''useBuyNowCheckout''] else [])
           @ [Call ''handlePopups'', Status ''Checking for popups...'' ''status-running'']
           @ (case handlePopups_step pp of None \<Rightarrow> []
              | Some d \<Rightarrow> [continuing_anyway ''Error handling popups: '' d])
           @ Call ''goDirectlyToCheckout'' # ev"
    using run_steps_cart_ok [of pp s4] by (auto simp del: append_Cons)
  show ?thesis
  proof (cases "addToCart_step pp")
    case None
    from ok [OF None] obtain ev where ev: "events_since s4 (snd (run_steps pp s4)) =
           Call ''selectDeliveryMethod''
           # (case selectDelivery_step pp of None \<Rightarrow> []
              | Some d \<Rightarrow> [continuing_anyway ''Error in select-delivery step: '' d])
           @ [Call ''addToCart'', Status ''Adding item to cart...'' ''status-running'']
           @ (if useBuyNowWhenAvailable s4 = JBool True \<and> buyNowButton pp
              then [Call ''useBuyNowCheckout''] else [])
           @ [Call ''handlePopups'', Status ''Checking for popups...'' ''status-running'']
           @ (case handlePopups_step pp of None \<Rightarrow> []
              | Some d \<Rightarrow> [continuing_anyway ''Error handling popups: '' d])
           @ Call ''goDirectlyToCheckout'' # ev" by blast
    show ?thesis
      unfolding start soft run_steps_soft ev using None by (simp split: option.splits)
  next
    case (Some e)
    show ?thesis
      unfolding start soft run_steps_soft fails [OF Some]
      using Some run_steps_cart_fails(1,2) [OF Some, of s4]
      by (simp add: continuing_anyway_def split: option.splits)
  qed
qed

theorem step_exception_policy_witness:
  "(\<exists>s4. setup_phase True product_page_soft_failures ready_state = Inr s4
      \<and> Call ''addToCart''
           \<in> set (events_since s4 (snd (startCheckoutProcess True product_page_soft_failures ready_state)))
      \<and> continuing_anyway ''Error in select-delivery step: '' (Error ''sleep failed'')
           \<in> set (events_since s4 (snd (startCheckoutProcess True product_page_soft_failures ready_state)))
      \<and> Call ''goDirectlyToCheckout''
           \<in> set (events_since s4 (snd (startCheckoutProcess True product_page_soft_failures ready_state))))
   \<and> fst (startCheckoutProcess True product_page_soft_failures ready_state) = Completed
   \<and> (\<exists>s4. setup_phase True product_page_cart_fails ready_state = Inr s4
      \<and> Call ''handlePopups''
           \<notin> set (events_since s4 (snd (startCheckoutProcess True product_page_cart_fails ready_state))))
   \<and> fst (startCheckoutProcess True product_page_cart_fails ready_state)
       = StepError (Error ''Add to Cart/Pre-Order button not found.'')"
proof -
  obtain s4 where soft: "setup_phase True product_page_soft_failures ready_state = Inr s4"
    by (simp add: eval_defs product_page_soft_failures_def)
  obtain t4 where cart: "setup_phase True product_page_cart_fails ready_state = Inr t4"
    by (simp add: eval_defs product_page_cart_fails_def)
  have sel: "selectDelivery_step product_page_soft_failures = Some (Error ''sleep failed'')"
    and ok: "addToCart_step product_page_soft_failures = None"
    and bad: "addToCart_step product_page_cart_fails
                = Some (Error ''Add to Cart/Pre-Order button not found.'')"
    by (simp_all add: product_page_soft_failures_def product_page_cart_fails_def
        product_page_ok_def)
  have fin: "fst (startCheckoutProcess True product_page_soft_failures ready_state) = Completed"
    by (simp add: eval_defs fst_run_steps product_page_soft_failures_def)
  show ?thesis
    using step_exception_policy [OF soft] step_exception_policy [OF cart] soft cart sel ok bad fin
    by simp
qed


section \<open>Handlers and watcher channels\<close>

lemma times_append [simp]: "trace s' = trace s @ ev \<Longrightarrow> times e s s' = count_list ev e"
  by (simp add: times_def)

lemma times_same [simp]: "times e s s = 0"
  by (simp add: times_def events_since_def)

lemma events_since_same [simp]: "events_since s s = []"
  by (simp add: events_since_def)


text \<open>
  The Buy-Now flow never reads \<^verbatim>\<open>globalSettings.autoSubmit\<close>: the outcome and the
  effects of a pass are the same whatever the setting.
\<close>

lemma buy_now_ignores_autoSubmit:
  "fst (useBuyNowCheckout_pass pg (s\<lparr>autoSubmit := v\<rparr>)) = fst (useBuyNowCheckout_pass pg s)
   \<and> events_since (s\<lparr>autoSubmit := v\<rparr>) (snd (useBuyNowCheckout_pass pg (s\<lparr>autoSubmit := v\<rparr>)))
       = events_since s (snd (useBuyNowCheckout_pass pg s))"
  by (simp add: useBuyNowCheckout_pass_def buy_now_error_def events_since_def Let_def
      updateStatus_def emit_def split: sum.splits bool.splits)

text \<open>
  C10, amended. In every state in which \<^verbatim>\<open>globalSettings.autoSubmit\<close> is false (or
  any other value that JavaScript treats as false), \<^verbatim>\<open>placeOrder\<close> returns in its
  first turn, on any page: it sets the current step, pushes the one status
  \<^verbatim>\<open>Order ready - Submit disabled\<close> and does nothing else. No button is clicked, no
  guard flag and no filling flag changes, no handler is started, and the page is
  untouched. The switch covers the submissions made by \<^verbatim>\<open>placeOrder\<close> and no
  other: a pass of the Buy-Now flow has the same outcome and the same effects for every
  value of the setting.
\<close>

theorem autoSubmit_kill_switch:
  assumes "\<not> truthy (autoSubmit s)"
  shows "placeOrder_turn d s =
           (Returned, d,
            s\<lparr>currentStep := ''place-order'',
              trace := trace s @ [Status ''Order ready - Submit disabled'' ''status-complete'']\<rparr>)
     \<and> placeOrder (pg # pgs) s =
           Some (s\<lparr>currentStep := ''place-order'',
                   trace := trace s @ [Status ''Order ready - Submit disabled'' ''status-complete'']\<rparr>)
     \<and> events_since s (snd (snd (placeOrder_turn d s)))
           = [Status ''Order ready - Submit disabled'' ''status-complete'']
     \<and> placeOrderButtonClicked (snd (snd (placeOrder_turn d s))) = placeOrderButtonClicked s
     \<and> confirmButtonClicked (snd (snd (placeOrder_turn d s))) = confirmButtonClicked s
     \<and> verifyCardButtonClicked (snd (snd (placeOrder_turn d s))) = verifyCardButtonClicked s
     \<and> isFillingCvvInput (snd (snd (placeOrder_turn d s))) = isFillingCvvInput s
     \<and> isFillingCardInput (snd (snd (placeOrder_turn d s))) = isFillingCardInput s
     \<and> fst (useBuyNowCheckout_pass bp s) = fst (useBuyNowCheckout_pass bp (s\<lparr>autoSubmit := v\<rparr>))
     \<and> events_since s (snd (useBuyNowCheckout_pass bp s))
         = events_since (s\<lparr>autoSubmit := v\<rparr>)
             (snd (useBuyNowCheckout_pass bp (s\<lparr>autoSubmit := v\<rparr>)))"
proof -
  have turn: "placeOrder_turn d s =
           (Returned, d,
            s\<lparr>currentStep := ''place-order'',
              trace := trace s @ [Status ''Order ready - Submit disabled'' ''status-complete'']\<rparr>)"
    for d
    using assms by (simp add: placeOrder_turn_def Let_def updateStatus_def emit_def)
  have full: "placeOrder (pg # pgs) s =
           Some (s\<lparr>currentStep := ''place-order'',
                   trace := trace s @ [Status ''Order ready - Submit disabled'' ''status-complete'']\<rparr>)"
    by (simp add: turn placeOrder_resume_def)
  show ?thesis
    using buy_now_ignores_autoSubmit [where pg = bp and s = s and v = v]
    by (simp add: turn placeOrder_resume_def events_since_def)
qed



lemma trace_load [simp]:
  "trace (loadSettingsAndProfile ld s) =
     trace s @ StorageGet ''siteSettings''
       # (case ld_error ld of None \<Rightarrow> []
          | Some e \<Rightarrow> [Status (''Error loading settings: '' @ message e) ''status-waiting''])"
  by (simp add: loadSettingsAndProfile_def Let_def split: option.splits)

lemma flags_load [simp]:
  "confirmButtonClicked (loadSettingsAndProfile ld s) = confirmButtonClicked s"
  "verifyCardButtonClicked (loadSettingsAndProfile ld s) = verifyCardButtonClicked s"
  "placeOrderButtonClicked (loadSettingsAndProfile ld s) = placeOrderButtonClicked s"
  by (simp_all add: loadSettingsAndProfile_def Let_def updateStatus_def emit_def split: option.splits)

lemma flags_emit [simp]:
  "confirmButtonClicked (emit e s) = confirmButtonClicked s"
  "verifyCardButtonClicked (emit e s) = verifyCardButtonClicked s"
  "placeOrderButtonClicked (emit e s) = placeOrderButtonClicked s"
  "isFillingCvvInput (emit e s) = isFillingCvvInput s"
  "isFillingCardInput (emit e s) = isFillingCardInput s"
  "isEnabled (emit e s) = isEnabled s"
  "autoSubmit (emit e s) = autoSubmit s"
  "highDemandRetryInterval (emit e s) = highDemandRetryInterval s"
  by (simp_all add: emit_def)

lemma flags_updateStatus [simp]:
  "confirmButtonClicked (updateStatus m v s) = confirmButtonClicked s"
  "verifyCardButtonClicked (updateStatus m v s) = verifyCardButtonClicked s"
  "placeOrderButtonClicked (updateStatus m v s) = placeOrderButtonClicked s"
  "isFillingCvvInput (updateStatus m v s) = isFillingCvvInput s"
  "isFillingCardInput (updateStatus m v s) = isFillingCardInput s"
  "isEnabled (updateStatus m v s) = isEnabled s"
  "autoSubmit (updateStatus m v s) = autoSubmit s"
  "highDemandRetryInterval (updateStatus m v s) = highDemandRetryInterval s"
  by (simp_all add: updateStatus_def)

lemma cvv_rest_clicks:
  "times (Click ''cvv-confirm'') s (handleCVVConfirmation_rest pg s) \<le> 1"
  by (simp add: handleCVVConfirmation_rest_def times_def events_since_def Let_def
      split: option.splits)

lemma cvv_turn_clicks:
  "times (Click a) s (snd (handleCVVConfirmation_turn s)) = 0"
  by (simp add: handleCVVConfirmation_turn_def times_def events_since_def)






lemma flags_high_demand_retry [simp]:
  "placeOrderButtonClicked (high_demand_retry d s) = placeOrderButtonClicked s"
  "isFillingCvvInput (high_demand_retry d s) = isFillingCvvInput s"
  "isFillingCardInput (high_demand_retry d s) = isFillingCardInput s"
  "confirmButtonClicked (high_demand_retry d s) = confirmButtonClicked s"
  "verifyCardButtonClicked (high_demand_retry d s) = verifyCardButtonClicked s"
  by (simp_all add: high_demand_retry_def Let_def split: option.splits)



lemma from_button_flag:
  "fst (placeOrder_from_button d s) = AwaitOrderClick \<Longrightarrow>
   placeOrderButtonClicked (snd (snd (placeOrder_from_button d s)))
   \<and> fst (snd (placeOrder_from_button d s)) = d"
proof (cases "order_button d")
  case None
  assume "fst (placeOrder_from_button d s) = AwaitOrderClick"
  with None show ?thesis by (simp add: placeOrder_from_button_def)
next
  case (Some b)
  assume "fst (placeOrder_from_button d s) = AwaitOrderClick"
  with Some show ?thesis by (simp add: placeOrder_from_button_def Let_def split: if_splits)
qed



























































theorem autoSubmit_kill_switch_witness:
  "\<not> truthy (autoSubmit (submitting_state\<lparr>autoSubmit := JBool False\<rparr>))
   \<and> placeOrder_turn dom_order_ready (submitting_state\<lparr>autoSubmit := JBool False\<rparr>)
       = (Returned, dom_order_ready,
          submitting_state\<lparr>autoSubmit := JBool False, currentStep := ''place-order'',
            trace := [Status ''Order ready - Submit disabled'' ''status-complete'']\<rparr>)
   \<and> placeOrder [place_page_ready] (submitting_state\<lparr>autoSubmit := JBool False\<rparr>)
       = Some (submitting_state\<lparr>autoSubmit := JBool False, currentStep := ''place-order'',
                 trace := [Status ''Order ready - Submit disabled'' ''status-complete'']\<rparr>)"
  using autoSubmit_kill_switch [where s = "submitting_state\<lparr>autoSubmit := JBool False\<rparr>"
      and d = dom_order_ready and pg = place_page_ready and pgs = "[]"]
  by (simp add: submitting_state_def ready_state_def initial_state_def)

text \<open>
  C10, read literally, makes \<^verbatim>\<open>autoSubmit = false\<close> a switch that stops every order
  submission. With the setting off and the Buy-Now option on, the product-page pipeline
  hands a usable Buy-Now button to \<^verbatim>\<open>useBuyNowCheckout\<close>, and a pass of that flow
  clicks place-order inside the panel and reports the order as placed.
\<close>

theorem autoSubmit_buy_now_counterexample:
  "\<not> truthy (autoSubmit submit_off_state)
   \<and> Call ''useBuyNowCheckout''
       \<in> set (trace (snd (startCheckoutProcess True product_page_buy_now submit_off_state)))
   \<and> fst (useBuyNowCheckout_pass buy_now_page_smooth submit_off_state) = Success
   \<and> FrameClick ''place-order''
       \<in> set (trace (snd (useBuyNowCheckout_pass buy_now_page_smooth submit_off_state)))
   \<and> Status ''Order successfully placed!'' ''status-complete''
       \<in> set (trace (snd (useBuyNowCheckout_pass buy_now_page_smooth submit_off_state)))
   \<and> map_option fst (useBuyNowCheckout (\<lambda>k. False) [buy_now_page_smooth] 0 submit_off_state)
       = Some Placed"
proof -
  have run: "Call ''useBuyNowCheckout''
       \<in> set (trace (snd (startCheckoutProcess True product_page_buy_now submit_off_state)))"
    by (simp add: eval_defs product_page_buy_now_def submit_off_state_def handlePopups_block_def
        selectDelivery_block_def addToCart_block_def)
  have pass: "fst (useBuyNowCheckout_pass buy_now_page_smooth submit_off_state) = Success"
    "FrameClick ''place-order''
       \<in> set (trace (snd (useBuyNowCheckout_pass buy_now_page_smooth submit_off_state)))"
    "Status ''Order successfully placed!'' ''status-complete''
       \<in> set (trace (snd (useBuyNowCheckout_pass buy_now_page_smooth submit_off_state)))"
    by (simp_all add: useBuyNowCheckout_pass_def buy_now_page_smooth_def submit_off_state_def
        ready_state_def initial_state_def profile_three_shapes_def useBuyNowCheckout_cvv_def
        probe_sleeps_def panel_found_def updateStatus_def emit_def Let_def)
  have whole: "map_option fst
      (useBuyNowCheckout (\<lambda>k. False) [buy_now_page_smooth] 0 submit_off_state) = Some Placed"
    using pass(1)
    by (cases "useBuyNowCheckout_pass buy_now_page_smooth submit_off_state") simp
  show ?thesis
    using run pass whole by (simp add: submit_off_state_def)
qed

section \<open>The Buy-Now retry loop\<close>

lemma retry_lines_append [simp]: "retry_lines (xs @ ys) = retry_lines xs @ retry_lines ys"
  by (induction xs rule: retry_lines.induct) simp_all

lemma poll_lines_append [simp]: "poll_lines (xs @ ys) = poll_lines xs @ poll_lines ys"
  by (induction xs rule: poll_lines.induct) simp_all

lemma poll_button_trace:
  "poll_button vis a k s = (found, k', s') \<Longrightarrow>
   \<exists>ev. trace s' = trace s @ ev
      \<and> retry_lines ev = []
      \<and> length (poll_lines ev) \<le> 10 - a
      \<and> (\<forall>x \<in> set (poll_lines ev). a < x \<and> x \<le> 10)
      \<and> (\<forall>n. Call n \<notin> set ev) \<and> (\<forall>m v. Status m v \<notin> set ev)
      \<and> k' = k + length (poll_lines ev)
      \<and> (found \<longrightarrow> 0 < length (poll_lines ev) \<and> vis (k' - 1))
      \<and> (\<not> found \<longrightarrow> length (poll_lines ev) = 10 - a \<and> (\<forall>j < 10 - a. \<not> vis (k + j)))"
proof (induction vis a k s arbitrary: found k' s' rule: poll_button.induct)
  case (1 vis pollAttempts looks s)
  show ?case
  proof (cases "pollAttempts < 10")
    case False
    then show ?thesis using "1.prems" by simp
  next
    case lt: True
    show ?thesis
    proof (cases "vis looks")
      case True
      then show ?thesis
        apply (intro exI [of _ "[LogPoll (pollAttempts + 1)]"])
        using "1.prems" lt by (auto simp add: Let_def)
    next
      case nv: False
      show ?thesis
      proof (cases "pollAttempts + 1 < 10")
        case True
        from "1.prems" lt nv True
        have rec: "poll_button vis (pollAttempts + 1) (looks + 1)
                     (emit (Sleep 500) (emit (LogPoll (pollAttempts + 1)) s)) = (found, k', s')"
          by (simp add: Let_def)
        from "1.IH"(1) [OF lt refl refl nv True rec]
        obtain ev where ev: "trace s' = trace (emit (Sleep 500) (emit (LogPoll (pollAttempts + 1)) s)) @ ev"
          "retry_lines ev = []" "length (poll_lines ev) \<le> 10 - (pollAttempts + 1)"
          "\<forall>x \<in> set (poll_lines ev). pollAttempts + 1 < x \<and> x \<le> 10"
          "\<forall>n. Call n \<notin> set ev" "\<forall>m v. Status m v \<notin> set ev"
          "k' = looks + 1 + length (poll_lines ev)"
          "found \<longrightarrow> 0 < length (poll_lines ev) \<and> vis (k' - 1)"
          "\<not> found \<longrightarrow> length (poll_lines ev) = 10 - (pollAttempts + 1)
             \<and> (\<forall>j < 10 - (pollAttempts + 1). \<not> vis (looks + 1 + j))"
          by blast
        have nvis: "\<not> found \<Longrightarrow> j < 10 - pollAttempts \<Longrightarrow> \<not> vis (looks + j)" for j
          using ev(9) nv by (cases j) auto
        show ?thesis
          apply (rule exI [of _ "LogPoll (pollAttempts + 1) # Sleep 500 # ev"])
          using ev lt True nvis by auto
      next
        case False
        from "1.prems" lt nv False
        have rec: "poll_button vis (pollAttempts + 1) (looks + 1)
                     (emit (LogPoll (pollAttempts + 1)) s) = (found, k', s')"
          by (simp add: Let_def)
        from "1.IH"(2) [OF lt refl refl nv False rec]
        obtain ev where ev: "trace s' = trace (emit (LogPoll (pollAttempts + 1)) s) @ ev"
          "retry_lines ev = []" "length (poll_lines ev) \<le> 10 - (pollAttempts + 1)"
          "\<forall>x \<in> set (poll_lines ev). pollAttempts + 1 < x \<and> x \<le> 10"
          "\<forall>n. Call n \<notin> set ev" "\<forall>m v. Status m v \<notin> set ev"
          "k' = looks + 1 + length (poll_lines ev)"
          "found \<longrightarrow> 0 < length (poll_lines ev) \<and> vis (k' - 1)"
          "\<not> found \<longrightarrow> length (poll_lines ev) = 10 - (pollAttempts + 1)
             \<and> (\<forall>j < 10 - (pollAttempts + 1). \<not> vis (looks + 1 + j))"
          by blast
        have nvis: "\<not> found \<Longrightarrow> j < 10 - pollAttempts \<Longrightarrow> \<not> vis (looks + j)" for j
          using ev(9) nv by (cases j) auto
        show ?thesis
          apply (rule exI [of _ "LogPoll (pollAttempts + 1) # ev"])
          using ev lt False nvis by auto
      qed
    qed
  qed
qed


lemma retryBuyNow_trace:
  "retryBuyNow vis d c k s = (out, c', k', s') \<Longrightarrow>
   \<exists>n ev. n \<le> 5 - c \<and> trace s' = trace s @ ev \<and> ev \<noteq> []
      \<and> retry_lines ev = map (\<lambda>i. (c + 1 + i, backoff d i)) [0..<n]
      \<and> length (poll_lines ev) \<le> 10 * n
      \<and> (\<forall>x \<in> set (poll_lines ev). 1 \<le> x \<and> x \<le> 10)
      \<and> k' = k + length (poll_lines ev)
      \<and> (out = GaveUp \<longrightarrow>
            n = 5 - c \<and> c' = max c 5 \<and> length (poll_lines ev) = 10 * n
          \<and> (\<forall>j < 10 * n. \<not> vis (k + j)) \<and> (\<forall>f. Call f \<notin> set ev)
          \<and> last ev = Status ''Buy now checkout failed, please try again'' ''status-waiting'')
      \<and> (out = Restarted \<longrightarrow>
            0 < n \<and> c' = 0 \<and> vis (k' - 1) \<and> \<not> inBuyNowErrorRecovery s'
          \<and> last ev = Call ''useBuyNowCheckout''
          \<and> count_list ev (Call ''useBuyNowCheckout'') = 1)"
proof (induction vis d c k s arbitrary: out c' k' s' rule: retryBuyNow.induct)
  case (1 vis d c k s)
  show ?case
  proof (cases "c \<ge> 5")
    case True
    then show ?thesis
      apply (intro exI [of _ 0]
          exI [of _ "[Status ''Buy now checkout failed, please try again'' ''status-waiting'']"])
      using "1.prems" by auto
  next
    case lt: False
    let ?s1 = "emit (Sleep d) (emit (LogRetry (c + 1) d) s)"
    obtain found k1 s2 where p: "poll_button vis 0 k ?s1 = (found, k1, s2)"
      by (metis prod_cases3)
    from poll_button_trace [OF p]
    obtain pev where pev: "trace s2 = trace ?s1 @ pev" "retry_lines pev = []"
      "length (poll_lines pev) \<le> 10" "\<forall>x \<in> set (poll_lines pev). 0 < x \<and> x \<le> 10"
      "\<forall>n. Call n \<notin> set pev" "\<forall>m v. Status m v \<notin> set pev"
      "k1 = k + length (poll_lines pev)"
      "found \<longrightarrow> 0 < length (poll_lines pev) \<and> vis (k1 - 1)"
      "\<not> found \<longrightarrow> length (poll_lines pev) = 10 \<and> (\<forall>j < 10. \<not> vis (k + j))"
      by auto
    show ?thesis
    proof (cases found)
      case True
      with "1.prems" lt p
      have res: "out = Restarted" "c' = 0" "k' = k1"
        "s' = emit (Call ''useBuyNowCheckout'')
                ((emit (Sleep 500) s2)\<lparr>inBuyNowErrorRecovery := False\<rparr>)"
        by (auto simp add: Let_def)
      have cnt: "count_list pev (Call ''useBuyNowCheckout'') = 0"
        using pev(5) by (simp add: count_list_0_iff)
      show ?thesis
        apply (intro exI [of _ 1]
            exI [of _ "LogRetry (c + 1) d # Sleep d # pev @ [Sleep 500, Call ''useBuyNowCheckout'']"])
        using res pev True lt cnt by (auto simp add: emit_def)
    next
      case False
      with "1.prems" lt p
      have rec: "retryBuyNow vis (min (d * 3 / 2) 5000) (c + 1) k1 s2 = (out, c', k', s')"
        by (simp add: Let_def)
      have "(False, k1, s2) = poll_button vis 0 k ?s1" using p False by simp
      from "1.IH" [OF _ refl refl this refl refl rec] lt
      obtain n ev where ih: "n \<le> 5 - (c + 1)" "trace s' = trace s2 @ ev" "ev \<noteq> []"
        "retry_lines ev = map (\<lambda>i. (c + 1 + 1 + i, backoff (min (d * 3 / 2) 5000) i)) [0..<n]"
        "length (poll_lines ev) \<le> 10 * n"
        "\<forall>x \<in> set (poll_lines ev). 1 \<le> x \<and> x \<le> 10"
        "k' = k1 + length (poll_lines ev)"
        "out = GaveUp \<longrightarrow>
            n = 5 - (c + 1) \<and> c' = max (c + 1) 5 \<and> length (poll_lines ev) = 10 * n
          \<and> (\<forall>j < 10 * n. \<not> vis (k1 + j)) \<and> (\<forall>f. Call f \<notin> set ev)
          \<and> last ev = Status ''Buy now checkout failed, please try again'' ''status-waiting''"
        "out = Restarted \<longrightarrow>
            0 < n \<and> c' = 0 \<and> vis (k' - 1) \<and> \<not> inBuyNowErrorRecovery s'
          \<and> last ev = Call ''useBuyNowCheckout''
          \<and> count_list ev (Call ''useBuyNowCheckout'') = 1"
        by auto
      have lines: "map (\<lambda>i. (c + 1 + i, backoff d i)) [0..<Suc n]
          = (c + 1, d) # map (\<lambda>i. (c + 1 + 1 + i, backoff (min (d * 3 / 2) 5000) i)) [0..<n]"
        by (simp add: map_upt_Suc del: upt_Suc)
      have len: "length (poll_lines pev) = 10" and nv: "\<forall>j < 10. \<not> vis (k + j)"
        using pev(9) False by simp_all
      have nvis: "\<forall>j < 10 * n. \<not> vis (k1 + j) \<Longrightarrow> j < 10 * Suc n \<Longrightarrow> \<not> vis (k + j)" for j
      proof (cases "j < 10")
        case True
        then show ?thesis using nv by simp
      next
        case False
        assume a: "\<forall>j < 10 * n. \<not> vis (k1 + j)" and b: "j < 10 * Suc n"
        from False b have "j - 10 < 10 * n" by simp
        with a have "\<not> vis (k1 + (j - 10))" by blast
        moreover have "k1 + (j - 10) = k + j" using pev(7) len False by simp
        ultimately show ?thesis by simp
      qed
      show ?thesis
        apply (intro exI [of _ "Suc n"] exI [of _ "LogRetry (c + 1) d # Sleep d # pev @ ev"])
        unfolding lines
        using ih pev(1,2,3,4,5,6,7) len lt nvis
        by (auto simp add: count_list_0_iff simp del: upt_Suc)
    qed
  qed
qed


lemma backoff_shift: "backoff d (Suc i) = min (backoff d i * 3 / 2) 5000"
  by (induction i arbitrary: d) simp_all

lemma backoff_capped: "backoff d (Suc i) \<le> 5000"
  by (simp add: backoff_shift del: backoff.simps)

text \<open>
  C9. Whatever the page shows, one run of \<^verbatim>\<open>retryBuyNow\<close> from a counter \<open>c\<close> returns
  after at most \<open>5 - c\<close> attempts, so after at most 5. The attempts are numbered
  \<open>c + 1, c + 2, ...\<close> and the \<open>i\<close>-th waits \<open>backoff d i\<close>, each delay being the one
  before times 1.5, capped at 5000. Every attempt looks for the button at most 10
  times. Either the button was found: the counter is reset to 0, the recovery flag is
  cleared and the last thing done is the one new call of \<^verbatim>\<open>useBuyNowCheckout\<close>. Or
  the run gave up: then all \<open>5 - c\<close> attempts were made, none of their looks found the
  button, nothing was restarted, the counter stands at the maximum and the last thing
  done is the failure status.
\<close>

theorem retry_is_bounded:
  assumes "retryBuyNow vis d c k s = (out, c', k', s')"
  shows "(\<exists>n \<le> 5 - c.
            retry_lines (events_since s s') = map (\<lambda>i. (c + 1 + i, backoff d i)) [0..<n]
          \<and> length (poll_lines (events_since s s')) \<le> 10 * n
          \<and> (out = GaveUp \<longrightarrow> n = 5 - c \<and> (\<forall>j < 10 * n. \<not> vis (k + j))))
     \<and> (\<forall>x \<in> set (poll_lines (events_since s s')). 1 \<le> x \<and> x \<le> 10)
     \<and> (\<forall>i. backoff d (Suc i) = min (backoff d i * 3 / 2) 5000)
     \<and> (out = GaveUp \<longrightarrow>
           c' = max c 5 \<and> (\<forall>f. Call f \<notin> set (events_since s s'))
         \<and> last (events_since s s')
             = Status ''Buy now checkout failed, please try again'' ''status-waiting'')
     \<and> (out = Restarted \<longrightarrow>
           c' = 0 \<and> vis (k' - 1) \<and> \<not> inBuyNowErrorRecovery s'
         \<and> last (events_since s s') = Call ''useBuyNowCheckout''
         \<and> count_list (events_since s s') (Call ''useBuyNowCheckout'') = 1)"
proof -
  from retryBuyNow_trace [OF assms]
  obtain n ev where r: "n \<le> 5 - c" "trace s' = trace s @ ev" "ev \<noteq> []"
    "retry_lines ev = map (\<lambda>i. (c + 1 + i, backoff d i)) [0..<n]"
    "length (poll_lines ev) \<le> 10 * n"
    "\<forall>x \<in> set (poll_lines ev). 1 \<le> x \<and> x \<le> 10"
    "k' = k + length (poll_lines ev)"
    "out = GaveUp \<longrightarrow>
        n = 5 - c \<and> c' = max c 5 \<and> length (poll_lines ev) = 10 * n
      \<and> (\<forall>j < 10 * n. \<not> vis (k + j)) \<and> (\<forall>f. Call f \<notin> set ev)
      \<and> last ev = Status ''Buy now checkout failed, please try again'' ''status-waiting''"
    "out = Restarted \<longrightarrow>
        0 < n \<and> c' = 0 \<and> vis (k' - 1) \<and> \<not> inBuyNowErrorRecovery s'
      \<and> last ev = Call ''useBuyNowCheckout''
      \<and> count_list ev (Call ''useBuyNowCheckout'') = 1"
    by blast
  have ev: "events_since s s' = ev" using r(2) by simp
  have first: "\<exists>n \<le> 5 - c.
            retry_lines ev = map (\<lambda>i. (c + 1 + i, backoff d i)) [0..<n]
          \<and> length (poll_lines ev) \<le> 10 * n
          \<and> (out = GaveUp \<longrightarrow> n = 5 - c \<and> (\<forall>j < 10 * n. \<not> vis (k + j)))"
    using r(1,4,5,8) by blast
  show ?thesis
    unfolding ev using first r(6,8,9) backoff_shift by blast
qed

theorem retry_is_bounded_witness:
  "(\<exists>c' k' s'. retryBuyNow (\<lambda>k. False) 1500 0 0 ready_state = (GaveUp, c', k', s')
       \<and> retry_lines (events_since ready_state s')
           = [(1, 1500), (2, 2250), (3, 3375), (4, 5000), (5, 5000)]
       \<and> c' = 5)
   \<and> (\<exists>k' s'. retryBuyNow (\<lambda>k. True) 1500 0 0 ready_state = (Restarted, 0, k', s')
       \<and> \<not> inBuyNowErrorRecovery s')"
proof -
  obtain out c' k' s' where a: "retryBuyNow (\<lambda>k. False) 1500 0 0 ready_state = (out, c', k', s')"
    by (metis prod_cases4)
  note ta = retry_is_bounded [OF a]
  have oa: "out = GaveUp" using ta by (cases out) simp_all
  have la: "retry_lines (events_since ready_state s')
           = [(1, 1500), (2, 2250), (3, 3375), (4, 5000), (5, 5000)]"
    using ta oa by (auto simp add: upt_rec [of 0] upt_rec [of 1] upt_rec [of 2] upt_rec [of 3]
        upt_rec [of 4] upt_rec [of 5] numeral_2_eq_2 numeral_3_eq_3 eval_nat_numeral)
  obtain out2 c2 k2 s2 where b: "retryBuyNow (\<lambda>k. True) 1500 0 0 ready_state = (out2, c2, k2, s2)"
    by (metis prod_cases4)
  note tb = retry_is_bounded [OF b]
  have ob: "out2 = Restarted"
  proof (cases out2)
    case GaveUp
    with tb have "\<forall>j < 10 * (5::nat). \<not> (\<lambda>k::nat. True) (0 + j)" by auto
    then have "\<not> (\<lambda>k::nat. True) (0 + 0)" by (rule allE [of _ 0]) simp
    then show ?thesis by simp
  next
    case Restarted
    then show ?thesis .
  qed
  have ca: "c' = 5" using ta oa by simp
  have cb: "c2 = 0" and rb: "\<not> inBuyNowErrorRecovery s2" using tb ob by simp_all
  have a': "\<exists>c' k' s'. retryBuyNow (\<lambda>k. False) 1500 0 0 ready_state = (GaveUp, c', k', s')
       \<and> retry_lines (events_since ready_state s')
           = [(1, 1500), (2, 2250), (3, 3375), (4, 5000), (5, 5000)]
       \<and> c' = 5"
    using a oa la ca by blast
  have b': "\<exists>k' s'. retryBuyNow (\<lambda>k. True) 1500 0 0 ready_state = (Restarted, 0, k', s')
       \<and> \<not> inBuyNowErrorRecovery s'"
    using b ob cb rb by blast
  show ?thesis using a' b' by blast
qed

lemma useBuyNowCheckout_smooth:
  "\<exists>s'. useBuyNowCheckout vis [buy_now_page_smooth] 0 ready_state = Some (Placed, 0, s')"
  by (simp add: useBuyNowCheckout_pass_def buy_now_page_smooth_def ready_state_def
      initial_state_def profile_three_shapes_def useBuyNowCheckout_cvv_def profile_cvv_def
      probe_sleeps_def panel_found_def updateStatus_def emit_def Let_def)

section \<open>The cart page\<close>

lemma content_script_cart:
  assumes "pathname loc = ''/cart''"
  shows "\<forall>e \<in> set (trace (content_script loc pg)). \<not> automation e"
    and "observers (content_script loc pg) = []"
    and "intervals (content_script loc pg) = []"
    and "\<not> checkoutInProgress (content_script loc pg)"
  using assms
  by (auto simp add: content_script_def autoCloseCartPage_def automation_def initial_state_def
      updateStatus_def emit_def Let_def split: sum.splits)

lemma init_cart:
  assumes "pathname loc = ''/cart''"
  shows "init loc ld s = updateStatus ''Cart page detected (automation disabled)'' ''status-waiting'' s"
  using assms by (simp add: init_def)

lemma onActivate_cart:
  assumes "pathname loc = ''/cart''"
  shows "onActivate loc loc' ld ld' obs iv s
           = updateStatus ''Cart page detected (automation disabled)'' ''status-waiting'' s"
  using assms by (simp add: onActivate_def)

lemma trace_cleanup:
  "trace (cleanup s) = trace s @ map (\<lambda>h. Call ''observer.disconnect'') (observers s)
                               @ map (\<lambda>h. Call ''clearInterval'') (intervals s)"
  by (simp add: cleanup_def Let_def)

lemma handlePageDetection_cart:
  "\<forall>e \<in> set (events_since s (handlePageDetection Cart ld obs iv s)). \<not> automation e"
  "observers (handlePageDetection Cart ld obs iv s) = []"
  "intervals (handlePageDetection Cart ld obs iv s) = []"
  "\<not> checkoutInProgress (handlePageDetection Cart ld obs iv s)"
  by (auto simp add: handlePageDetection_def Let_def trace_cleanup events_since_def
      automation_def cleanup_def updateStatus_def emit_def)

lemma detectCurrentPage_cart:
  "pathname loc = ''/cart'' \<Longrightarrow>
   detectCurrentPage loc = Cart \<longleftrightarrow>
     \<not> str_includes (href loc) ''target.com/p/'' \<and> \<not> str_includes (href loc) ''/gift-registry''
     \<and> \<not> str_includes (href loc) ''target.com/checkout''"
  by (simp add: detectCurrentPage_def)

text \<open>
  What the pathname guards achieve. On an address whose path is exactly \<^verbatim>\<open>/cart\<close>
  at the moment the guard reads it, the script itself runs only the auto-close
  routine, which reads \<^verbatim>\<open>globalSettings\<close> and may close the tab; \<^verbatim>\<open>init\<close> and
  \<^verbatim>\<open>onActivate\<close> push one status and return before the settings are loaded. A
  detection message of type cart is ignored by the listener and, in
  \<^verbatim>\<open>handlePageDetection\<close>, ends after \<^verbatim>\<open>cleanup\<close> with a status. In none of these
  are the site settings loaded, a pipeline started or a watcher installed.
\<close>

lemma cart_guards_short_circuit:
  assumes "pathname loc = ''/cart''"
  shows "(\<forall>e \<in> set (trace (content_script loc pg)). \<not> automation e)
     \<and> observers (content_script loc pg) = [] \<and> intervals (content_script loc pg) = []
     \<and> \<not> checkoutInProgress (content_script loc pg)
     \<and> events_since s (init loc ld s)
         = [Status ''Cart page detected (automation disabled)'' ''status-waiting'']
     \<and> events_since s (onActivate loc loc' ld ld' obs iv s)
         = [Status ''Cart page detected (automation disabled)'' ''status-waiting'']
     \<and> (\<forall>e \<in> set (events_since s (handlePageDetection Cart ld obs iv s)). \<not> automation e)
     \<and> observers (handlePageDetection Cart ld obs iv s) = []
     \<and> intervals (handlePageDetection Cart ld obs iv s) = []
     \<and> \<not> checkoutInProgress (handlePageDetection Cart ld obs iv s)
     \<and> on_detectPage Cart ld obs iv s = s"
  using content_script_cart [OF assms, of pg]
  by (simp add: init_cart [OF assms] onActivate_cart [OF assms] on_detectPage_def
      handlePageDetection_cart)

lemma cart_plain_closes:
  "trace (content_script cart_plain script_page_autoclose)
       = [Status ''Cart page detected - checking auto-close setting'' ''status-waiting'',
          StorageGet ''globalSettings'',
          Status ''Auto-closing cart page...'' ''status-running'',
          CloseTab, Timer 100 ''window.close'']"
  by (simp add: cart_plain_def content_script_def
      script_page_autoclose_def autoCloseCartPage_def initial_state_def Let_def)

lemma product_page_is_automated:
  "isEnabled s \<Longrightarrow>
   Call ''startCheckoutProcess'' \<in> set (events_since s (handlePageDetection Product ld obs iv s))"
  by (simp add: handlePageDetection_def Let_def trace_cleanup events_since_def cleanup_def)

text \<open>
  What the double-check inside \<^verbatim>\<open>onActivate\<close> achieves when the page has become the
  cart page while the settings were loading. It relies on \<^verbatim>\<open>detectCurrentPage\<close>,
  which asks for the product, registry and checkout patterns anywhere in the address
  before it looks at the path: on a cart address without these patterns nothing more
  happens; on a cart address that contains the product pattern, with the engine
  enabled, the product pipeline is started.
\<close>

lemma onActivate_double_check:
  assumes "pathname loc \<noteq> ''/cart''" and "pathname loc' = ''/cart''"
    and "\<not> str_includes (href loc') ''target.com/p/''"
    and "\<not> str_includes (href loc') ''/gift-registry''"
    and "\<not> str_includes (href loc') ''target.com/checkout''"
  shows "onActivate loc loc' ld ld' obs iv s = loadSettingsAndProfile ld s"
  using assms by (simp add: onActivate_def detectCurrentPage_def Let_def)

lemma onActivate_double_check_missed:
  assumes "pathname loc \<noteq> ''/cart''" and "pathname loc' = ''/cart''"
    and "str_includes (href loc') ''target.com/p/''"
    and "isEnabled (loadSettingsAndProfile ld s)"
  shows "Call ''startCheckoutProcess''
           \<in> set (events_since s (onActivate loc loc' ld ld' obs iv s))"
proof -
  let ?s1 = "loadSettingsAndProfile ld s"
  let ?s2 = "handlePageDetection Product ld' obs iv ?s1"
  from trace_load_ext [of ld s] obtain ev where "trace ?s1 = trace s @ ev" by blast
  then have "length (trace s) \<le> length (trace ?s1)" by (simp only: length_append le_add1)
  then have sub: "set (events_since ?s1 ?s2) \<subseteq> set (events_since s ?s2)"
    unfolding events_since_def by (rule set_drop_subset_set_drop)
  have "Call ''startCheckoutProcess'' \<in> set (events_since ?s1 ?s2)"
    using assms(4) by (rule product_page_is_automated)
  then have "Call ''startCheckoutProcess'' \<in> set (events_since s ?s2)"
    using sub by blast
  moreover have "onActivate loc loc' ld ld' obs iv s = ?s2"
    using assms by (simp add: onActivate_def detectCurrentPage_def Let_def)
  ultimately show ?thesis by (simp only:)
qed

text \<open>
  C7. The claim is what the source announces (\<^verbatim>\<open>Use exact pathname match for cart
  detection\<close>, \<^verbatim>\<open>Skip processing for cart pages completely\<close>, \<^verbatim>\<open>Double-check to avoid
  cart processing\<close>), and the script does not keep it. \<^verbatim>\<open>onActivate\<close> is called on a
  product page, so its guard passes; while the settings load the page navigates to a
  cart address that carries a product address in its query. The address has the path
  \<^verbatim>\<open>/cart\<close>, \<^verbatim>\<open>detectCurrentPage\<close> classifies it as a product page, the double-check
  lets it through, and the settings are loaded and the product pipeline is started on
  the cart page. Had the cart address been a plain one, or had the page been the cart
  page when \<^verbatim>\<open>onActivate\<close> was called, nothing would have been started.
\<close>

theorem cart_detection_after_navigation:
  "pathname product_address \<noteq> ''/cart''
   \<and> pathname cart_with_query = ''/cart''
   \<and> detectCurrentPage cart_with_query = Product
   \<and> events_since ready_state
        (onActivate product_address cart_with_query (reload product_page_ok)
           (reload product_page_ok) 1 2 ready_state)
       = [StorageGet ''siteSettings'', Status ''Ready on product page'' ''status-running'',
          StorageGet ''siteSettings'', Call ''startCheckoutProcess'']
   \<and> detectCurrentPage cart_plain = Cart
   \<and> events_since ready_state
        (onActivate product_address cart_plain (reload product_page_ok)
           (reload product_page_ok) 1 2 ready_state)
       = [StorageGet ''siteSettings'']
   \<and> events_since ready_state
        (onActivate cart_with_query cart_with_query (reload product_page_ok)
           (reload product_page_ok) 1 2 ready_state)
       = [Status ''Cart page detected (automation disabled)'' ''status-waiting'']"
  by (simp add: product_address_def cart_with_query_def cart_plain_def detectCurrentPage_def
      onActivate_def handlePageDetection_def cleanup_def loadSettingsAndProfile_def
      product_page_ok_def ready_state_def initial_state_def events_since_def
      updateStatus_def emit_def Let_def)

end
